(* ===== verification/Prelude.thy ===== *)
theory Prelude
  imports Complex_Main "HOL-Library.Multiset"
begin

text \<open>
  Shared vocabulary of the alx-polly development: the JavaScript values a request body
  carries after \<open>request.json()\<close>, the HTTP responses built by \<open>NextResponse.json\<close>,
  the \<open>{ error }\<close> objects returned by the server actions, and the list lemmas on
  sorting and counting that the rate limiter and the duplicate-vote guard need.
  Identifiers (user ids, poll ids) are opaque UUID strings in the source; only their
  equality is ever tested, so they are natural numbers here. Timestamps are the
  milliseconds of \<open>Date.getTime()\<close>, as integers.
\<close>

named_theorems store_simps "characteristic equations of the data-store model"
named_theorems handler_simps "unfolding rules of the request handlers"

type_synonym uid = nat
type_synonym pid = nat
type_synonym timestamp = int

subsection \<open>JavaScript values\<close>

text \<open>
  A JSON value as the handlers see it. JSON has no \<open>NaN\<close> or infinities, so a number is
  a finite rational; objects and arrays are lumped into \<open>JOther\<close> (truthy, of
  \<open>typeof\<close> "object"), which is all the handlers distinguish.
\<close>

datatype jsval = JNum rat | JStr string | JBool bool | JNull | JUndefined | JOther

fun js_is_number :: "jsval \<Rightarrow> bool" where
  "js_is_number (JNum _) = True"
| "js_is_number _ = False"

text \<open>JavaScript truthiness (\<open>!x\<close>, \<open>filter(Boolean)\<close>).\<close>

fun js_truthy :: "jsval \<Rightarrow> bool" where
  "js_truthy (JNum r) = (r \<noteq> 0)"
| "js_truthy (JStr s) = (s \<noteq> [])"
| "js_truthy (JBool b) = b"
| "js_truthy JNull = False"
| "js_truthy JUndefined = False"
| "js_truthy JOther = True"

text \<open>
  The parsed body of a JSON request. \<open>Malformed\<close> is a body on which
  \<open>request.json()\<close> rejects; \<open>JsonNull\<close> is the literal \<open>null\<close>, on which
  destructuring \<open>const { f } = body\<close> throws a TypeError; a primitive or array
  destructures to \<open>undefined\<close> fields.
\<close>

datatype json_body = Malformed | JsonNull | JsonPrim jsval | JsonObject "(string \<times> jsval) list"

text \<open>\<open>const { k } = await request.json()\<close>: \<open>None\<close> when the statement throws.\<close>

fun body_field :: "json_body \<Rightarrow> string \<Rightarrow> jsval option" where
  "body_field Malformed k = None"
| "body_field JsonNull k = None"
| "body_field (JsonPrim v) k = Some JUndefined"
| "body_field (JsonObject fs) k = Some (case map_of fs k of None \<Rightarrow> JUndefined | Some v \<Rightarrow> v)"

subsection \<open>JavaScript strings\<close>

text \<open>\<open>String.prototype.trim\<close> on the ASCII white space (space, tab, LF, VT, FF, CR).\<close>

definition js_is_space :: "char \<Rightarrow> bool" where
  "js_is_space c = (c \<in> set [CHR '' '', CHR 0x09, CHR 0x0A, CHR 0x0B, CHR 0x0C, CHR 0x0D])"

definition js_trim :: "string \<Rightarrow> string" where
  "js_trim s = rev (dropWhile js_is_space (rev (dropWhile js_is_space s)))"

subsection \<open>Responses\<close>

text \<open>
  \<open>NextResponse.json(body, { status })\<close>: the status code and either the error message
  of an \<open>{ error }\<close> body (\<open>Inl\<close>) or the success payload (\<open>Inr\<close>).
\<close>

record 'a response =
  status :: nat
  payload :: "string + 'a"

definition ok_resp :: "nat \<Rightarrow> 'a \<Rightarrow> 'a response" where
  "ok_resp n x = \<lparr>status = n, payload = Inr x\<rparr>"

definition err_resp :: "nat \<Rightarrow> string \<Rightarrow> 'a response" where
  "err_resp n m = \<lparr>status = n, payload = Inl m\<rparr>"

text \<open>
  How the client reads a response: \<open>response.ok\<close> (a status in 200..299), the
  \<open>data.error || dflt\<close> of an error body, and the text \<open>${data.error}\<close> of a template
  literal, "undefined" when the body has no error.
\<close>

definition resp_ok :: "'a response \<Rightarrow> bool" where
  "resp_ok r = (200 \<le> status r \<and> status r < 300)"

definition error_or :: "'a response \<Rightarrow> string \<Rightarrow> string" where
  "error_or r dflt = (case payload r of Inl m \<Rightarrow> if m = [] then dflt else m | Inr _ \<Rightarrow> dflt)"

definition error_text :: "'a response \<Rightarrow> string" where
  "error_text r = (case payload r of Inl m \<Rightarrow> m | Inr _ \<Rightarrow> ''undefined'')"

text \<open>
  The shape of a route's responses: a status among the documented codes, and an error
  body exactly when the status is not a success.
\<close>

definition response_typed :: "nat list \<Rightarrow> 'a response \<Rightarrow> bool" where
  "response_typed codes r = (status r \<in> set codes \<and> (resp_ok r \<longleftrightarrow> (\<exists>x. payload r = Inr x)))"

text \<open>A server action's \<open>{ error: string | null }\<close> result is a \<open>string option\<close>.\<close>

type_synonym action_result = "string option"

subsection \<open>Supabase's \<open>.single()\<close>\<close>

text \<open>
  \<open>.single()\<close> yields the row when the query matched exactly one row; on zero rows or on
  several rows it reports an error and \<open>data\<close> is \<open>null\<close>.
\<close>

fun single :: "'a list \<Rightarrow> 'a option" where
  "single [x] = Some x"
| "single _ = None"

subsection \<open>Lemmas on strings, responses and \<open>.single()\<close>\<close>

lemma js_trim_Nil [simp]: "js_trim [] = []"
  by (simp add: js_trim_def)

lemma status_ok_resp [simp]: "status (ok_resp n x) = n"
  and payload_ok_resp [simp]: "payload (ok_resp n x) = Inr x"
  and status_err_resp [simp]: "status (err_resp n m) = n"
  and payload_err_resp [simp]: "payload (err_resp n m) = Inl m"
  by (simp_all add: ok_resp_def err_resp_def)

lemma resp_ok_simps [simp]:
  "resp_ok (ok_resp n x) \<longleftrightarrow> 200 \<le> n \<and> n < 300"
  "resp_ok (err_resp n m) \<longleftrightarrow> 200 \<le> n \<and> n < 300"
  by (simp_all add: resp_ok_def)

lemma response_typed_simps [simp]:
  "response_typed codes (ok_resp n x) \<longleftrightarrow> n \<in> set codes \<and> 200 \<le> n \<and> n < 300"
  "response_typed codes (err_resp n m) \<longleftrightarrow> n \<in> set codes \<and> \<not> (200 \<le> n \<and> n < 300)"
  by (simp_all add: response_typed_def resp_ok_def ok_resp_def err_resp_def)

lemma single_Some_iff [simp]: "single xs = Some x \<longleftrightarrow> xs = [x]"
  by (cases xs rule: single.cases) auto

lemma single_None_iff: "single xs = None \<longleftrightarrow> length xs \<noteq> 1"
  by (cases xs rule: single.cases) auto

lemma single_map: "single (map f xs) = map_option f (single xs)"
  by (cases xs rule: single.cases) auto

subsection \<open>Counting and sorting\<close>

text \<open>Sorting does not change how many elements satisfy a predicate.\<close>

lemma length_filter_sort [simp]: "length (filter P (sort xs)) = length (filter P xs)"
proof -
  have "length (filter P (sort xs)) = size (filter_mset P (mset (sort xs)))"
    by (metis mset_filter size_mset)
  also have "\<dots> = length (filter P xs)"
    by (metis mset_filter mset_sort size_mset)
  finally show ?thesis .
qed

text \<open>
  In a list, at most \<open>length xs - Suc j\<close> elements lie strictly above the \<open>j\<close>-th
  smallest one. This is the counting fact behind "the 5th most recent vote".
\<close>

lemma length_filter_above_sorted:
  assumes "sorted ys" and "j < length ys"
  shows "length (filter (\<lambda>x. ys ! j < x) ys) \<le> length ys - Suc j"
proof -
  have "\<forall>x \<in> set (take (Suc j) ys). \<not> ys ! j < x"
  proof
    fix x assume "x \<in> set (take (Suc j) ys)"
    then obtain i where "i < Suc j" "i < length ys" "x = ys ! i"
      by (auto simp: in_set_conv_nth)
    with assms show "\<not> ys ! j < x"
      by (simp add: sorted_nth_mono not_less)
  qed
  then have "filter (\<lambda>x. ys ! j < x) (take (Suc j) ys) = []"
    by (simp add: filter_empty_conv)
  moreover have "length (filter (\<lambda>x. ys ! j < x) ys) =
      length (filter (\<lambda>x. ys ! j < x) (take (Suc j) ys)) +
      length (filter (\<lambda>x. ys ! j < x) (drop (Suc j) ys))"
    by (metis append_take_drop_id filter_append length_append)
  ultimately have "length (filter (\<lambda>x. ys ! j < x) ys) =
      length (filter (\<lambda>x. ys ! j < x) (drop (Suc j) ys))"
    by simp
  also have "\<dots> \<le> length (drop (Suc j) ys)" by (rule length_filter_le)
  finally show ?thesis by simp
qed

lemma length_filter_above_sort:
  assumes "j < length xs"
  shows "length (filter (\<lambda>x. sort xs ! j < x) xs) \<le> length xs - Suc j"
  using length_filter_above_sorted [of "sort xs" j] assms by simp

text \<open>The \<open>k\<close>-th element of the newest-first order is an element of the list.\<close>

lemma rev_sort_nth:
  assumes "k < length xs"
  shows "rev (sort xs) ! k = sort xs ! (length xs - Suc k)"
  using assms by (simp add: rev_nth)

text \<open>Counting is monotone in the predicate.\<close>

lemma length_filter_mono_pred:
  "(\<And>x. x \<in> set xs \<Longrightarrow> P x \<Longrightarrow> Q x) \<Longrightarrow> length (filter P xs) \<le> length (filter Q xs)"
  by (induction xs) auto

text \<open>
  The \<open>j\<close>-th smallest element lies above \<open>c\<close> exactly when at least
  \<open>length xs - j\<close> elements do: "the 5th newest vote is recent" is "five votes are
  recent".
\<close>

lemma sort_nth_less_iff:
  assumes "j < length xs"
  shows "c < sort xs ! j \<longleftrightarrow> length xs - j \<le> length (filter (\<lambda>x. c < x) xs)"
proof
  assume c: "c < sort xs ! j"
  have "\<forall>x \<in> set (drop j (sort xs)). c < x"
  proof
    fix x assume "x \<in> set (drop j (sort xs))"
    then obtain i where "i < length xs - j" "x = sort xs ! (j + i)"
      by (auto simp: in_set_conv_nth)
    then have "sort xs ! j \<le> x" by (simp add: sorted_nth_mono)
    with c show "c < x" by simp
  qed
  then have "length (drop j (sort xs)) = length (filter (\<lambda>x. c < x) (drop j (sort xs)))"
    by simp
  also have "\<dots> \<le> length (filter (\<lambda>x. c < x) (sort xs))"
    by (metis append_take_drop_id filter_append length_append le_add2)
  finally show "length xs - j \<le> length (filter (\<lambda>x. c < x) xs)" by simp
next
  assume n: "length xs - j \<le> length (filter (\<lambda>x. c < x) xs)"
  show "c < sort xs ! j"
  proof (rule ccontr)
    assume "\<not> c < sort xs ! j"
    then have "length (filter (\<lambda>x. c < x) xs) \<le> length (filter (\<lambda>x. sort xs ! j < x) xs)"
      by (intro length_filter_mono_pred) simp
    also have "\<dots> \<le> length xs - Suc j" using assms by (rule length_filter_above_sort)
    finally show False using n assms by simp
  qed
qed

text \<open>Under a key that is injective on the list, each key occurs at most once.\<close>

lemma distinct_map_filter_le1:
  "distinct (map f xs) \<Longrightarrow> length (filter (\<lambda>x. f x = k) xs) \<le> 1"
proof (induction xs)
  case Nil
  then show ?case by simp
next
  case (Cons x xs)
  show ?case
  proof (cases "f x = k")
    case True
    have "f x \<notin> f ` set xs" using Cons.prems by simp
    then have "\<forall>y \<in> set xs. f y \<noteq> k" using True by (metis imageI)
    then have "filter (\<lambda>x. f x = k) xs = []" by (simp add: filter_empty_conv)
    with True show ?thesis by simp
  next
    case False
    with Cons show ?thesis by simp
  qed
qed

lemma distinct_map_filter_single:
  assumes "distinct (map f xs)"
  shows "single (filter (\<lambda>x. f x = k) xs) = None \<longleftrightarrow> (\<forall>x \<in> set xs. f x \<noteq> k)"
proof -
  have "length (filter (\<lambda>x. f x = k) xs) \<le> 1"
    using assms by (rule distinct_map_filter_le1)
  then have "length (filter (\<lambda>x. f x = k) xs) \<noteq> 1 \<longleftrightarrow> filter (\<lambda>x. f x = k) xs = []"
    by (cases "filter (\<lambda>x. f x = k) xs") auto
  then show ?thesis by (simp add: single_None_iff filter_empty_conv)
qed

end
