(* ===== verification/Store.thy ===== *)
theory Store
  imports Prelude
begin

text \<open>
  The data model of \<open>src/app/lib/types/index.ts\<close> (one record per interface) and the
  hosted backend the handlers call through \<open>createClient()\<close> of
  \<open>@/lib/supabase/server\<close>, a module of the repository that is not among the sources:
  its tables are lists of rows in a \<open>db\<close> record, and the answers of the
  authentication service and the clock for one request are an \<open>env\<close> record.
  The insert, update and delete operations are the PostgREST semantics the handlers rely
  on: an insert appends a row with a generated id and the current time, an update
  rewrites the rows that match every \<open>.eq\<close> filter, a poll delete cascades to its votes
  and comments through the foreign keys.
\<close>

subsection \<open>Rows (\<open>types/index.ts\<close>)\<close>

datatype role = Admin | User

record poll =
  p_id :: pid
  p_user_id :: uid
  p_question :: string
  p_options :: "string list"
  p_created_at :: timestamp
  p_updated_at :: timestamp
  p_is_active :: bool
  p_expires_at :: "timestamp option"

record vote =
  v_id :: nat
  v_poll_id :: pid
  v_user_id :: uid
  v_option_index :: rat
  v_created_at :: timestamp

record profile =
  u_id :: uid
  u_email :: string
  u_role :: role
  u_created_at :: timestamp

record comment =
  c_id :: nat
  c_poll_id :: pid
  c_user_id :: uid
  c_content :: string
  c_created_at :: timestamp

text \<open>
  A column value as the client sends it. The \<open>user_id\<close> column of
  \<open>email_notifications\<close> receives whatever the caller puts there, so its type in the
  model is the union of what the code may put there.
\<close>

datatype dbval = DUid uid | DTime timestamp | DText string

datatype notification_type = PollClosing | NewComment | PollCreated

record notification =
  n_id :: nat
  n_user_id :: dbval
  n_poll_id :: pid
  n_type :: notification_type
  n_email :: string

subsection \<open>The backend state and one request's environment\<close>

record db =
  polls :: "poll list"
  votes :: "vote list"
  profiles :: "profile list"
  comments :: "comment list"
  notifications :: "notification list"
  next_id :: nat

definition empty_db :: db where
  "empty_db = \<lparr>polls = [], votes = [], profiles = [], comments = [], notifications = [],
     next_id = 0\<rparr>"

text \<open>
  What the external collaborators answer during one request: the user that
  \<open>supabase.auth.getUser()\<close> resolves and its error, the wall clock (used both by
  \<open>new Date()\<close> in the handler and by the column default of \<open>created_at\<close>), whether
  every select of the request fails with an error message (Supabase then returns
  \<open>data: null\<close> and the \<open>error\<close>), the error message of a failing write, and the
  secret that \<open>await csrf.secret()\<close> draws during the request (random, hence fresh).
\<close>

record env =
  session_user :: "uid option"
  auth_error :: "string option"
  clock :: timestamp
  read_error :: "string option"
  write_error :: "string option"
  fresh_secret :: nat

subsection \<open>Queries\<close>

text \<open>A select whose rows are \<open>rows\<close>, as its \<open>data\<close>: \<open>null\<close> when the read fails.\<close>

definition select_rows :: "env \<Rightarrow> 'a list \<Rightarrow> 'a list option" where
  "select_rows e rows = (case read_error e of Some _ \<Rightarrow> None | None \<Rightarrow> Some rows)"

text \<open>
  The \<open>{ data, error }\<close> of a select ending in \<open>.single()\<close>: the row when exactly one
  matched, otherwise \<open>data: null\<close> and PostgREST's error (code PGRST116).
\<close>

definition single_row_error :: string where
  "single_row_error = ''JSON object requested, multiple (or no) rows returned''"

definition sb_single :: "env \<Rightarrow> 'a list \<Rightarrow> 'a option \<times> string option" where
  "sb_single e rows =
     (case read_error e of
        Some m \<Rightarrow> (None, Some m)
      | None \<Rightarrow> (case single rows of Some r \<Rightarrow> (Some r, None) | None \<Rightarrow> (None, Some single_row_error)))"

definition poll_by_id :: "db \<Rightarrow> pid \<Rightarrow> poll list" where
  "poll_by_id d i = filter (\<lambda>p. p_id p = i) (polls d)"

definition role_of :: "db \<Rightarrow> uid \<Rightarrow> role option" where
  "role_of d u = map_option u_role (single (filter (\<lambda>r. u_id r = u) (profiles d)))"

subsection \<open>Writes\<close>

definition db_insert_vote :: "env \<Rightarrow> pid \<Rightarrow> uid \<Rightarrow> rat \<Rightarrow> db \<Rightarrow> db" where
  "db_insert_vote e p u oi d =
     d\<lparr>votes := votes d @ [\<lparr>v_id = next_id d, v_poll_id = p, v_user_id = u,
                             v_option_index = oi, v_created_at = clock e\<rparr>],
       next_id := Suc (next_id d)\<rparr>"

definition db_insert_poll :: "env \<Rightarrow> uid \<Rightarrow> string \<Rightarrow> string list \<Rightarrow> db \<Rightarrow> db" where
  "db_insert_poll e u q opts d =
     d\<lparr>polls := polls d @ [\<lparr>p_id = next_id d, p_user_id = u, p_question = q, p_options = opts,
                             p_created_at = clock e, p_updated_at = clock e,
                             p_is_active = True, p_expires_at = None\<rparr>],
       next_id := Suc (next_id d)\<rparr>"

definition db_update_poll :: "pid \<Rightarrow> uid \<Rightarrow> string \<Rightarrow> string list \<Rightarrow> db \<Rightarrow> db" where
  "db_update_poll i u q opts d =
     d\<lparr>polls := map (\<lambda>p. if p_id p = i \<and> p_user_id p = u
                          then p\<lparr>p_question := q, p_options := opts\<rparr> else p) (polls d)\<rparr>"

definition db_delete_poll :: "pid \<Rightarrow> db \<Rightarrow> db" where
  "db_delete_poll i d =
     d\<lparr>polls := filter (\<lambda>p. p_id p \<noteq> i) (polls d),
       votes := filter (\<lambda>v. v_poll_id v \<noteq> i) (votes d),
       comments := filter (\<lambda>c. c_poll_id c \<noteq> i) (comments d)\<rparr>"

definition db_update_role :: "uid \<Rightarrow> role \<Rightarrow> db \<Rightarrow> db" where
  "db_update_role u r d =
     d\<lparr>profiles := map (\<lambda>pr. if u_id pr = u then pr\<lparr>u_role := r\<rparr> else pr) (profiles d)\<rparr>"

definition db_insert_comment :: "env \<Rightarrow> pid \<Rightarrow> uid \<Rightarrow> string \<Rightarrow> db \<Rightarrow> db" where
  "db_insert_comment e p u txt d =
     d\<lparr>comments := comments d @ [\<lparr>c_id = next_id d, c_poll_id = p, c_user_id = u,
                                   c_content = txt, c_created_at = clock e\<rparr>],
       next_id := Suc (next_id d)\<rparr>"

definition db_insert_notification :: "dbval \<Rightarrow> pid \<Rightarrow> notification_type \<Rightarrow> string \<Rightarrow> db \<Rightarrow> db" where
  "db_insert_notification u p t m d =
     d\<lparr>notifications := notifications d @ [\<lparr>n_id = next_id d, n_user_id = u, n_poll_id = p,
                                             n_type = t, n_email = m\<rparr>],
       next_id := Suc (next_id d)\<rparr>"

subsection \<open>Lemmas\<close>

lemma select_rows_simps [simp, store_simps]:
  "read_error e = None \<Longrightarrow> select_rows e rows = Some rows"
  "read_error e = Some m \<Longrightarrow> select_rows e rows = None"
  by (simp_all add: select_rows_def)

lemma sb_single_simps [simp, store_simps]:
  "read_error e = Some m \<Longrightarrow> sb_single e rows = (None, Some m)"
  "read_error e = None \<Longrightarrow> sb_single e [r] = (Some r, None)"
  by (simp_all add: sb_single_def)

lemma sb_single_not_one [store_simps]:
  "read_error e = None \<Longrightarrow> length rows \<noteq> 1 \<Longrightarrow> sb_single e rows = (None, Some single_row_error)"
  using single_None_iff [of rows] by (simp add: sb_single_def)

text \<open>Frame rules: which tables each write leaves alone.\<close>

lemma db_insert_vote_frame [simp, store_simps]:
  "polls (db_insert_vote e p u oi d) = polls d"
  "profiles (db_insert_vote e p u oi d) = profiles d"
  "comments (db_insert_vote e p u oi d) = comments d"
  "votes (db_insert_vote e p u oi d) = votes d @ [\<lparr>v_id = next_id d, v_poll_id = p,
     v_user_id = u, v_option_index = oi, v_created_at = clock e\<rparr>]"
  by (simp_all add: db_insert_vote_def)

lemma db_insert_poll_frame [simp, store_simps]:
  "votes (db_insert_poll e u q opts d) = votes d"
  "profiles (db_insert_poll e u q opts d) = profiles d"
  by (simp_all add: db_insert_poll_def)

lemma db_update_poll_frame [simp, store_simps]:
  "votes (db_update_poll i u q opts d) = votes d"
  "profiles (db_update_poll i u q opts d) = profiles d"
  by (simp_all add: db_update_poll_def)

lemma db_update_role_frame [simp, store_simps]:
  "votes (db_update_role u r d) = votes d"
  "polls (db_update_role u r d) = polls d"
  by (simp_all add: db_update_role_def)

lemma db_insert_comment_frame [simp, store_simps]:
  "votes (db_insert_comment e p u txt d) = votes d"
  "polls (db_insert_comment e p u txt d) = polls d"
  "profiles (db_insert_comment e p u txt d) = profiles d"
  by (simp_all add: db_insert_comment_def)

lemma db_insert_notification_frame [simp, store_simps]:
  "votes (db_insert_notification u p t m d) = votes d"
  "polls (db_insert_notification u p t m d) = polls d"
  "profiles (db_insert_notification u p t m d) = profiles d"
  by (simp_all add: db_insert_notification_def)

lemma db_delete_poll_profiles [simp, store_simps]:
  "profiles (db_delete_poll i d) = profiles d"
  and db_delete_poll_votes [store_simps]:
  "votes (db_delete_poll i d) = filter (\<lambda>v. v_poll_id v \<noteq> i) (votes d)"
  by (simp_all add: db_delete_poll_def)

end
