(* ===== verification/Vote.thy ===== *)
theory Vote
  imports Store
begin

text \<open>
  Vote submission: the route \<open>POST /api/polls/[id]/vote\<close>
  (\<open>src/app/api/polls/[id]/vote/route.ts\<close>) and the server action \<open>submitVote\<close>
  (\<open>src/app/lib/actions/poll-actions.ts\<close>). Both run the same pipeline: resolve the
  caller, the sliding-window rate limiter (the caller's five newest votes), the
  duplicate-vote guard (a \<open>.single()\<close> query on poll and caller), then one insert.
  The route validates \<open>optionIndex\<close> first; the action does not validate it at all.
\<close>

subsection \<open>The rate limiter\<close>

text \<open>
  \<open>.select('created_at').eq('user_id', user.id).order('created_at', {ascending: false})
  .limit(5)\<close>: the creation times of the caller's votes, newest first, at most five.
  Only the timestamps are selected, so the order among equal timestamps is irrelevant.
\<close>

definition user_times :: "db \<Rightarrow> uid \<Rightarrow> timestamp list" where
  "user_times d u = map v_created_at (filter (\<lambda>v. v_user_id v = u) (votes d))"

definition recent_vote_times :: "db \<Rightarrow> uid \<Rightarrow> timestamp list" where
  "recent_vote_times d u = take 5 (rev (sort (user_times d u)))"

text \<open>\<open>(new Date().getTime() - oldestVote.getTime()) / 1000\<close>, in seconds.\<close>

definition time_diff_secs :: "timestamp \<Rightarrow> timestamp \<Rightarrow> rat" where
  "time_diff_secs now t = of_int (now - t) / 1000"

definition rate_limited :: "env \<Rightarrow> db \<Rightarrow> uid \<Rightarrow> bool" where
  "rate_limited e d u =
     (case select_rows e (recent_vote_times d u) of
        None \<Rightarrow> False
      | Some recent \<Rightarrow> 5 \<le> length recent \<and> time_diff_secs (clock e) (recent ! 4) < 60)"

subsection \<open>The duplicate-vote guard\<close>

text \<open>
  \<open>.select().eq("poll_id", pollId).eq("user_id", user.id).single()\<close>: the caller's vote
  on the poll if there is exactly one such row, otherwise \<open>null\<close>.
\<close>

definition existing_vote :: "env \<Rightarrow> db \<Rightarrow> pid \<Rightarrow> uid \<Rightarrow> vote option" where
  "existing_vote e d p u =
     (case select_rows e (filter (\<lambda>v. v_poll_id v = p \<and> v_user_id v = u) (votes d)) of
        None \<Rightarrow> None
      | Some rows \<Rightarrow> single rows)"

subsection \<open>The route handler\<close>

text \<open>
  \<open>typeof optionIndex !== 'number' || optionIndex < 0\<close> is checked before the caller is
  resolved; a body on which \<open>request.json()\<close> or the destructuring throws ends in the
  \<open>catch\<close> with status 500.
\<close>

definition vote_POST :: "env \<Rightarrow> pid \<Rightarrow> json_body \<Rightarrow> db \<Rightarrow> unit response \<times> db" where
  "vote_POST e p body d =
     (case body_field body ''optionIndex'' of
        None \<Rightarrow> (err_resp 500 ''Internal server error'', d)
      | Some oi \<Rightarrow>
        (case oi of
           JNum r \<Rightarrow>
             if r < 0 then (err_resp 400 ''Invalid option index'', d)
             else
               (case session_user e of
                  None \<Rightarrow> (err_resp 401 ''You must be logged in to vote.'', d)
                | Some u \<Rightarrow>
                    if rate_limited e d u
                    then (err_resp 429 ''Voting too fast. Please wait before voting again.'', d)
                    else if existing_vote e d p u \<noteq> None
                    then (err_resp 409 ''You have already voted on this poll'', d)
                    else (case write_error e of
                            Some m \<Rightarrow> (err_resp 500 m, d)
                          | None \<Rightarrow> (ok_resp 200 (), db_insert_vote e p u r d)))
         | _ \<Rightarrow> (err_resp 400 ''Invalid option index'', d)))"

subsection \<open>The server action\<close>

definition submitVote :: "env \<Rightarrow> pid \<Rightarrow> rat \<Rightarrow> db \<Rightarrow> action_result \<times> db" where
  "submitVote e p oi d =
     (case session_user e of
        None \<Rightarrow> (Some ''You must be logged in to vote.'', d)
      | Some u \<Rightarrow>
          if rate_limited e d u
          then (Some ''Voting too fast. Please wait before voting again.'', d)
          else if existing_vote e d p u \<noteq> None
          then (Some ''You have already voted on this poll'', d)
          else (case write_error e of
                  Some m \<Rightarrow> (Some m, d)
                | None \<Rightarrow> (None, db_insert_vote e p u oi d)))"

subsection \<open>The two phases of a request\<close>

text \<open>
  Every check of the handler only reads; the insert is its one write. The handler is the
  composition of a read phase, which decides, and a write phase, which commits. The two
  are separate round trips to the store, so other requests can run between them: this
  split is what the interleaving model below schedules.
\<close>

datatype vote_check = Reject "unit response" | Proceed uid rat

definition vote_read_phase :: "env \<Rightarrow> pid \<Rightarrow> json_body \<Rightarrow> db \<Rightarrow> vote_check" where
  "vote_read_phase e p body d =
     (case body_field body ''optionIndex'' of
        None \<Rightarrow> Reject (err_resp 500 ''Internal server error'')
      | Some oi \<Rightarrow>
        (case oi of
           JNum r \<Rightarrow>
             if r < 0 then Reject (err_resp 400 ''Invalid option index'')
             else
               (case session_user e of
                  None \<Rightarrow> Reject (err_resp 401 ''You must be logged in to vote.'')
                | Some u \<Rightarrow>
                    if rate_limited e d u
                    then Reject (err_resp 429 ''Voting too fast. Please wait before voting again.'')
                    else if existing_vote e d p u \<noteq> None
                    then Reject (err_resp 409 ''You have already voted on this poll'')
                    else Proceed u r)
         | _ \<Rightarrow> Reject (err_resp 400 ''Invalid option index'')))"

definition vote_write_phase :: "env \<Rightarrow> pid \<Rightarrow> uid \<Rightarrow> rat \<Rightarrow> db \<Rightarrow> unit response \<times> db" where
  "vote_write_phase e p u r d =
     (case write_error e of
        Some m \<Rightarrow> (err_resp 500 m, d)
      | None \<Rightarrow> (ok_resp 200 (), db_insert_vote e p u r d))"

subsection \<open>Invariants\<close>

text \<open>
  The two promises of the flow (spec, sections 3 and 9): at most one vote per poll and
  caller, and no caller with more than five votes in any 60-second window. The window is
  half-open: the handler lets the sixth vote through when the fifth newest is exactly
  60 seconds old. \<open>window_ok\<close> checks the windows that start at a vote, which is
  enough (lemma \<open>window_ok_in_window\<close>) and keeps the invariant executable.
\<close>

definition unique_votes :: "db \<Rightarrow> bool" where
  "unique_votes d = distinct (map (\<lambda>v. (v_poll_id v, v_user_id v)) (votes d))"

definition in_window :: "timestamp \<Rightarrow> timestamp list \<Rightarrow> nat" where
  "in_window t xs = length (filter (\<lambda>x. t \<le> x \<and> x < t + 60000) xs)"

definition window_ok :: "timestamp list \<Rightarrow> bool" where
  "window_ok xs = (\<forall>t \<in> set xs. in_window t xs \<le> 5)"

definition rate_ok :: "db \<Rightarrow> bool" where
  "rate_ok d = (\<forall>v \<in> set (votes d). window_ok (user_times d (v_user_id v)))"

text \<open>
  States reachable from an empty store by vote requests, one after the other, whose
  reads succeed. (A failing read makes both guards pass; see \<open>vote_read_error_fail_open\<close>.)
\<close>

inductive vote_reach :: "db \<Rightarrow> bool" where
  start: "vote_reach empty_db"
| route: "vote_reach d \<Longrightarrow> read_error e = None \<Longrightarrow> vote_reach (snd (vote_POST e p b d))"
| action: "vote_reach d \<Longrightarrow> read_error e = None \<Longrightarrow> vote_reach (snd (submitVote e p r d))"

subsection \<open>Interleaved requests\<close>

text \<open>
  Concurrent requests: each one performs its read phase against the current store and
  waits with its decision in \<open>in_flight\<close>; any waiting request may commit at any later
  moment. Running a request's two phases back to back is \<open>vote_POST\<close>
  (lemma \<open>vote_POST_phases\<close>).
\<close>

record vote_sys =
  sys_db :: db
  in_flight :: "(env \<times> pid \<times> uid \<times> rat) list"

inductive vote_conc :: "vote_sys \<Rightarrow> vote_sys \<Rightarrow> bool" where
  read_step: "vote_read_phase e p b (sys_db s) = Proceed u r \<Longrightarrow>
     vote_conc s (s\<lparr>in_flight := in_flight s @ [(e, p, u, r)]\<rparr>)"
| commit_step: "in_flight s = xs @ (e, p, u, r) # ys \<Longrightarrow>
     vote_conc s \<lparr>sys_db = snd (vote_write_phase e p u r (sys_db s)), in_flight = xs @ ys\<rparr>"

subsection \<open>The contract of the specification\<close>

text \<open>
  Section 4.1 of the spec as an abstract machine over the multiset of ballots
  (poll, voter, option, time): identity first, then a non-negative integer index, then
  the rate limit stated as a count ("five votes younger than 60 seconds"), then the
  duplicate check, then the write.
\<close>

datatype vote_outcome = InvalidInput | Unauthenticated | RateLimited | Conflict
  | StoreFailure | Voted

record ballot =
  b_poll :: pid
  b_voter :: uid
  b_option :: rat
  b_time :: timestamp

definition ballots :: "db \<Rightarrow> ballot multiset" where
  "ballots d = mset (map (\<lambda>v. \<lparr>b_poll = v_poll_id v, b_voter = v_user_id v,
     b_option = v_option_index v, b_time = v_created_at v\<rparr>) (votes d))"

fun valid_index :: "jsval \<Rightarrow> rat option" where
  "valid_index (JNum r) = (if 0 \<le> r \<and> of_int \<lfloor>r\<rfloor> = r then Some r else None)"
| "valid_index _ = None"

fun is_fraction :: "jsval \<Rightarrow> bool" where
  "is_fraction (JNum r) = (of_int \<lfloor>r\<rfloor> \<noteq> r)"
| "is_fraction _ = False"

definition vote_spec :: "uid option \<Rightarrow> jsval \<Rightarrow> timestamp \<Rightarrow> bool \<Rightarrow> pid \<Rightarrow> ballot multiset
    \<Rightarrow> vote_outcome \<times> ballot multiset" where
  "vote_spec caller oi now write_fails p B =
     (case caller of
        None \<Rightarrow> (Unauthenticated, B)
      | Some u \<Rightarrow>
        (case valid_index oi of
           None \<Rightarrow> (InvalidInput, B)
         | Some r \<Rightarrow>
             if 5 \<le> size (filter_mset (\<lambda>x. b_voter x = u \<and> now - b_time x < 60000) B)
             then (RateLimited, B)
             else if (\<exists>x \<in># B. b_poll x = p \<and> b_voter x = u) then (Conflict, B)
             else if write_fails then (StoreFailure, B)
             else (Voted, add_mset \<lparr>b_poll = p, b_voter = u, b_option = r, b_time = now\<rparr> B)))"

text \<open>The error categories of spec section 7, read off the status code (section 6).\<close>

definition outcome_of_status :: "nat \<Rightarrow> vote_outcome" where
  "outcome_of_status n =
     (if n = 200 then Voted else if n = 400 then InvalidInput
      else if n = 401 then Unauthenticated else if n = 409 then Conflict
      else if n = 429 then RateLimited else StoreFailure)"

subsection \<open>Lemmas\<close>

lemmas vote_defs [handler_simps] = vote_POST_def vote_read_phase_def vote_write_phase_def

lemma vote_POST_phases:
  "vote_POST e p body d =
     (case vote_read_phase e p body d of
        Reject r \<Rightarrow> (r, d)
      | Proceed u r \<Rightarrow> vote_write_phase e p u r d)"
  by (simp add: vote_defs split: option.split jsval.split)


lemma time_diff_secs_lt: "time_diff_secs now t < 60 \<longleftrightarrow> now - t < 60000"
proof -
  have "time_diff_secs now t < 60 \<longleftrightarrow> (of_int (now - t) :: rat) < of_int 60000"
    by (simp add: time_diff_secs_def divide_less_eq)
  then show ?thesis by (simp only: of_int_less_iff)
qed

lemma rate_limited_iff:
  assumes "read_error e = None"
  shows "rate_limited e d u \<longleftrightarrow> 5 \<le> length (filter (\<lambda>t. clock e - t < 60000) (user_times d u))"
proof (cases "5 \<le> length (user_times d u)")
  case True
  let ?xs = "user_times d u"
  have len: "5 \<le> length (recent_vote_times d u)"
    using True by (simp add: recent_vote_times_def)
  have nth: "recent_vote_times d u ! 4 = sort ?xs ! (length ?xs - 5)"
    using True by (simp add: recent_vote_times_def rev_nth)
  have "rate_limited e d u \<longleftrightarrow> clock e - 60000 < sort ?xs ! (length ?xs - 5)"
    using assms len nth by (simp add: rate_limited_def time_diff_secs_lt; arith)
  also have "\<dots> \<longleftrightarrow> 5 \<le> length (filter (\<lambda>t. clock e - 60000 < t) ?xs)"
    using True by (subst sort_nth_less_iff) auto
  finally show ?thesis by (simp add: algebra_simps)
next
  case False
  then have "length (filter (\<lambda>t. clock e - t < 60000) (user_times d u)) < 5"
    by (meson length_filter_le le_less_trans not_le)
  with False assms show ?thesis
    by (simp add: rate_limited_def recent_vote_times_def)
qed

lemma existing_vote_None_iff:
  assumes "unique_votes d" "read_error e = None"
  shows "existing_vote e d p u = None \<longleftrightarrow> (\<forall>v \<in> set (votes d). \<not> (v_poll_id v = p \<and> v_user_id v = u))"
  using assms distinct_map_filter_single [of "\<lambda>v. (v_poll_id v, v_user_id v)" "votes d" "(p, u)"]
  by (simp add: existing_vote_def unique_votes_def)

lemma window_ok_in_window:
  assumes "window_ok xs"
  shows "in_window t xs \<le> 5"
proof (cases "filter (\<lambda>x. t \<le> x \<and> x < t + 60000) xs = []")
  case True
  then show ?thesis by (simp add: in_window_def)
next
  case False
  let ?W = "set (filter (\<lambda>x. t \<le> x \<and> x < t + 60000) xs)"
  let ?m = "Min ?W"
  have fin: "finite ?W" by simp
  have ne: "?W \<noteq> {}" by (metis False set_empty)
  from fin ne have m: "?m \<in> ?W" by (rule Min_in)
  have "in_window t xs \<le> in_window ?m xs"
    unfolding in_window_def
  proof (rule length_filter_mono_pred)
    fix x assume "x \<in> set xs" "t \<le> x \<and> x < t + 60000"
    then have "?m \<le> x" using fin by (intro Min_le) auto
    with m \<open>t \<le> x \<and> x < t + 60000\<close> show "?m \<le> x \<and> x < ?m + 60000" by auto
  qed
  also have "\<dots> \<le> 5" using assms m by (auto simp: window_ok_def)
  finally show ?thesis .
qed

lemma window_ok_snoc:
  assumes ok: "window_ok xs"
    and allowed: "\<not> 5 \<le> length (filter (\<lambda>t. n - t < 60000) xs)"
  shows "window_ok (xs @ [n])"
  unfolding window_ok_def
proof
  fix t assume t: "t \<in> set (xs @ [n])"
  show "in_window t (xs @ [n]) \<le> 5"
  proof (cases "t \<le> n \<and> n < t + 60000")
    case True
    have "in_window t xs \<le> length (filter (\<lambda>x. n - x < 60000) xs)"
      unfolding in_window_def by (rule length_filter_mono_pred) (use True in auto)
    with allowed True show ?thesis by (simp add: in_window_def)
  next
    case False
    with t have "t \<in> set xs" by auto
    have "in_window t (xs @ [n]) = in_window t xs"
      using False by (simp add: in_window_def)
    also have "\<dots> \<le> 5" using ok \<open>t \<in> set xs\<close> by (simp add: window_ok_def)
    finally show ?thesis .
  qed
qed

lemma user_times_insert:
  "user_times (db_insert_vote e p u r d) u' = user_times d u' @ (if u' = u then [clock e] else [])"
  by (simp add: user_times_def)

lemma window_ok_user_times:
  assumes "rate_ok d"
  shows "window_ok (user_times d u)"
proof (cases "\<exists>w \<in> set (votes d). v_user_id w = u")
  case True
  with assms show ?thesis by (auto simp: rate_ok_def)
next
  case False
  then have "user_times d u = []" by (simp add: user_times_def filter_empty_conv)
  then show ?thesis by (simp add: window_ok_def)
qed

lemma insert_preserves_rate_ok:
  assumes "rate_ok d" "read_error e = None" "\<not> rate_limited e d u"
  shows "rate_ok (db_insert_vote e p u r d)"
  unfolding rate_ok_def
proof
  fix v assume v: "v \<in> set (votes (db_insert_vote e p u r d))"
  show "window_ok (user_times (db_insert_vote e p u r d) (v_user_id v))"
  proof (cases "v_user_id v = u")
    case True
    have "\<not> 5 \<le> length (filter (\<lambda>t. clock e - t < 60000) (user_times d u))"
      using assms(2,3) by (simp add: rate_limited_iff)
    with window_ok_user_times [OF assms(1)] True show ?thesis
      by (simp add: user_times_insert window_ok_snoc)
  next
    case False
    with window_ok_user_times [OF assms(1)] show ?thesis by (simp add: user_times_insert)
  qed
qed

text \<open>Sixty seconds after the caller's newest vote, the limiter lets the caller through.\<close>

lemma not_rate_limited_after_quiet:
  assumes "read_error e = None" "\<forall>t \<in> set (user_times d u). t + 60000 \<le> clock e"
  shows "\<not> rate_limited e d u"
proof -
  have "filter (\<lambda>t. clock e - t < 60000) (user_times d u) = []"
    using assms(2) by (auto simp: filter_empty_conv)
  then show ?thesis using assms(1) by (simp add: rate_limited_iff)
qed

lemma insert_preserves_unique:
  assumes "unique_votes d" "read_error e = None" "existing_vote e d p u = None"
  shows "unique_votes (db_insert_vote e p u r d)"
  using assms existing_vote_None_iff [OF assms(1,2)] by (auto simp: unique_votes_def)

lemma vote_read_phase_ProceedD:
  assumes "vote_read_phase e p b d = Proceed u r"
  shows "session_user e = Some u \<and> \<not> rate_limited e d u \<and> existing_vote e d p u = None
    \<and> body_field b ''optionIndex'' = Some (JNum r) \<and> 0 \<le> r"
  using assms
  by (auto simp: vote_read_phase_def split: option.splits jsval.splits if_splits)

lemma vote_POST_db_cases:
  "snd (vote_POST e p b d) = d \<or>
   (\<exists>u r. vote_read_phase e p b d = Proceed u r \<and> snd (vote_POST e p b d) = db_insert_vote e p u r d)"
  by (auto simp: vote_POST_phases vote_write_phase_def split: vote_check.split option.split)

lemma submitVote_db_cases:
  "snd (submitVote e p r d) = d \<or>
   (\<exists>u. session_user e = Some u \<and> \<not> rate_limited e d u \<and> existing_vote e d p u = None
      \<and> snd (submitVote e p r d) = db_insert_vote e p u r d)"
  by (auto simp: submitVote_def split: option.split)

lemma vote_POST_preserves_invs:
  assumes "unique_votes d" "rate_ok d" "read_error e = None"
  shows "unique_votes (snd (vote_POST e p b d)) \<and> rate_ok (snd (vote_POST e p b d))"
proof (cases "snd (vote_POST e p b d) = d")
  case True
  with assms show ?thesis by simp
next
  case False
  then obtain u r where ph: "vote_read_phase e p b d = Proceed u r"
    and db: "snd (vote_POST e p b d) = db_insert_vote e p u r d"
    using vote_POST_db_cases [of e p b d] by blast
  from vote_read_phase_ProceedD [OF ph] assms show ?thesis
    unfolding db by (simp add: insert_preserves_unique insert_preserves_rate_ok)
qed

lemma submitVote_preserves_invs:
  assumes "unique_votes d" "rate_ok d" "read_error e = None"
  shows "unique_votes (snd (submitVote e p r d)) \<and> rate_ok (snd (submitVote e p r d))"
proof (cases "snd (submitVote e p r d) = d")
  case True
  with assms show ?thesis by simp
next
  case False
  then obtain u where u: "\<not> rate_limited e d u" "existing_vote e d p u = None"
    and db: "snd (submitVote e p r d) = db_insert_vote e p u r d"
    using submitVote_db_cases [of e p r d] by blast
  from u assms show ?thesis
    unfolding db by (simp add: insert_preserves_unique insert_preserves_rate_ok)
qed

text \<open>Removing votes (the cascade of a poll deletion) keeps both invariants.\<close>

lemma filter_votes_preserves_invs:
  assumes "unique_votes d" "rate_ok d" "votes d' = filter P (votes d)"
  shows "unique_votes d' \<and> rate_ok d'"
proof
  show "unique_votes d'"
    using assms(1,3) by (simp add: unique_votes_def distinct_map_filter)
  show "rate_ok d'"
    unfolding rate_ok_def window_ok_def
  proof (intro ballI)
    fix v t
    assume v: "v \<in> set (votes d')" and t: "t \<in> set (user_times d' (v_user_id v))"
    have vd: "v \<in> set (votes d)" using v assms(3) by simp
    have td: "t \<in> set (user_times d (v_user_id v))"
      using t assms(3) by (auto simp: user_times_def)
    have "in_window t (user_times d' (v_user_id v)) \<le> in_window t (user_times d (v_user_id v))"
      unfolding in_window_def user_times_def assms(3)
      by (simp add: filter_map filter_filter, rule length_filter_mono_pred, simp)
    also have "\<dots> \<le> 5"
      using assms(2) vd td by (simp add: rate_ok_def window_ok_def)
    finally show "in_window t (user_times d' (v_user_id v)) \<le> 5" .
  qed
qed

lemma vote_reach_invs:
  assumes "vote_reach d"
  shows "unique_votes d \<and> rate_ok d"
  using assms
proof (induction rule: vote_reach.induct)
  case start
  then show ?case by (simp add: empty_db_def unique_votes_def rate_ok_def)
next
  case (route d e p b)
  then show ?case by (simp add: vote_POST_preserves_invs)
next
  case (action d e p r)
  then show ?case by (simp add: submitVote_preserves_invs)
qed

lemma ballots_insert:
  "ballots (db_insert_vote e p u r d) =
   add_mset \<lparr>b_poll = p, b_voter = u, b_option = r, b_time = clock e\<rparr> (ballots d)"
  by (simp add: ballots_def)

lemma ballots_recent_count:
  "size (filter_mset (\<lambda>x. b_voter x = u \<and> now - b_time x < 60000) (ballots d)) =
   length (filter (\<lambda>t. now - t < 60000) (user_times d u))"
proof -
  let ?P = "\<lambda>x. b_voter x = u \<and> now - b_time x < 60000"
  let ?g = "\<lambda>v. \<lparr>b_poll = v_poll_id v, b_voter = v_user_id v,
     b_option = v_option_index v, b_time = v_created_at v\<rparr>"
  have "size (filter_mset ?P (ballots d)) = length (filter ?P (map ?g (votes d)))"
    unfolding ballots_def by (simp only: mset_filter [symmetric] size_mset)
  also have "\<dots> = length (filter (\<lambda>v. v_user_id v = u \<and> now - v_created_at v < 60000) (votes d))"
    by (simp add: filter_map o_def)
  also have "\<dots> = length (filter (\<lambda>t. now - t < 60000) (user_times d u))"
    by (simp only: user_times_def filter_map length_map comp_def filter_filter)
  finally show ?thesis .
qed

lemma ballots_voted:
  "(\<exists>x \<in># ballots d. b_poll x = p \<and> b_voter x = u) \<longleftrightarrow>
   (\<exists>v \<in> set (votes d). v_poll_id v = p \<and> v_user_id v = u)"
  by (auto simp: ballots_def)

lemma outcome_of_status_simps [simp]:
  "outcome_of_status 200 = Voted" "outcome_of_status 400 = InvalidInput"
  "outcome_of_status 401 = Unauthenticated" "outcome_of_status 409 = Conflict"
  "outcome_of_status 429 = RateLimited" "outcome_of_status 500 = StoreFailure"
  by (simp_all add: outcome_of_status_def)

lemma vote_conc_readI:
  "vote_read_phase e p b (sys_db s) = Proceed u r \<Longrightarrow>
   t = s\<lparr>in_flight := in_flight s @ [(e, p, u, r)]\<rparr> \<Longrightarrow> vote_conc s t"
  by (simp add: vote_conc.read_step)

lemma vote_conc_commitI:
  "in_flight s = xs @ (e, p, u, r) # ys \<Longrightarrow>
   t = \<lparr>sys_db = snd (vote_write_phase e p u r (sys_db s)), in_flight = xs @ ys\<rparr> \<Longrightarrow> vote_conc s t"
  by (simp add: vote_conc.commit_step)

subsection \<open>Properties of vote submission\<close>

text \<open>C1: In every store state reachable from the empty store by vote requests (route or server action) whose reads succeed, no caller has two votes on the same poll.\<close>

theorem vote_reach_one_vote_per_poll:
  assumes "vote_reach d"
  shows "distinct (map (\<lambda>v. (v_poll_id v, v_user_id v)) (votes d))"
  using vote_reach_invs [OF assms] by (simp add: unique_votes_def)

theorem vote_reach_one_vote_per_poll_witness:
  "vote_reach (snd (vote_POST \<lparr>session_user = Some 1, auth_error = None, clock = 100000,
      read_error = None, write_error = None, fresh_secret = 0\<rparr> 7 (JsonObject [(''optionIndex'', JNum 1)]) empty_db))
   \<and> distinct (map (\<lambda>v. (v_poll_id v, v_user_id v)) (votes (snd (vote_POST
      \<lparr>session_user = Some 1, auth_error = None, clock = 100000, read_error = None,
       write_error = None, fresh_secret = 0\<rparr> 7 (JsonObject [(''optionIndex'', JNum 1)]) empty_db))))"
proof -
  have r: "vote_reach (snd (vote_POST \<lparr>session_user = Some 1, auth_error = None, clock = 100000,
      read_error = None, write_error = None, fresh_secret = 0\<rparr> 7 (JsonObject [(''optionIndex'', JNum 1)]) empty_db))"
    by (rule vote_reach.route [OF vote_reach.start]) simp
  show ?thesis using r vote_reach_one_vote_per_poll [OF r] by simp
qed

text \<open>C2: In every such reachable state, no caller has more than five votes in any half-open 60-second window [t, t + 60000) ms.\<close>

theorem vote_reach_rate_window:
  assumes "vote_reach d"
  shows "length (filter (\<lambda>x. t \<le> x \<and> x < t + 60000) (user_times d u)) \<le> 5"
  using window_ok_in_window [OF window_ok_user_times] vote_reach_invs [OF assms]
  by (simp add: in_window_def)

theorem vote_reach_rate_window_witness:
  "vote_reach (snd (vote_POST \<lparr>session_user = Some 1, auth_error = None, clock = 100000,
      read_error = None, write_error = None, fresh_secret = 0\<rparr> 7 (JsonObject [(''optionIndex'', JNum 1)]) empty_db))
   \<and> length (filter (\<lambda>x. 90000 \<le> x \<and> x < 90000 + 60000) (user_times (snd (vote_POST
      \<lparr>session_user = Some 1, auth_error = None, clock = 100000, read_error = None,
       write_error = None, fresh_secret = 0\<rparr> 7 (JsonObject [(''optionIndex'', JNum 1)]) empty_db)) 1)) \<le> 5"
proof -
  have r: "vote_reach (snd (vote_POST \<lparr>session_user = Some 1, auth_error = None, clock = 100000,
      read_error = None, write_error = None, fresh_secret = 0\<rparr> 7 (JsonObject [(''optionIndex'', JNum 1)]) empty_db))"
    by (rule vote_reach.route [OF vote_reach.start]) simp
  show ?thesis using r vote_reach_rate_window [OF r, of 90000 1] by blast
qed

text \<open>C3: For an authenticated caller whose reads succeed, on a store with one vote per poll and caller, and an optionIndex that is not a fraction, the route implements the abstract contract of spec section 4.1: the error category of its status code and the resulting multiset of ballots are those of vote_spec.\<close>

theorem vote_POST_refines_spec:
  assumes "session_user e \<noteq> None" "read_error e = None" "unique_votes d"
    and "body_field b ''optionIndex'' = Some oi" "\<not> is_fraction oi"
  shows "(outcome_of_status (status (fst (vote_POST e p b d))), ballots (snd (vote_POST e p b d))) =
         vote_spec (session_user e) oi (clock e) (write_error e \<noteq> None) p (ballots d)"
proof -
  obtain u where u: "session_user e = Some u" using assms(1) by blast
  show ?thesis
  proof (cases oi)
    case (JNum r)
    with assms(5) have "of_int \<lfloor>r\<rfloor> = r" by simp
    then show ?thesis using u assms(2-4) JNum
      by (auto simp: vote_POST_def vote_spec_def rate_limited_iff ballots_recent_count
          existing_vote_None_iff ballots_voted ballots_insert split: option.split)
  qed (use assms(4) u in \<open>simp_all add: vote_POST_def vote_spec_def\<close>)
qed

theorem vote_POST_refines_spec_witness:
  "(outcome_of_status (status (fst (vote_POST \<lparr>session_user = Some 1, auth_error = None,
       clock = 100000, read_error = None, write_error = None, fresh_secret = 0\<rparr> 7
       (JsonObject [(''optionIndex'', JNum 1)]) empty_db))),
    ballots (snd (vote_POST \<lparr>session_user = Some 1, auth_error = None,
       clock = 100000, read_error = None, write_error = None, fresh_secret = 0\<rparr> 7
       (JsonObject [(''optionIndex'', JNum 1)]) empty_db)))
   = (Voted, {#\<lparr>b_poll = 7, b_voter = 1, b_option = 1, b_time = 100000\<rparr>#})"
proof -
  let ?e = "\<lparr>session_user = Some (1::uid), auth_error = None, clock = 100000,
       read_error = None, write_error = None, fresh_secret = 0\<rparr>"
  have u: "unique_votes empty_db" by (simp add: unique_votes_def empty_db_def)
  have "ballots empty_db = {#}" by (simp add: ballots_def empty_db_def)
  then show ?thesis
    using vote_POST_refines_spec [of ?e empty_db "JsonObject [(''optionIndex'', JNum 1)]" "JNum 1" 7] u
    by (simp add: vote_spec_def user_times_def empty_db_def)
qed

text \<open>C4: For an authenticated caller with a valid index and succeeding reads, the route answers 429 exactly when the caller has at least five votes younger than 60 seconds: the check of the fifth newest vote is the sliding-window count.\<close>

theorem vote_POST_rate_limit:
  assumes "session_user e = Some u" "read_error e = None"
    and "body_field b ''optionIndex'' = Some (JNum r)" "0 \<le> r"
  shows "status (fst (vote_POST e p b d)) = 429 \<longleftrightarrow>
         5 \<le> length (filter (\<lambda>t. clock e - t < 60000) (user_times d u))"
  using assms by (auto simp: vote_POST_def rate_limited_iff split: option.split)

theorem vote_POST_rate_limit_witness:
  "status (fst (vote_POST \<lparr>session_user = Some 1, auth_error = None, clock = 100000,
       read_error = None, write_error = None, fresh_secret = 0\<rparr> 9 (JsonObject [(''optionIndex'', JNum 0)])
       (empty_db\<lparr>votes := map (\<lambda>(i, t). \<lparr>v_id = i, v_poll_id = i, v_user_id = 1,
          v_option_index = 0, v_created_at = t\<rparr>)
          [(1, 75000), (2, 80000), (3, 85000), (4, 90000), (5, 95000)]\<rparr>))) = 429"
proof -
  let ?e = "\<lparr>session_user = Some (1::uid), auth_error = None, clock = 100000,
       read_error = None, write_error = None, fresh_secret = 0\<rparr>"
  let ?d = "empty_db\<lparr>votes := map (\<lambda>(i, t). \<lparr>v_id = i, v_poll_id = i, v_user_id = 1,
          v_option_index = 0, v_created_at = t\<rparr>)
          [(1, 75000), (2, 80000), (3, 85000), (4, 90000), (5, 95000)]\<rparr>"
  have "5 \<le> length (filter (\<lambda>t. clock ?e - t < 60000) (user_times ?d 1))"
    by (simp add: user_times_def empty_db_def)
  then show ?thesis
    using vote_POST_rate_limit [of ?e 1 "JsonObject [(''optionIndex'', JNum 0)]" 0 9 ?d] by simp
qed

text \<open>C5: With two requests interleaved (both read phases before either write), the duplicate-vote guard is bypassed: a run from the empty store ends with two votes of one caller on one poll.\<close>

theorem vote_race_double_vote:
  "\<exists>s. vote_conc\<^sup>*\<^sup>* \<lparr>sys_db = empty_db, in_flight = []\<rparr> s \<and> \<not> unique_votes (sys_db s)"
proof -
  let ?e = "\<lparr>session_user = Some (1::uid), auth_error = None, clock = 0,
            read_error = None, write_error = None, fresh_secret = 0\<rparr>"
  let ?b = "JsonObject [(''optionIndex'', JNum 1)]"
  let ?s0 = "\<lparr>sys_db = empty_db, in_flight = []\<rparr>"
  let ?s1 = "\<lparr>sys_db = empty_db, in_flight = [(?e, 7, 1, 1)]\<rparr>"
  let ?s2 = "\<lparr>sys_db = empty_db, in_flight = [(?e, 7, 1, 1), (?e, 7, 1, 1)]\<rparr>"
  let ?d3 = "snd (vote_write_phase ?e 7 1 1 empty_db)"
  let ?s3 = "\<lparr>sys_db = ?d3, in_flight = [(?e, 7, 1, 1)]\<rparr>"
  let ?s4 = "\<lparr>sys_db = snd (vote_write_phase ?e 7 1 1 ?d3), in_flight = []\<rparr>"
  have ph: "vote_read_phase ?e 7 ?b empty_db = Proceed 1 1"
    by (simp add: vote_read_phase_def rate_limited_def recent_vote_times_def user_times_def
        existing_vote_def empty_db_def)
  have "vote_conc ?s0 ?s1" by (rule vote_conc_readI) (use ph in simp_all)
  moreover have "vote_conc ?s1 ?s2" by (rule vote_conc_readI) (use ph in simp_all)
  moreover have "vote_conc ?s2 ?s3" by (rule vote_conc_commitI [where xs = "[]"]) simp_all
  moreover have "vote_conc ?s3 ?s4" by (rule vote_conc_commitI [where xs = "[]"]) simp_all
  ultimately have "vote_conc\<^sup>*\<^sup>* ?s0 ?s4" by (meson rtranclp.rtrancl_into_rtrancl rtranclp.rtrancl_refl)
  moreover have "\<not> unique_votes (sys_db ?s4)"
    by (simp add: unique_votes_def vote_write_phase_def db_insert_vote_def empty_db_def)
  ultimately show ?thesis by blast
qed

text \<open>C6: The route answers 200 exactly when the caller is resolved, the index is a non-negative number, the caller is not rate limited, has no single existing vote on the poll and the insert succeeds; the store is then the old store with exactly that vote appended.\<close>

theorem vote_POST_success:
  "status (fst (vote_POST e p b d)) = 200 \<longleftrightarrow>
   (\<exists>u r. session_user e = Some u \<and> body_field b ''optionIndex'' = Some (JNum r) \<and> 0 \<le> r \<and>
      \<not> rate_limited e d u \<and> existing_vote e d p u = None \<and> write_error e = None \<and>
      snd (vote_POST e p b d) = db_insert_vote e p u r d)"
  by (auto simp: vote_POST_def split: option.splits jsval.splits)

theorem vote_POST_success_witness:
  "snd (vote_POST \<lparr>session_user = Some 1, auth_error = None, clock = 0,
       read_error = None, write_error = None, fresh_secret = 0\<rparr> 7 (JsonObject [(''optionIndex'', JNum 1)]) empty_db)
   = db_insert_vote \<lparr>session_user = Some 1, auth_error = None, clock = 0,
       read_error = None, write_error = None, fresh_secret = 0\<rparr> 7 1 1 empty_db"
proof -
  let ?e = "\<lparr>session_user = Some (1::uid), auth_error = None, clock = 0,
       read_error = None, write_error = None, fresh_secret = 0\<rparr>"
  have "status (fst (vote_POST ?e 7 (JsonObject [(''optionIndex'', JNum 1)]) empty_db)) = 200"
    by (simp add: vote_POST_def rate_limited_def recent_vote_times_def user_times_def
        existing_vote_def empty_db_def)
  then show ?thesis
    using vote_POST_success [of ?e 7 "JsonObject [(''optionIndex'', JNum 1)]" empty_db] by auto
qed

text \<open>C7: Every response other than 200 leaves the store unchanged: there are no partial writes.\<close>

theorem vote_POST_failure_unchanged:
  assumes "status (fst (vote_POST e p b d)) \<noteq> 200"
  shows "snd (vote_POST e p b d) = d"
  using assms by (auto simp: vote_POST_def split: option.splits jsval.splits)

theorem vote_POST_failure_unchanged_witness:
  "snd (vote_POST \<lparr>session_user = None, auth_error = None, clock = 0, read_error = None,
      write_error = None, fresh_secret = 0\<rparr> 7 (JsonObject [(''optionIndex'', JNum 1)]) empty_db) = empty_db"
  by (rule vote_POST_failure_unchanged) (simp add: vote_POST_def)

text \<open>C8: A body whose optionIndex is not a non-negative number is answered with 400 and the store is unchanged, whatever the session.\<close>

theorem vote_POST_invalid_index:
  assumes "body_field b ''optionIndex'' = Some oi" and "\<not> (\<exists>r. oi = JNum r \<and> 0 \<le> r)"
  shows "vote_POST e p b d = (err_resp 400 ''Invalid option index'', d)"
  using assms by (cases oi) (auto simp: vote_POST_def)

theorem vote_POST_invalid_index_witness:
  "vote_POST \<lparr>session_user = Some 1, auth_error = None, clock = 0, read_error = None,
      write_error = None, fresh_secret = 0\<rparr> 7 (JsonObject [(''optionIndex'', JNum (-1))]) empty_db
   = (err_resp 400 ''Invalid option index'', empty_db)"
  by (rule vote_POST_invalid_index [where oi = "JNum (-1)"]) simp_all

text \<open>C9: The route checks optionIndex before resolving the caller: for an unauthenticated request the route's answer falls in the spec's category Unauthenticated (401) exactly when the body parses and its optionIndex is a non-negative number; every other body gets 400 (InvalidInput) or 500, where the spec (section 8) says Unauthenticated regardless of payload.\<close>

theorem vote_POST_checks_index_before_auth:
  assumes "session_user e = None"
  shows "(outcome_of_status (status (fst (vote_POST e p b d))) = Unauthenticated \<longleftrightarrow>
            (\<exists>r. body_field b ''optionIndex'' = Some (JNum r) \<and> 0 \<le> r)) \<and>
         fst (vote_spec (session_user e) oi now wfails p B) = Unauthenticated"
  using assms
  by (auto simp: vote_POST_def vote_spec_def outcome_of_status_def
      split: option.split jsval.split)

theorem vote_POST_checks_index_before_auth_witness:
  "outcome_of_status (status (fst (vote_POST \<lparr>session_user = None, auth_error = None, clock = 0,
      read_error = None, write_error = None, fresh_secret = 0\<rparr> 7 (JsonObject [(''optionIndex'', JStr ''1'')]) empty_db)))
     = InvalidInput"
proof -
  let ?e = "\<lparr>session_user = None, auth_error = None, clock = 0,
      read_error = None, write_error = None, fresh_secret = 0\<rparr>"
  have "(outcome_of_status (status (fst (vote_POST ?e 7 (JsonObject [(''optionIndex'', JStr ''1'')]) empty_db))) = Unauthenticated \<longleftrightarrow>
            (\<exists>r. body_field (JsonObject [(''optionIndex'', JStr ''1'')]) ''optionIndex'' = Some (JNum r) \<and> 0 \<le> r)) \<and>
         fst (vote_spec (session_user ?e) (JStr ''1'') 0 False 7 {#}) = Unauthenticated"
    by (rule vote_POST_checks_index_before_auth) simp
  then show ?thesis by (simp add: vote_POST_def outcome_of_status_def)
qed

text \<open>C10: When the reads of a request fail, both guards pass (fail-open): for every store, an authenticated request with a non-negative index whose insert succeeds is answered 200 and inserted, whatever votes the caller already has on the poll or in the last minute.\<close>

theorem vote_read_error_fail_open:
  assumes "read_error e = Some m" "session_user e = Some u" "write_error e = None"
    and "body_field b ''optionIndex'' = Some (JNum r)" "0 \<le> r"
  shows "vote_POST e p b d = (ok_resp 200 (), db_insert_vote e p u r d)"
  using assms by (simp add: vote_POST_def rate_limited_def existing_vote_def select_rows_def)

theorem vote_read_error_fail_open_witness:
  "\<not> unique_votes (snd (vote_POST \<lparr>session_user = Some 1, auth_error = None, clock = 0,
       read_error = Some ''timeout'', write_error = None, fresh_secret = 0\<rparr> 7 (JsonObject [(''optionIndex'', JNum 0)])
     (empty_db\<lparr>votes := [\<lparr>v_id = 0, v_poll_id = 7, v_user_id = 1, v_option_index = 1, v_created_at = 0\<rparr>],
               next_id := 1\<rparr>)))"
proof -
  let ?e = "\<lparr>session_user = Some 1, auth_error = None, clock = 0,
       read_error = Some ''timeout'', write_error = None, fresh_secret = 0\<rparr>"
  let ?d = "empty_db\<lparr>votes := [\<lparr>v_id = 0, v_poll_id = 7, v_user_id = 1, v_option_index = 1, v_created_at = 0\<rparr>],
               next_id := 1\<rparr>"
  have "vote_POST ?e 7 (JsonObject [(''optionIndex'', JNum 0)]) ?d = (ok_resp 200 (), db_insert_vote ?e 7 1 0 ?d)"
    by (rule vote_read_error_fail_open) simp_all
  then show ?thesis by (simp add: unique_votes_def db_insert_vote_def empty_db_def)
qed

text \<open>C11: Once a caller has two votes on a poll, the .single() guard returns null and the route accepts a third one.\<close>

theorem vote_duplicates_disable_guard:
  assumes "2 \<le> length (filter (\<lambda>v. v_poll_id v = p \<and> v_user_id v = u) (votes d))"
    and "session_user e = Some u" "read_error e = None" "\<not> rate_limited e d u"
    and "write_error e = None" "body_field b ''optionIndex'' = Some (JNum r)" "0 \<le> r"
  shows "vote_POST e p b d = (ok_resp 200 (), db_insert_vote e p u r d)"
proof -
  have "existing_vote e d p u = None"
    using assms(1,3) by (simp add: existing_vote_def single_None_iff)
  with assms(2-7) show ?thesis by (simp add: vote_POST_def)
qed

theorem vote_duplicates_disable_guard_witness:
  "status (fst (vote_POST \<lparr>session_user = Some 1, auth_error = None, clock = 100000,
       read_error = None, write_error = None, fresh_secret = 0\<rparr> 7 (JsonObject [(''optionIndex'', JNum 0)])
       (empty_db\<lparr>votes := [\<lparr>v_id = 1, v_poll_id = 7, v_user_id = 1, v_option_index = 0, v_created_at = 0\<rparr>,
                          \<lparr>v_id = 2, v_poll_id = 7, v_user_id = 1, v_option_index = 1, v_created_at = 1\<rparr>]\<rparr>))) = 200"
proof -
  let ?e = "\<lparr>session_user = Some (1::uid), auth_error = None, clock = 100000,
       read_error = None, write_error = None, fresh_secret = 0\<rparr>"
  let ?d = "empty_db\<lparr>votes := [\<lparr>v_id = 1, v_poll_id = 7, v_user_id = 1, v_option_index = 0, v_created_at = 0\<rparr>,
                          \<lparr>v_id = 2, v_poll_id = 7, v_user_id = 1, v_option_index = 1, v_created_at = 1\<rparr>]\<rparr>"
  have "\<not> rate_limited ?e ?d 1"
    by (simp add: rate_limited_def recent_vote_times_def user_times_def empty_db_def)
  then show ?thesis
    using vote_duplicates_disable_guard [of 7 1 ?d ?e "JsonObject [(''optionIndex'', JNum 0)]" 0]
    by (simp add: empty_db_def)
qed

text \<open>C12: The server action submitVote does not validate optionIndex: its answer is the same for every index, and whenever it succeeds it stores the vote with exactly the index given, negative or fractional included (spec section 4.1 requires InvalidInput for those).\<close>

theorem submitVote_accepts_any_index:
  "fst (submitVote e p oi d) = fst (submitVote e p 0 d) \<and>
   (fst (submitVote e p oi d) = None \<longrightarrow>
      (\<exists>u. session_user e = Some u \<and> snd (submitVote e p oi d) = db_insert_vote e p u oi d))"
  by (simp add: submitVote_def split: option.split)

theorem submitVote_accepts_any_index_witness:
  "submitVote \<lparr>session_user = Some 1, auth_error = None, clock = 0, read_error = None,
       write_error = None, fresh_secret = 0\<rparr> 7 (-1) empty_db
   = (None, db_insert_vote \<lparr>session_user = Some 1, auth_error = None, clock = 0,
       read_error = None, write_error = None, fresh_secret = 0\<rparr> 7 1 (-1) empty_db)"
proof -
  let ?e = "\<lparr>session_user = Some 1, auth_error = None, clock = 0, read_error = None,
       write_error = None, fresh_secret = 0\<rparr>"
  have ok: "fst (submitVote ?e 7 0 empty_db) = None"
    by (simp add: submitVote_def rate_limited_def recent_vote_times_def user_times_def
        existing_vote_def empty_db_def)
  have "fst (submitVote ?e 7 (-1) empty_db) = fst (submitVote ?e 7 0 empty_db) \<and>
    (fst (submitVote ?e 7 (-1) empty_db) = None \<longrightarrow>
      (\<exists>u. session_user ?e = Some u \<and> snd (submitVote ?e 7 (-1) empty_db) = db_insert_vote ?e 7 u (-1) empty_db))"
    by (rule submitVote_accepts_any_index)
  with ok show ?thesis by (auto intro: prod_eqI)
qed


text \<open>C32: The vote route never reads the polls table: its answer and its write are the same whatever polls the store holds, so a vote is accepted alike for a poll that exists, one that has expired, one with fewer options than the index, and an id no poll has (spec section 9 requires the poll to exist and be open).\<close>

theorem vote_POST_ignores_polls:
  "vote_POST e p b (d\<lparr>polls := ps\<rparr>) = (fst (vote_POST e p b d), (snd (vote_POST e p b d))\<lparr>polls := ps\<rparr>)"
  by (simp add: vote_POST_def rate_limited_def recent_vote_times_def user_times_def existing_vote_def
      db_insert_vote_def split: option.split jsval.split)


subsection \<open>Liveness\<close>

text \<open>C38: Liveness of voting: for every store, caller and poll there is a time after which the caller's vote on a poll without a vote of theirs, with a non-negative index, is accepted (200) and stored whenever the reads and the insert succeed: sixty seconds after the caller's newest vote the rate limiter lets every request through, so it never blocks a caller for good.\<close>

theorem vote_eventually_accepted:
  "\<exists>T. \<forall>e. T \<le> clock e \<longrightarrow> session_user e = Some u \<longrightarrow> read_error e = None \<longrightarrow>
     write_error e = None \<longrightarrow> existing_vote e d p u = None \<longrightarrow> 0 \<le> r \<longrightarrow>
     vote_POST e p (JsonObject [(''optionIndex'', JNum r)]) d = (ok_resp 200 (), db_insert_vote e p u r d)"
proof (intro exI allI impI)
  let ?T = "if user_times d u = [] then 0 else Max (set (user_times d u)) + 60000"
  fix e
  assume T: "?T \<le> clock e" and s: "session_user e = Some u" and rd: "read_error e = None"
    and wr: "write_error e = None" and ex: "existing_vote e d p u = None" and r: "0 \<le> r"
  have "\<forall>t \<in> set (user_times d u). t + 60000 \<le> clock e"
  proof
    fix t assume t: "t \<in> set (user_times d u)"
    have "t \<le> Max (set (user_times d u))" using t by simp
    moreover have "Max (set (user_times d u)) + 60000 \<le> clock e" using t T by (auto split: if_splits)
    ultimately show "t + 60000 \<le> clock e" by linarith
  qed
  with rd have "\<not> rate_limited e d u" by (rule not_rate_limited_after_quiet)
  with s wr ex r show "vote_POST e p (JsonObject [(''optionIndex'', JNum r)]) d =
      (ok_resp 200 (), db_insert_vote e p u r d)"
    by (simp add: vote_POST_def)
qed

theorem vote_eventually_accepted_witness:
  "status (fst (vote_POST \<lparr>session_user = Some 1, auth_error = None, clock = 100000, read_error = None,
       write_error = None, fresh_secret = 0\<rparr> 7 (JsonObject [(''optionIndex'', JNum 0)])
     (empty_db\<lparr>votes := [\<lparr>v_id = 0, v_poll_id = 1, v_user_id = 1, v_option_index = 0, v_created_at = 90000\<rparr>,
        \<lparr>v_id = 1, v_poll_id = 2, v_user_id = 1, v_option_index = 0, v_created_at = 92000\<rparr>,
        \<lparr>v_id = 2, v_poll_id = 3, v_user_id = 1, v_option_index = 0, v_created_at = 94000\<rparr>,
        \<lparr>v_id = 3, v_poll_id = 4, v_user_id = 1, v_option_index = 0, v_created_at = 96000\<rparr>,
        \<lparr>v_id = 4, v_poll_id = 5, v_user_id = 1, v_option_index = 0, v_created_at = 98000\<rparr>]\<rparr>))) = 429
   \<and> (\<exists>c. status (fst (vote_POST \<lparr>session_user = Some 1, auth_error = None, clock = c, read_error = None,
       write_error = None, fresh_secret = 0\<rparr> 7 (JsonObject [(''optionIndex'', JNum 0)])
     (empty_db\<lparr>votes := [\<lparr>v_id = 0, v_poll_id = 1, v_user_id = 1, v_option_index = 0, v_created_at = 90000\<rparr>,
        \<lparr>v_id = 1, v_poll_id = 2, v_user_id = 1, v_option_index = 0, v_created_at = 92000\<rparr>,
        \<lparr>v_id = 2, v_poll_id = 3, v_user_id = 1, v_option_index = 0, v_created_at = 94000\<rparr>,
        \<lparr>v_id = 3, v_poll_id = 4, v_user_id = 1, v_option_index = 0, v_created_at = 96000\<rparr>,
        \<lparr>v_id = 4, v_poll_id = 5, v_user_id = 1, v_option_index = 0, v_created_at = 98000\<rparr>]\<rparr>))) = 200)"
  (is "?now \<and> (\<exists>c. ?later c)")
proof -
  let ?d = "empty_db\<lparr>votes := [\<lparr>v_id = 0, v_poll_id = 1, v_user_id = 1, v_option_index = 0, v_created_at = 90000\<rparr>,
        \<lparr>v_id = 1, v_poll_id = 2, v_user_id = 1, v_option_index = 0, v_created_at = 92000\<rparr>,
        \<lparr>v_id = 2, v_poll_id = 3, v_user_id = 1, v_option_index = 0, v_created_at = 94000\<rparr>,
        \<lparr>v_id = 3, v_poll_id = 4, v_user_id = 1, v_option_index = 0, v_created_at = 96000\<rparr>,
        \<lparr>v_id = 4, v_poll_id = 5, v_user_id = 1, v_option_index = 0, v_created_at = 98000\<rparr>]\<rparr>"
  let ?e = "\<lambda>c. \<lparr>session_user = Some (1::nat), auth_error = None, clock = c, read_error = None,
       write_error = None, fresh_secret = 0\<rparr>"
  have "rate_limited (?e 100000) ?d 1"
    by (simp add: rate_limited_iff user_times_def)
  then have now: ?now by (simp add: vote_POST_def)
  obtain T where T: "\<And>e. T \<le> clock e \<Longrightarrow> session_user e = Some 1 \<Longrightarrow> read_error e = None \<Longrightarrow>
     write_error e = None \<Longrightarrow> existing_vote e ?d 7 1 = None \<Longrightarrow> 0 \<le> (0::rat) \<Longrightarrow>
     vote_POST e 7 (JsonObject [(''optionIndex'', JNum 0)]) ?d = (ok_resp 200 (), db_insert_vote e 7 1 0 ?d)"
    using vote_eventually_accepted by blast
  have ex: "existing_vote (?e T) ?d 7 1 = None"
    by (simp add: existing_vote_def select_rows_def)
  have "vote_POST (?e T) 7 (JsonObject [(''optionIndex'', JNum 0)]) ?d =
      (ok_resp 200 (), db_insert_vote (?e T) 7 1 0 ?d)"
    using ex by (intro T) simp_all
  then have "?later T" by simp
  with now show ?thesis by blast
qed

end
