(* ===== verification/Polls.thy ===== *)
theory Polls
  imports Store
begin

text \<open>
  Poll management: the server actions \<open>createPoll\<close>, \<open>updatePoll\<close>, \<open>deletePoll\<close>,
  \<open>getPollById\<close> and \<open>getUserPolls\<close> (\<open>src/app/lib/actions/poll-actions.ts\<close>), the
  routes \<open>POST /api/polls\<close> (\<open>src/app/api/polls/route.ts\<close>) and
  \<open>GET/DELETE/PUT /api/polls/[id]\<close> (\<open>src/app/api/polls/[id]/route.ts\<close>), and the
  CSRF token route \<open>GET /api/csrf\<close> (\<open>src/app/api/csrf/route.ts\<close>). The route
  handlers repeat the actions' logic with HTTP status codes; both are modelled, and their
  agreement is a lemma. \<open>DOMPurify.sanitize\<close> is a library function the create path
  calls; it is a parameter \<open>purify\<close> of the handlers. \<open>revalidatePath\<close> only
  invalidates Next's page cache and is not modelled.
\<close>

subsection \<open>CSRF tokens (the \<open>csrf\<close> package)\<close>

text \<open>
  A value in the \<open>csrf_token\<close> form field: a token made by \<open>csrf.create(secret)\<close>
  (ideal: it names the secret it was made for, salts abstracted away) or any other text.
  \<open>csrf.verify(secret, token)\<close> accepts exactly the tokens made for that secret.
\<close>

datatype csrf_value = CsrfToken nat | CsrfText string

definition csrf_verify :: "nat \<Rightarrow> csrf_value option \<Rightarrow> bool" where
  "csrf_verify secret tok = (tok = Some (CsrfToken secret))"

text \<open>
  \<open>GET /api/csrf\<close> answers \<open>{ token: csrf.secret() }\<close>: \<open>csrf.secret()\<close> returns a
  Promise, which is not awaited and serialises as the empty object \<open>{}\<close>.
\<close>

definition csrf_GET :: "env \<Rightarrow> jsval response" where
  "csrf_GET e = ok_resp 200 JOther"

text \<open>
  The server action \<open>generateCsrfToken\<close> (called by no component) returns
  \<open>csrf.secret()\<close>: a fresh secret, not a token made from one.
\<close>

definition generateCsrfToken :: "env \<Rightarrow> nat" where
  "generateCsrfToken e = fresh_secret e"

text \<open>
  The tokens the application hands to clients: none at all (\<open>PollCreateForm\<close> sends no
  \<open>csrf_token\<close> field) or text (\<open>EditPollForm\<close> sends what it got from
  \<open>/api/csrf\<close>). Nothing in the sources calls \<open>csrf.create\<close>.
\<close>

fun app_token :: "csrf_value option \<Rightarrow> bool" where
  "app_token None = True"
| "app_token (Some (CsrfText _)) = True"
| "app_token (Some (CsrfToken _)) = False"

subsection \<open>Form data and string checks\<close>

text \<open>
  The fields the handlers read: \<open>formData.get("csrf_token")\<close>,
  \<open>formData.get("question")\<close> (\<open>null\<close> when absent) and \<open>formData.getAll("options")\<close>.
\<close>

record poll_form =
  form_csrf :: "csrf_value option"
  form_question :: "string option"
  form_options :: "string list"

text \<open>\<open>formData.getAll("options").filter(Boolean)\<close>: the non-empty option strings.\<close>

definition form_option_list :: "poll_form \<Rightarrow> string list" where
  "form_option_list f = filter (\<lambda>s. s \<noteq> []) (form_options f)"

text \<open>\<open>/[<>"'&]/.test(s)\<close>.\<close>

definition forbidden_chars :: "string \<Rightarrow> bool" where
  "forbidden_chars s = (\<exists>c \<in> set s. c \<in> set [CHR ''<'', CHR ''>'', CHR 0x22, CHR 0x27, CHR ''&''])"

subsection \<open>Creating a poll\<close>

text \<open>
  The validation chain of \<open>createPoll\<close> (and of \<open>POST /api/polls\<close>) in the source's
  order; the first failing check decides the message.
\<close>

datatype create_check = CsrfFailed | BadQuestion | QuestionTooLong | TooFewOptions
  | QuestionChars | OptionChars | TooManyOptions | CreateValid

definition create_validate :: "env \<Rightarrow> poll_form \<Rightarrow> create_check" where
  "create_validate e f =
     (if \<not> csrf_verify (fresh_secret e) (form_csrf f) then CsrfFailed
      else (case form_question f of
              None \<Rightarrow> BadQuestion
            | Some q \<Rightarrow>
                if q = [] \<or> js_trim q = [] then BadQuestion
                else if 255 < length q then QuestionTooLong
                else if length (form_option_list f) < 2 then TooFewOptions
                else if forbidden_chars q then QuestionChars
                else if list_ex forbidden_chars (form_option_list f) then OptionChars
                else if 100 < length (form_option_list f) then TooManyOptions
                else CreateValid))"

fun create_message :: "create_check \<Rightarrow> string" where
  "create_message CsrfFailed = ''Invalid CSRF token''"
| "create_message BadQuestion = ''Please provide a valid question.''"
| "create_message QuestionTooLong = ''Question is too long (maximum 255 characters).''"
| "create_message TooFewOptions = ''Please provide at least two options.''"
| "create_message QuestionChars = ''Question contains invalid characters''"
| "create_message OptionChars = ''Options contain invalid characters''"
| "create_message TooManyOptions = ''Options are too long (maximum 100 characters).''"
| "create_message CreateValid = []"

definition createPoll :: "(string \<Rightarrow> string) \<Rightarrow> env \<Rightarrow> poll_form \<Rightarrow> db \<Rightarrow> action_result \<times> db" where
  "createPoll purify e f d =
     (case create_validate e f of
        CreateValid \<Rightarrow>
          (case auth_error e of
             Some m \<Rightarrow> (Some m, d)
           | None \<Rightarrow>
             (case session_user e of
                None \<Rightarrow> (Some ''You must be logged in to create a poll.'', d)
              | Some u \<Rightarrow>
                (case write_error e of
                   Some m \<Rightarrow> (Some m, d)
                 | None \<Rightarrow> (None, db_insert_poll e u (purify (the (form_question f)))
                                     (map purify (form_option_list f)) d))))
      | c \<Rightarrow> (Some (create_message c), d))"

text \<open>
  \<open>POST /api/polls\<close>: the same chain with status codes (403 for the token, 400 for the
  input, 401, 500); \<open>None\<close> is a body on which \<open>request.formData()\<close> throws.
\<close>

definition polls_POST :: "(string \<Rightarrow> string) \<Rightarrow> env \<Rightarrow> poll_form option \<Rightarrow> db \<Rightarrow> unit response \<times> db" where
  "polls_POST purify e body d =
     (case body of
        None \<Rightarrow> (err_resp 500 ''Internal server error'', d)
      | Some f \<Rightarrow>
        (case create_validate e f of
           CsrfFailed \<Rightarrow> (err_resp 403 (create_message CsrfFailed), d)
         | CreateValid \<Rightarrow>
             (case auth_error e of
                Some m \<Rightarrow> (err_resp 401 m, d)
              | None \<Rightarrow>
                (case session_user e of
                   None \<Rightarrow> (err_resp 401 ''You must be logged in to create a poll.'', d)
                 | Some u \<Rightarrow>
                   (case write_error e of
                      Some m \<Rightarrow> (err_resp 500 m, d)
                    | None \<Rightarrow> (ok_resp 200 (), db_insert_poll e u (purify (the (form_question f)))
                                             (map purify (form_option_list f)) d))))
         | c \<Rightarrow> (err_resp 400 (create_message c), d)))"

subsection \<open>Updating a poll\<close>

text \<open>
  \<open>updatePoll\<close> checks the token, then only \<open>!question || options.length < 2\<close>, then
  updates the rows with this id \<^emph>\<open>and\<close> the caller as owner. The new question and
  options are stored as sent: no length limit, no character check, no sanitising.
\<close>

definition update_input_ok :: "poll_form \<Rightarrow> bool" where
  "update_input_ok f =
     (case form_question f of None \<Rightarrow> False | Some q \<Rightarrow> q \<noteq> [] \<and> 2 \<le> length (form_option_list f))"

definition updatePoll :: "env \<Rightarrow> pid \<Rightarrow> poll_form \<Rightarrow> db \<Rightarrow> action_result \<times> db" where
  "updatePoll e i f d =
     (if \<not> csrf_verify (fresh_secret e) (form_csrf f) then (Some ''Invalid CSRF token'', d)
      else if \<not> update_input_ok f
      then (Some ''Please provide a question and at least two options.'', d)
      else
        (case auth_error e of
           Some m \<Rightarrow> (Some m, d)
         | None \<Rightarrow>
           (case session_user e of
              None \<Rightarrow> (Some ''You must be logged in to update a poll.'', d)
            | Some u \<Rightarrow>
              (case write_error e of
                 Some m \<Rightarrow> (Some m, d)
               | None \<Rightarrow> (None, db_update_poll i u (the (form_question f)) (form_option_list f) d)))))"

definition polls_PUT :: "env \<Rightarrow> pid \<Rightarrow> poll_form option \<Rightarrow> db \<Rightarrow> unit response \<times> db" where
  "polls_PUT e i body d =
     (case body of
        None \<Rightarrow> (err_resp 500 ''Internal server error'', d)
      | Some f \<Rightarrow>
        (if \<not> csrf_verify (fresh_secret e) (form_csrf f) then (err_resp 403 ''Invalid CSRF token'', d)
         else if \<not> update_input_ok f
         then (err_resp 400 ''Please provide a question and at least two options.'', d)
         else
           (case auth_error e of
              Some m \<Rightarrow> (err_resp 401 m, d)
            | None \<Rightarrow>
              (case session_user e of
                 None \<Rightarrow> (err_resp 401 ''You must be logged in to update a poll.'', d)
               | Some u \<Rightarrow>
                 (case write_error e of
                    Some m \<Rightarrow> (err_resp 500 m, d)
                  | None \<Rightarrow> (ok_resp 200 (), db_update_poll i u (the (form_question f))
                                            (form_option_list f) d))))))"

subsection \<open>Deleting a poll\<close>

text \<open>
  \<open>deletePoll\<close> resolves the caller, reads the poll's owner with \<open>.single()\<close>, refuses
  when the caller is not the owner, then deletes the poll (the store cascades to its
  votes and comments). The \<open>!poll\<close> branch is unreachable, since \<open>.single()\<close> reports
  an error whenever it has no row, but it is kept as the source has it.
\<close>

definition deletePoll :: "env \<Rightarrow> pid \<Rightarrow> db \<Rightarrow> action_result \<times> db" where
  "deletePoll e i d =
     (case auth_error e of
        Some m \<Rightarrow> (Some m, d)
      | None \<Rightarrow>
        (case session_user e of
           None \<Rightarrow> (Some ''You must be logged in to delete a poll.'', d)
         | Some u \<Rightarrow>
           (case sb_single e (map p_user_id (poll_by_id d i)) of
              (_, Some m) \<Rightarrow> (Some m, d)
            | (None, None) \<Rightarrow> (Some ''Poll not found'', d)
            | (Some owner, None) \<Rightarrow>
                if owner \<noteq> u then (Some ''You don't have permission to delete this poll'', d)
                else (case write_error e of
                        Some m \<Rightarrow> (Some m, d)
                      | None \<Rightarrow> (None, db_delete_poll i d)))))"

definition polls_DELETE :: "env \<Rightarrow> pid \<Rightarrow> db \<Rightarrow> unit response \<times> db" where
  "polls_DELETE e i d =
     (case auth_error e of
        Some m \<Rightarrow> (err_resp 401 m, d)
      | None \<Rightarrow>
        (case session_user e of
           None \<Rightarrow> (err_resp 401 ''You must be logged in to delete a poll.'', d)
         | Some u \<Rightarrow>
           (case sb_single e (map p_user_id (poll_by_id d i)) of
              (_, Some m) \<Rightarrow> (err_resp 404 m, d)
            | (None, None) \<Rightarrow> (err_resp 404 ''Poll not found'', d)
            | (Some owner, None) \<Rightarrow>
                if owner \<noteq> u then (err_resp 403 ''You don't have permission to delete this poll'', d)
                else (case write_error e of
                        Some m \<Rightarrow> (err_resp 500 m, d)
                      | None \<Rightarrow> (ok_resp 200 (), db_delete_poll i d)))))"

subsection \<open>Reading polls\<close>

definition getPollById :: "env \<Rightarrow> pid \<Rightarrow> db \<Rightarrow> poll option \<times> string option" where
  "getPollById e i d =
     (case sb_single e (poll_by_id d i) of
        (_, Some m) \<Rightarrow> (None, Some m)
      | (p, None) \<Rightarrow> (p, None))"

definition polls_GET :: "env \<Rightarrow> pid \<Rightarrow> db \<Rightarrow> poll option response" where
  "polls_GET e i d =
     (case sb_single e (poll_by_id d i) of
        (_, Some m) \<Rightarrow> err_resp 404 m
      | (p, None) \<Rightarrow> ok_resp 200 p)"

text \<open>
  The JSON body the GET route sends, as a list of its keys and values: \<open>{ poll: data,
  error: null }\<close> on success and \<open>{ poll: null, error: error.message }\<close> with 404.
  \<open>body_val\<close> holds the values a page may read from a body of the poll routes.
\<close>

datatype body_val = BPoll "poll option" | BPolls "poll list" | BText "string option"

definition polls_GET_body :: "poll option response \<Rightarrow> (string \<times> body_val) list" where
  "polls_GET_body r =
     (case payload r of
        Inr p \<Rightarrow> [(''poll'', BPoll p), (''error'', BText None)]
      | Inl m \<Rightarrow> [(''poll'', BPoll None), (''error'', BText (Some m))])"

text \<open>
  \<open>.order("created_at", { ascending: false })\<close>: newest first. Rows with equal
  timestamps come in an order the store chooses; the model fixes one.
\<close>

definition getUserPolls :: "env \<Rightarrow> db \<Rightarrow> poll list \<times> string option" where
  "getUserPolls e d =
     (case session_user e of
        None \<Rightarrow> ([], Some ''Not authenticated'')
      | Some u \<Rightarrow>
        (case read_error e of
           Some m \<Rightarrow> ([], Some m)
         | None \<Rightarrow> (rev (sort_key p_created_at (filter (\<lambda>p. p_user_id p = u) (polls d))), None)))"


subsection \<open>Lemmas\<close>

lemma create_validate_CreateValid:
  assumes "create_validate e f = CreateValid"
  shows "csrf_verify (fresh_secret e) (form_csrf f) \<and>
    (\<exists>q. form_question f = Some q \<and> q \<noteq> [] \<and> js_trim q \<noteq> [] \<and> length q \<le> 255 \<and>
       2 \<le> length (form_option_list f) \<and> length (form_option_list f) \<le> 100 \<and>
       \<not> forbidden_chars q \<and> (\<forall>x \<in> set (form_option_list f). \<not> forbidden_chars x))"
  using assms
  by (auto simp: create_validate_def list_ex_iff split: if_splits option.splits)

lemma createPoll_db_cases:
  "snd (createPoll purify e f d) = d \<or>
   (create_validate e f = CreateValid \<and> fst (createPoll purify e f d) = None \<and>
    (\<exists>u. session_user e = Some u \<and>
      snd (createPoll purify e f d) = db_insert_poll e u (purify (the (form_question f)))
                                         (map purify (form_option_list f)) d))"
  by (auto simp: createPoll_def split: create_check.split option.split)

lemma createPoll_None:
  assumes "fst (createPoll purify e f d) = None"
  shows "create_validate e f = CreateValid \<and>
    (\<exists>u. session_user e = Some u \<and>
      snd (createPoll purify e f d) = db_insert_poll e u (purify (the (form_question f)))
                                         (map purify (form_option_list f)) d)"
  using assms by (auto simp: createPoll_def split: create_check.splits option.splits)

lemma filter_not_owner_map_update:
  "filter (\<lambda>p. p_user_id p \<noteq> u)
     (map (\<lambda>p. if p_id p = i \<and> p_user_id p = u then p\<lparr>p_question := q, p_options := opts\<rparr> else p)
          (ps :: poll list))
   = filter (\<lambda>p. p_user_id p \<noteq> u) ps"
  by (induction ps) auto

lemma filter_not_owner_update:
  "filter (\<lambda>p. p_user_id p \<noteq> u) (polls (db_update_poll i u q opts d)) =
   filter (\<lambda>p. p_user_id p \<noteq> u) (polls d)"
  by (simp add: db_update_poll_def filter_not_owner_map_update)

lemma updatePoll_db_cases:
  "snd (updatePoll e i f d) = d \<or>
   (\<exists>u. session_user e = Some u \<and>
      snd (updatePoll e i f d) = db_update_poll i u (the (form_question f)) (form_option_list f) d)"
  by (auto simp: updatePoll_def split: option.split)

lemma deletePoll_db_cases:
  "snd (deletePoll e i d) = d \<or>
   (\<exists>u. session_user e = Some u \<and> read_error e = None \<and> map p_user_id (poll_by_id d i) = [u] \<and>
      snd (deletePoll e i d) = db_delete_poll i d)"
  by (auto simp: deletePoll_def sb_single_def split: option.split prod.split if_splits)

text \<open>The store effect of each route is that of the corresponding server action.\<close>

lemma polls_POST_db:
  "snd (polls_POST purify e body d) = (case body of None \<Rightarrow> d | Some f \<Rightarrow> snd (createPoll purify e f d))"
  by (simp add: polls_POST_def createPoll_def split: option.split create_check.split)

lemma polls_PUT_db:
  "snd (polls_PUT e i body d) = (case body of None \<Rightarrow> d | Some f \<Rightarrow> snd (updatePoll e i f d))"
  by (simp add: polls_PUT_def updatePoll_def split: option.split)

lemma polls_DELETE_db: "snd (polls_DELETE e i d) = snd (deletePoll e i d)"
  by (simp add: polls_DELETE_def deletePoll_def split: option.split prod.split)

lemma updatePoll_writes:
  "snd (updatePoll e i f d) = d \<or>
   (\<exists>u. session_user e = Some u \<and> update_input_ok f \<and>
      snd (updatePoll e i f d) = db_update_poll i u (the (form_question f)) (form_option_list f) d)"
  by (auto simp: updatePoll_def split: option.split)

text \<open>The GET route answers ok exactly when the read succeeds and the id names one poll.\<close>

lemma polls_GET_ok_iff:
  "resp_ok (polls_GET e i d) \<longleftrightarrow> read_error e = None \<and> length (poll_by_id d i) = 1"
  by (cases "read_error e"; cases "poll_by_id d i" rule: single.cases)
     (simp_all add: polls_GET_def sb_single_def)

lemma polls_GET_okD:
  assumes "resp_ok (polls_GET e i d)"
  shows "\<exists>p. poll_by_id d i = [p] \<and> payload (polls_GET e i d) = Inr (Some p)"
  using assms by (cases "read_error e"; cases "poll_by_id d i" rule: single.cases)
     (simp_all add: polls_GET_def sb_single_def)

subsection \<open>Properties of poll management\<close>

text \<open>createPoll rejects every form whose csrf_token is one the application hands out (no field, or text such as the serialised Promise of /api/csrf) with Invalid CSRF token and no write: nothing in the sources calls csrf.create, so no poll can be created through the forms.\<close>

theorem createPoll_rejects_app_tokens:
  assumes "app_token (form_csrf f)"
  shows "createPoll purify e f d = (Some ''Invalid CSRF token'', d)"
proof -
  have "\<not> csrf_verify (fresh_secret e) (form_csrf f)"
    using assms by (cases "form_csrf f" rule: app_token.cases) (simp_all add: csrf_verify_def)
  then show ?thesis by (simp add: createPoll_def create_validate_def)
qed

theorem createPoll_rejects_app_tokens_witness:
  "createPoll id \<lparr>session_user = Some 1, auth_error = None, clock = 0, read_error = None,
       write_error = None, fresh_secret = 5\<rparr>
     \<lparr>form_csrf = Some (CsrfText ''[object Object]''), form_question = Some ''Q?'',
      form_options = [''a'', ''b'']\<rparr> empty_db = (Some ''Invalid CSRF token'', empty_db)"
  by (rule createPoll_rejects_app_tokens) simp

text \<open>C14: When createPoll succeeds, the caller is resolved, the question is non-blank, at most 255 characters and free of <>"'&, there are 2 to 100 non-empty options free of those characters, and the store gains exactly the poll with the sanitised question and options.\<close>

theorem createPoll_success_valid:
  assumes "fst (createPoll purify e f d) = None"
  shows "\<exists>u q. session_user e = Some u \<and> form_question f = Some q \<and> js_trim q \<noteq> [] \<and>
    length q \<le> 255 \<and> 2 \<le> length (form_option_list f) \<and> length (form_option_list f) \<le> 100 \<and>
    \<not> forbidden_chars q \<and> (\<forall>x \<in> set (form_option_list f). \<not> forbidden_chars x) \<and>
    snd (createPoll purify e f d) = db_insert_poll e u (purify q) (map purify (form_option_list f)) d"
  using createPoll_None [OF assms] create_validate_CreateValid by fastforce

theorem createPoll_success_valid_witness:
  "polls (snd (createPoll id \<lparr>session_user = Some 1, auth_error = None, clock = 0, read_error = None,
       write_error = None, fresh_secret = 5\<rparr>
     \<lparr>form_csrf = Some (CsrfToken 5), form_question = Some ''Q?'', form_options = [''a'', ''b'']\<rparr>
     empty_db)) =
   [\<lparr>p_id = 0, p_user_id = 1, p_question = ''Q?'', p_options = [''a'', ''b''],
     p_created_at = 0, p_updated_at = 0, p_is_active = True, p_expires_at = None\<rparr>]"
proof -
  let ?e = "\<lparr>session_user = Some (1::uid), auth_error = None, clock = 0, read_error = None,
       write_error = None, fresh_secret = 5\<rparr>"
  let ?f = "\<lparr>form_csrf = Some (CsrfToken 5), form_question = Some ''Q?'', form_options = [''a'', ''b'']\<rparr>"
  have "fst (createPoll id ?e ?f empty_db) = None"
    by (simp add: createPoll_def create_validate_def csrf_verify_def form_option_list_def js_trim_def
        js_is_space_def forbidden_chars_def)
  from createPoll_success_valid [OF this] show ?thesis
    by (auto simp: db_insert_poll_def empty_db_def form_option_list_def)
qed

text \<open>C15: The route POST /api/polls and the server action createPoll take the same decision on every parsed form: the same store, the same error message, and status 200 exactly when the action reports no error.\<close>

theorem polls_POST_agrees_createPoll:
  "snd (polls_POST purify e (Some f) d) = snd (createPoll purify e f d) \<and>
   payload (fst (polls_POST purify e (Some f) d)) =
     (case fst (createPoll purify e f d) of None \<Rightarrow> Inr () | Some m \<Rightarrow> Inl m) \<and>
   (status (fst (polls_POST purify e (Some f) d)) = 200 \<longleftrightarrow> fst (createPoll purify e f d) = None)"
  by (simp add: polls_POST_def createPoll_def split: create_check.split option.split)

text \<open>C16: updatePoll never changes a poll that the caller does not own.\<close>

theorem updatePoll_owner_only:
  assumes "session_user e = Some u"
  shows "filter (\<lambda>p. p_user_id p \<noteq> u) (polls (snd (updatePoll e i f d))) =
         filter (\<lambda>p. p_user_id p \<noteq> u) (polls d)"
  using updatePoll_db_cases [of e i f d] assms filter_not_owner_update by auto

theorem updatePoll_owner_only_witness:
  "filter (\<lambda>p. p_user_id p \<noteq> 2) (polls (snd (updatePoll
     \<lparr>session_user = Some 2, auth_error = None, clock = 0, read_error = None, write_error = None,
      fresh_secret = 5\<rparr> 7
     \<lparr>form_csrf = Some (CsrfToken 5), form_question = Some ''New'', form_options = [''x'', ''y'']\<rparr>
     (empty_db\<lparr>polls := [\<lparr>p_id = 7, p_user_id = 1, p_question = ''Q'', p_options = [''a'', ''b''],
        p_created_at = 0, p_updated_at = 0, p_is_active = True, p_expires_at = None\<rparr>]\<rparr>))))
   = [\<lparr>p_id = 7, p_user_id = 1, p_question = ''Q'', p_options = [''a'', ''b''],
        p_created_at = 0, p_updated_at = 0, p_is_active = True, p_expires_at = None\<rparr>]"
  using updatePoll_owner_only [of "\<lparr>session_user = Some 2, auth_error = None, clock = 0,
      read_error = None, write_error = None, fresh_secret = 5\<rparr>" 2 7
    "\<lparr>form_csrf = Some (CsrfToken 5), form_question = Some ''New'', form_options = [''x'', ''y'']\<rparr>"
    "empty_db\<lparr>polls := [\<lparr>p_id = 7, p_user_id = 1, p_question = ''Q'', p_options = [''a'', ''b''],
        p_created_at = 0, p_updated_at = 0, p_is_active = True, p_expires_at = None\<rparr>]\<rparr>"]
  by (simp add: empty_db_def)

text \<open>C17: deletePoll changes the store only when the caller is the single owner of the poll, and then deletes exactly that poll with its votes and comments.\<close>

theorem deletePoll_owner_only:
  assumes "snd (deletePoll e i d) \<noteq> d"
  shows "\<exists>u. session_user e = Some u \<and> map p_user_id (poll_by_id d i) = [u] \<and>
           snd (deletePoll e i d) = db_delete_poll i d"
  using deletePoll_db_cases [of e i d] assms by auto

theorem deletePoll_owner_only_witness:
  "snd (deletePoll \<lparr>session_user = Some 1, auth_error = None, clock = 0, read_error = None,
      write_error = None, fresh_secret = 0\<rparr> 7
     (empty_db\<lparr>polls := [\<lparr>p_id = 7, p_user_id = 1, p_question = ''Q'', p_options = [''a'', ''b''],
        p_created_at = 0, p_updated_at = 0, p_is_active = True, p_expires_at = None\<rparr>]\<rparr>))
   = db_delete_poll 7 (empty_db\<lparr>polls := [\<lparr>p_id = 7, p_user_id = 1, p_question = ''Q'',
        p_options = [''a'', ''b''], p_created_at = 0, p_updated_at = 0, p_is_active = True,
        p_expires_at = None\<rparr>]\<rparr>)"
proof -
  let ?e = "\<lparr>session_user = Some (1::uid), auth_error = None, clock = 0, read_error = None,
      write_error = None, fresh_secret = 0\<rparr>"
  let ?d = "empty_db\<lparr>polls := [\<lparr>p_id = 7, p_user_id = 1, p_question = ''Q'', p_options = [''a'', ''b''],
        p_created_at = 0, p_updated_at = 0, p_is_active = True, p_expires_at = None\<rparr>]\<rparr>"
  have "snd (deletePoll ?e 7 ?d) \<noteq> ?d"
    by (simp add: deletePoll_def poll_by_id_def db_delete_poll_def empty_db_def)
  from deletePoll_owner_only [OF this] show ?thesis by auto
qed

text \<open>C18: The route DELETE /api/polls/[id] and the server action deletePoll have the same effect on the store and the same error messages.\<close>

theorem polls_DELETE_agrees_deletePoll:
  "snd (polls_DELETE e i d) = snd (deletePoll e i d) \<and>
   payload (fst (polls_DELETE e i d)) =
     (case fst (deletePoll e i d) of None \<Rightarrow> Inr () | Some m \<Rightarrow> Inl m)"
  by (simp add: polls_DELETE_def deletePoll_def split: option.split prod.split)

text \<open>C19: The route PUT /api/polls/[id] and the server action updatePoll have the same effect on the store and the same error messages on every parsed form.\<close>

theorem polls_PUT_agrees_updatePoll:
  "snd (polls_PUT e i (Some f) d) = snd (updatePoll e i f d) \<and>
   payload (fst (polls_PUT e i (Some f) d)) =
     (case fst (updatePoll e i f d) of None \<Rightarrow> Inr () | Some m \<Rightarrow> Inl m)"
  by (simp add: polls_PUT_def updatePoll_def split: option.split)

text \<open>C20: For a resolved caller with succeeding reads, getUserPolls returns exactly the caller's polls, newest first, and no error.\<close>

theorem getUserPolls_own_newest_first:
  assumes "session_user e = Some u" "read_error e = None"
  shows "set (fst (getUserPolls e d)) = {p \<in> set (polls d). p_user_id p = u} \<and>
         sorted (rev (map p_created_at (fst (getUserPolls e d)))) \<and>
         snd (getUserPolls e d) = None"
  using assms by (simp add: getUserPolls_def rev_map [symmetric])

theorem getUserPolls_own_newest_first_witness:
  "map p_id (fst (getUserPolls \<lparr>session_user = Some 1, auth_error = None, clock = 0,
      read_error = None, write_error = None, fresh_secret = 0\<rparr>
     (empty_db\<lparr>polls := [\<lparr>p_id = 7, p_user_id = 1, p_question = ''Q'', p_options = [''a'', ''b''],
        p_created_at = 10, p_updated_at = 10, p_is_active = True, p_expires_at = None\<rparr>,
        \<lparr>p_id = 8, p_user_id = 2, p_question = ''R'', p_options = [''a'', ''b''],
        p_created_at = 20, p_updated_at = 20, p_is_active = True, p_expires_at = None\<rparr>]\<rparr>)))
   = [7]"
proof -
  let ?e = "\<lparr>session_user = Some (1::uid), auth_error = None, clock = 0, read_error = None,
      write_error = None, fresh_secret = 0\<rparr>"
  let ?d = "empty_db\<lparr>polls := [\<lparr>p_id = 7, p_user_id = 1, p_question = ''Q'', p_options = [''a'', ''b''],
        p_created_at = 10, p_updated_at = 10, p_is_active = True, p_expires_at = None\<rparr>,
        \<lparr>p_id = 8, p_user_id = 2, p_question = ''R'', p_options = [''a'', ''b''],
        p_created_at = 20, p_updated_at = 20, p_is_active = True, p_expires_at = None\<rparr>]\<rparr>"
  have "snd (getUserPolls ?e ?d) = None"
    using getUserPolls_own_newest_first [of ?e 1 ?d] by simp
  then show ?thesis by (simp add: getUserPolls_def empty_db_def)
qed

text \<open>The check reported as "Options are too long (maximum 100 characters)" counts options, not characters: a poll with a 300-character option is accepted, and 101 one-character options are rejected with that message.\<close>

theorem createPoll_counts_options_not_chars:
  "let e = \<lparr>session_user = Some 1, auth_error = None, clock = 0, read_error = None,
            write_error = None, fresh_secret = 5\<rparr>;
       long = \<lparr>form_csrf = Some (CsrfToken 5), form_question = Some ''Best colour?'',
               form_options = [replicate 300 (CHR ''a''), ''blue'']\<rparr>;
       many = \<lparr>form_csrf = Some (CsrfToken 5), form_question = Some ''Best colour?'',
               form_options = replicate 101 ''x''\<rparr>
   in fst (createPoll id e long empty_db) = None \<and>
      fst (createPoll id e many empty_db) = Some ''Options are too long (maximum 100 characters).''"
  by (simp add: createPoll_def create_validate_def csrf_verify_def form_option_list_def js_trim_def
      js_is_space_def forbidden_chars_def list_ex_iff)

text \<open>updatePoll by a caller who does not own the poll reports success (no error) and changes nothing.\<close>

theorem updatePoll_non_owner_success:
  "let e = \<lparr>session_user = Some 2, auth_error = None, clock = 0, read_error = None,
            write_error = None, fresh_secret = 5\<rparr>;
       d = empty_db\<lparr>polls := [\<lparr>p_id = 7, p_user_id = 1, p_question = ''Q'', p_options = [''a'', ''b''],
             p_created_at = 0, p_updated_at = 0, p_is_active = True, p_expires_at = None\<rparr>]\<rparr>;
       f = \<lparr>form_csrf = Some (CsrfToken 5), form_question = Some ''Hijacked'', form_options = [''x'', ''y'']\<rparr>
   in updatePoll e 7 f d = (None, d)"
  by (simp add: updatePoll_def csrf_verify_def update_input_ok_def form_option_list_def
      db_update_poll_def empty_db_def)

text \<open>updatePoll stores a question that createPoll rejects (it contains < and >): the update path skips the character check, the length limit and the sanitising of the create path.\<close>

theorem updatePoll_stores_unvalidated:
  "let e = \<lparr>session_user = Some 1, auth_error = None, clock = 0, read_error = None,
            write_error = None, fresh_secret = 5\<rparr>;
       d = empty_db\<lparr>polls := [\<lparr>p_id = 7, p_user_id = 1, p_question = ''Q'', p_options = [''a'', ''b''],
             p_created_at = 0, p_updated_at = 0, p_is_active = True, p_expires_at = None\<rparr>]\<rparr>;
       f = \<lparr>form_csrf = Some (CsrfToken 5), form_question = Some ''<b>Q</b>'', form_options = [''x'', ''y'']\<rparr>;
       (r, d') = updatePoll e 7 f d
   in r = None \<and> map p_question (polls d') = [''<b>Q</b>''] \<and>
      create_validate e f = QuestionChars"
  by (simp add: updatePoll_def csrf_verify_def update_input_ok_def form_option_list_def
      db_update_poll_def empty_db_def create_validate_def js_trim_def js_is_space_def
      forbidden_chars_def)

end
