(* ===== verification/Admin.thy ===== *)
theory Admin
  imports Store
begin

text \<open>
  The admin server actions of \<open>src/app/lib/actions/admin-actions.ts\<close> and the admin page
  \<open>src/app/(dashboard)/admin/page.tsx\<close> that composes them. Every action first calls
  \<open>isAdmin()\<close>, which resolves the caller and reads the \<open>role\<close> of its profile row with
  \<open>.single()\<close>; a failing read, a missing row or several rows make it \<open>false\<close>. The
  order of \<open>getAllUsers\<close> and \<open>getAllPolls\<close> is \<open>created_at\<close> descending, as in
  \<open>getUserPolls\<close>.
\<close>

subsection \<open>The admin check\<close>

definition isAdmin :: "env \<Rightarrow> db \<Rightarrow> bool" where
  "isAdmin e d =
     (case auth_error e of
        Some _ \<Rightarrow> False
      | None \<Rightarrow>
        (case session_user e of
           None \<Rightarrow> False
         | Some u \<Rightarrow>
             fst (sb_single e (map u_role (filter (\<lambda>r. u_id r = u) (profiles d)))) = Some Admin))"

subsection \<open>Actions\<close>

definition getAllUsers :: "env \<Rightarrow> db \<Rightarrow> profile list \<times> string option" where
  "getAllUsers e d =
     (if \<not> isAdmin e d then ([], Some ''Unauthorized'')
      else (case read_error e of
              Some m \<Rightarrow> ([], Some m)
            | None \<Rightarrow> (rev (sort_key u_created_at (profiles d)), None)))"

definition updateUserRole :: "env \<Rightarrow> uid \<Rightarrow> role \<Rightarrow> db \<Rightarrow> action_result \<times> db" where
  "updateUserRole e u r d =
     (if \<not> isAdmin e d then (Some ''Unauthorized'', d)
      else (case write_error e of
              Some m \<Rightarrow> (Some m, d)
            | None \<Rightarrow> (None, db_update_role u r d)))"

text \<open>
  \<open>select("*, profiles!polls_user_id_fkey(email)")\<close>: each poll with the e-mail of the
  profile its \<open>user_id\<close> references, \<open>null\<close> when there is none.
\<close>

definition poll_owner_email :: "db \<Rightarrow> poll \<Rightarrow> string option" where
  "poll_owner_email d p = map_option u_email (find (\<lambda>r. u_id r = p_user_id p) (profiles d))"

definition getAllPolls :: "env \<Rightarrow> db \<Rightarrow> (poll \<times> string option) list \<times> string option" where
  "getAllPolls e d =
     (if \<not> isAdmin e d then ([], Some ''Unauthorized'')
      else (case read_error e of
              Some m \<Rightarrow> ([], Some m)
            | None \<Rightarrow> (map (\<lambda>p. (p, poll_owner_email d p)) (rev (sort_key p_created_at (polls d))),
                       None)))"

definition adminDeletePoll :: "env \<Rightarrow> pid \<Rightarrow> db \<Rightarrow> action_result \<times> db" where
  "adminDeletePoll e i d =
     (if \<not> isAdmin e d then (Some ''Unauthorized'', d)
      else (case write_error e of
              Some m \<Rightarrow> (Some m, d)
            | None \<Rightarrow> (None, db_delete_poll i d)))"

text \<open>
  \<open>getPlatformStats\<close>: four \<open>count: "exact", head: true\<close> selects whose failures are
  ignored (\<open>count || 0\<close>). \<open>sevenDaysAgo.setDate(getDate() - 7)\<close> moves the calendar
  date in the server's local time; on a server running in UTC that is seven days of
  milliseconds (a daylight-saving change inside the week would shift it by an hour).
  \<open>.gte("created_at", iso)\<close> keeps the polls created at or after that instant.
\<close>

record platform_stats =
  total_users :: nat
  total_polls :: nat
  total_votes :: nat
  recent_polls :: nat

definition seven_days_ms :: int where
  "seven_days_ms = 7 * 24 * 60 * 60 * 1000"

definition count_or_zero :: "env \<Rightarrow> 'a list \<Rightarrow> nat" where
  "count_or_zero e rows = (case select_rows e rows of None \<Rightarrow> 0 | Some rs \<Rightarrow> length rs)"

definition getPlatformStats :: "env \<Rightarrow> db \<Rightarrow> platform_stats option \<times> string option" where
  "getPlatformStats e d =
     (if \<not> isAdmin e d then (None, Some ''Unauthorized'')
      else (Some \<lparr>total_users = count_or_zero e (profiles d),
                  total_polls = count_or_zero e (polls d),
                  total_votes = count_or_zero e (votes d),
                  recent_polls = count_or_zero e
                    (filter (\<lambda>p. clock e - seven_days_ms \<le> p_created_at p) (polls d))\<rparr>,
            None))"

subsection \<open>The admin page\<close>

text \<open>
  \<open>AdminPage\<close> redirects non-admins to \<open>/polls\<close> (\<open>None\<close>) and otherwise renders the
  dashboard with the three results. The dashboard's role button
  (\<open>AdminDashboard.tsx\<close>) asks for the other role.
\<close>

definition AdminPage :: "env \<Rightarrow> db \<Rightarrow>
    ((profile list \<times> string option) \<times> ((poll \<times> string option) list \<times> string option)
     \<times> (platform_stats option \<times> string option)) option" where
  "AdminPage e d =
     (if \<not> isAdmin e d then None
      else Some (getAllUsers e d, getAllPolls e d, getPlatformStats e d))"

definition toggle_role :: "role \<Rightarrow> role" where
  "toggle_role r = (if r = Admin then User else Admin)"

subsection \<open>Lemmas\<close>

text \<open>The admin check in terms of the store: one profile row of the caller, with role admin.\<close>

lemma isAdmin_conv:
  "isAdmin e d \<longleftrightarrow> auth_error e = None \<and> read_error e = None \<and>
     (\<exists>a. session_user e = Some a \<and> role_of d a = Some Admin)"
  by (auto simp: isAdmin_def sb_single_def role_of_def single_map
           split: option.splits)

lemmas admin_action_defs = getAllUsers_def updateUserRole_def getAllPolls_def
  adminDeletePoll_def getPlatformStats_def

lemma admin_actions_not_admin:
  assumes "\<not> isAdmin e d"
  shows "updateUserRole e u r d = (Some ''Unauthorized'', d)"
    and "adminDeletePoll e i d = (Some ''Unauthorized'', d)"
    and "getAllUsers e d = ([], Some ''Unauthorized'')"
    and "getAllPolls e d = ([], Some ''Unauthorized'')"
    and "getPlatformStats e d = (None, Some ''Unauthorized'')"
  using assms by (simp_all add: admin_action_defs)

lemma admin_write_cases:
  "snd (updateUserRole e u r d) = d \<or> isAdmin e d \<and> write_error e = None \<and>
     snd (updateUserRole e u r d) = db_update_role u r d"
  "snd (adminDeletePoll e i d) = d \<or> isAdmin e d \<and> write_error e = None \<and>
     snd (adminDeletePoll e i d) = db_delete_poll i d"
  by (auto simp: updateUserRole_def adminDeletePoll_def split: option.splits)


subsection \<open>Properties of the admin actions\<close>

text \<open>C21: updateUserRole and adminDeletePoll change the store only when the caller is resolved, the reads succeed, and the caller has exactly one profile row and its role is admin.\<close>

theorem admin_writes_require_admin:
  "(snd (updateUserRole e u r d) \<noteq> d \<longrightarrow>
      auth_error e = None \<and> read_error e = None \<and>
      (\<exists>a pr. session_user e = Some a \<and> filter (\<lambda>x. u_id x = a) (profiles d) = [pr] \<and> u_role pr = Admin)) \<and>
   (snd (adminDeletePoll e i d) \<noteq> d \<longrightarrow>
      auth_error e = None \<and> read_error e = None \<and>
      (\<exists>a pr. session_user e = Some a \<and> filter (\<lambda>x. u_id x = a) (profiles d) = [pr] \<and> u_role pr = Admin))"
  using admin_write_cases(1) [of e u r d] admin_write_cases(2) [of e i d]
  by (auto simp: isAdmin_conv role_of_def)

theorem admin_writes_require_admin_witness:
  "snd (updateUserRole \<lparr>session_user = Some 1, auth_error = None, clock = 0, read_error = None,
       write_error = None, fresh_secret = 0\<rparr> 2 Admin
       (empty_db\<lparr>profiles := [\<lparr>u_id = 1, u_email = ''a@x'', u_role = Admin, u_created_at = 0\<rparr>,
                              \<lparr>u_id = 2, u_email = ''b@x'', u_role = User, u_created_at = 0\<rparr>]\<rparr>))
     \<noteq> empty_db\<lparr>profiles := [\<lparr>u_id = 1, u_email = ''a@x'', u_role = Admin, u_created_at = 0\<rparr>,
                              \<lparr>u_id = 2, u_email = ''b@x'', u_role = User, u_created_at = 0\<rparr>]\<rparr>
   \<and> (\<exists>a pr. Some (1::nat) = Some a \<and>
        filter (\<lambda>x. u_id x = a) [\<lparr>u_id = 1, u_email = ''a@x'', u_role = Admin, u_created_at = 0\<rparr>,
                              \<lparr>u_id = 2, u_email = ''b@x'', u_role = User, u_created_at = 0\<rparr>] = [pr]
        \<and> u_role pr = Admin)"
proof -
  let ?e = "\<lparr>session_user = Some 1, auth_error = None, clock = 0, read_error = None,
       write_error = None, fresh_secret = 0\<rparr>"
  let ?d = "empty_db\<lparr>profiles := [\<lparr>u_id = 1, u_email = ''a@x'', u_role = Admin, u_created_at = 0\<rparr>,
                              \<lparr>u_id = 2, u_email = ''b@x'', u_role = User, u_created_at = 0\<rparr>]\<rparr>"
  have ch: "snd (updateUserRole ?e 2 Admin ?d) \<noteq> ?d"
    by (simp add: updateUserRole_def isAdmin_def sb_single_def db_update_role_def empty_db_def)
  show ?thesis
    using admin_writes_require_admin [of ?e 2 Admin ?d 0] ch by (simp add: empty_db_def)
qed

text \<open>For an admin caller with succeeding reads and write, adminDeletePoll deletes the poll whoever owns it, with its votes and comments.\<close>

theorem adminDeletePoll_any_owner:
  assumes "auth_error e = None" "read_error e = None" "write_error e = None"
    and "session_user e = Some a" "filter (\<lambda>x. u_id x = a) (profiles d) = [pr]" "u_role pr = Admin"
  shows "adminDeletePoll e i d = (None, db_delete_poll i d)"
  using assms by (simp add: adminDeletePoll_def isAdmin_conv role_of_def)

theorem adminDeletePoll_any_owner_witness:
  "adminDeletePoll \<lparr>session_user = Some 1, auth_error = None, clock = 0, read_error = None,
       write_error = None, fresh_secret = 0\<rparr> 5
     (empty_db\<lparr>polls := [\<lparr>p_id = 5, p_user_id = 2, p_question = ''q'', p_options = [''a'', ''b''],
                  p_created_at = 0, p_updated_at = 0, p_is_active = True, p_expires_at = None\<rparr>],
               profiles := [\<lparr>u_id = 1, u_email = ''a@x'', u_role = Admin, u_created_at = 0\<rparr>]\<rparr>)
   = (None, empty_db\<lparr>profiles := [\<lparr>u_id = 1, u_email = ''a@x'', u_role = Admin, u_created_at = 0\<rparr>]\<rparr>)"
proof -
  have "adminDeletePoll \<lparr>session_user = Some 1, auth_error = None, clock = 0, read_error = None,
       write_error = None, fresh_secret = 0\<rparr> 5
     (empty_db\<lparr>polls := [\<lparr>p_id = 5, p_user_id = 2, p_question = ''q'', p_options = [''a'', ''b''],
                  p_created_at = 0, p_updated_at = 0, p_is_active = True, p_expires_at = None\<rparr>],
               profiles := [\<lparr>u_id = 1, u_email = ''a@x'', u_role = Admin, u_created_at = 0\<rparr>]\<rparr>)
   = (None, db_delete_poll 5 (empty_db\<lparr>polls := [\<lparr>p_id = 5, p_user_id = 2, p_question = ''q'', p_options = [''a'', ''b''],
                  p_created_at = 0, p_updated_at = 0, p_is_active = True, p_expires_at = None\<rparr>],
               profiles := [\<lparr>u_id = 1, u_email = ''a@x'', u_role = Admin, u_created_at = 0\<rparr>]\<rparr>))"
    by (rule adminDeletePoll_any_owner [where a = 1 and
          pr = "\<lparr>u_id = 1, u_email = ''a@x'', u_role = Admin, u_created_at = 0\<rparr>"]) simp_all
  then show ?thesis by (simp add: db_delete_poll_def empty_db_def)
qed

text \<open>For an admin caller with succeeding reads, getPlatformStats reports the exact numbers of profiles, polls and votes, and the number of polls created in the last 604800000 ms (seven days).\<close>

theorem getPlatformStats_counts:
  assumes "auth_error e = None" "read_error e = None"
    and "session_user e = Some a" "filter (\<lambda>x. u_id x = a) (profiles d) = [pr]" "u_role pr = Admin"
  shows "getPlatformStats e d =
    (Some \<lparr>total_users = length (profiles d), total_polls = length (polls d),
           total_votes = length (votes d),
           recent_polls = length (filter (\<lambda>p. clock e - 604800000 \<le> p_created_at p) (polls d))\<rparr>,
     None)"
  using assms by (simp add: getPlatformStats_def isAdmin_conv role_of_def count_or_zero_def seven_days_ms_def)

theorem getPlatformStats_counts_witness:
  "getPlatformStats \<lparr>session_user = Some 1, auth_error = None, clock = 700000000, read_error = None,
       write_error = None, fresh_secret = 0\<rparr>
     (empty_db\<lparr>polls := [\<lparr>p_id = 5, p_user_id = 2, p_question = ''q'', p_options = [''a'', ''b''],
                  p_created_at = 0, p_updated_at = 0, p_is_active = True, p_expires_at = None\<rparr>,
                \<lparr>p_id = 6, p_user_id = 1, p_question = ''r'', p_options = [''a'', ''b''],
                  p_created_at = 600000000, p_updated_at = 0, p_is_active = True, p_expires_at = None\<rparr>],
               profiles := [\<lparr>u_id = 1, u_email = ''a@x'', u_role = Admin, u_created_at = 0\<rparr>]\<rparr>)
   = (Some \<lparr>total_users = 1, total_polls = 2, total_votes = 0, recent_polls = 1\<rparr>, None)"
  by (subst getPlatformStats_counts [where a = 1 and pr = "\<lparr>u_id = 1, u_email = ''a@x'', u_role = Admin, u_created_at = 0\<rparr>"])
     (simp_all add: empty_db_def)

text \<open>When the caller is not a resolved user whose single profile row says admin (or a read fails), getAllUsers, getAllPolls and getPlatformStats return Unauthorized with no data and the admin page redirects: the admin check fails closed.\<close>

theorem admin_reads_unauthorized:
  assumes "\<not> (auth_error e = None \<and> read_error e = None \<and>
     (\<exists>a pr. session_user e = Some a \<and> filter (\<lambda>x. u_id x = a) (profiles d) = [pr] \<and> u_role pr = Admin))"
  shows "getAllUsers e d = ([], Some ''Unauthorized'') \<and> getAllPolls e d = ([], Some ''Unauthorized'') \<and>
    getPlatformStats e d = (None, Some ''Unauthorized'') \<and> AdminPage e d = None"
proof -
  have "\<not> isAdmin e d" using assms by (auto simp: isAdmin_conv role_of_def)
  then show ?thesis by (simp add: admin_actions_not_admin AdminPage_def)
qed

theorem admin_reads_unauthorized_witness:
  "getAllUsers \<lparr>session_user = Some 1, auth_error = None, clock = 0, read_error = None,
       write_error = None, fresh_secret = 0\<rparr>
     (empty_db\<lparr>profiles := [\<lparr>u_id = 1, u_email = ''a@x'', u_role = User, u_created_at = 0\<rparr>,
                             \<lparr>u_id = 2, u_email = ''b@x'', u_role = Admin, u_created_at = 0\<rparr>]\<rparr>)
   = ([], Some ''Unauthorized'')"
  using admin_reads_unauthorized [of "\<lparr>session_user = Some 1, auth_error = None, clock = 0, read_error = None,
       write_error = None, fresh_secret = 0\<rparr>"
     "empty_db\<lparr>profiles := [\<lparr>u_id = 1, u_email = ''a@x'', u_role = User, u_created_at = 0\<rparr>,
                             \<lparr>u_id = 2, u_email = ''b@x'', u_role = Admin, u_created_at = 0\<rparr>]\<rparr>"]
  by (simp add: empty_db_def)

end
