(* ===== verification/Comments.thy ===== *)
theory Comments
  imports Store
begin

text \<open>
  The comments API \<open>GET/POST /api/polls/[id]/comments\<close>
  (\<open>src/app/api/polls/[id]/comments/route.ts\<close>). The route builds its client with
  \<open>createRouteHandlerClient({ cookies })\<close> and reads the caller with
  \<open>auth.getSession()\<close>, i.e. from the session cookie; the model takes the same
  \<open>session_user\<close> of the request's \<open>env\<close>. The embedded
  \<open>profiles(username, avatar_url)\<close> of both selects only decorates the rows and is not
  modelled. Statements outside the route's \<open>try\<close> that throw (\<open>request.json()\<close> on a
  malformed body, destructuring \<open>null\<close>, \<open>content.trim\<close> on a non-string) reject the
  handler: Next.js then answers a bare 500 page, which is the value \<open>None\<close> here.
\<close>

definition comments_of :: "db \<Rightarrow> pid \<Rightarrow> comment list" where
  "comments_of d i = rev (sort_key c_created_at (filter (\<lambda>c. c_poll_id c = i) (comments d)))"

definition comments_GET :: "env \<Rightarrow> pid \<Rightarrow> db \<Rightarrow> comment list response" where
  "comments_GET e i d =
     (case read_error e of
        Some m \<Rightarrow> err_resp 500 m
      | None \<Rightarrow> ok_resp 200 (comments_of d i))"

definition comments_POST :: "env \<Rightarrow> pid \<Rightarrow> json_body \<Rightarrow> db \<Rightarrow> comment response option \<times> db" where
  "comments_POST e i b d =
     (case session_user e of
        None \<Rightarrow> (Some (err_resp 401 ''Unauthorized''), d)
      | Some u \<Rightarrow>
        (case body_field b ''content'' of
           None \<Rightarrow> (None, d)
         | Some v \<Rightarrow>
           if \<not> js_truthy v then (Some (err_resp 400 ''Comment content cannot be empty''), d)
           else (case v of
                   JStr s \<Rightarrow>
                     if js_trim s = [] then (Some (err_resp 400 ''Comment content cannot be empty''), d)
                     else (case write_error e of
                             Some m \<Rightarrow> (Some (err_resp 500 m), d)
                           | None \<Rightarrow>
                               (Some (ok_resp 201 \<lparr>c_id = next_id d, c_poll_id = i, c_user_id = u,
                                                    c_content = js_trim s, c_created_at = clock e\<rparr>),
                                db_insert_comment e i u (js_trim s) d))
                 | _ \<Rightarrow> (None, d))))"

subsection \<open>Lemmas\<close>

text \<open>
  A row whose key is at least every other key comes last in the stable sort when it is
  appended last.
\<close>

lemma sort_key_append_max:
  assumes "\<forall>y \<in> set xs. f y \<le> f x"
  shows "sort_key f (xs @ [x]) = sort_key f xs @ [x]"
proof (rule properties_for_sort_key)
  show "mset (sort_key f xs @ [x]) = mset (xs @ [x])" by simp
  show "sorted (map f (sort_key f xs @ [x]))"
    using assms by (simp add: sorted_append)
  fix k
  assume "k \<in> set (sort_key f xs @ [x])"
  show "filter (\<lambda>y. f k = f y) (sort_key f xs @ [x]) = filter (\<lambda>y. f k = f y) (xs @ [x])"
    using sort_key_stable [of f "f k" xs] by (simp add: eq_commute [of "f k"])
qed

text \<open>A comment made at the latest time comes first in the poll's newest-first list.\<close>

lemma comments_of_insert:
  assumes "\<forall>c \<in> set (comments d). c_created_at c \<le> clock e"
  shows "comments_of (db_insert_comment e i u txt d) i =
    \<lparr>c_id = next_id d, c_poll_id = i, c_user_id = u, c_content = txt, c_created_at = clock e\<rparr>
    # comments_of d i"
  using assms by (simp add: comments_of_def db_insert_comment_def sort_key_append_max)

lemma comments_POST_db_cases:
  "snd (comments_POST e i b d) = d \<or>
   (\<exists>u s. session_user e = Some u \<and> body_field b ''content'' = Some (JStr s) \<and>
      js_trim s \<noteq> [] \<and> write_error e = None \<and>
      snd (comments_POST e i b d) = db_insert_comment e i u (js_trim s) d)"
  by (auto simp: comments_POST_def split: option.splits jsval.splits)


subsection \<open>Properties of the comments API\<close>

text \<open>C25: A logged-in POST whose content is a string with non-blank trim answers 201 with the new comment (trimmed content, the session user, the request time) and inserts exactly it; a later GET of the same poll lists it first, followed by the poll's earlier comments newest first, provided no stored comment is dated after the request.\<close>

theorem comments_POST_then_GET:
  assumes "session_user e = Some u" "body_field b ''content'' = Some (JStr s)" "js_trim s \<noteq> []"
    and "write_error e = None" "read_error e' = None"
    and "\<forall>c \<in> set (comments d). c_created_at c \<le> clock e"
  shows "comments_POST e i b d =
      (Some (ok_resp 201 \<lparr>c_id = next_id d, c_poll_id = i, c_user_id = u,
                          c_content = js_trim s, c_created_at = clock e\<rparr>),
       db_insert_comment e i u (js_trim s) d)
    \<and> comments_GET e' i (snd (comments_POST e i b d)) =
      ok_resp 200 (\<lparr>c_id = next_id d, c_poll_id = i, c_user_id = u,
                    c_content = js_trim s, c_created_at = clock e\<rparr> # comments_of d i)"
proof -
  have post: "comments_POST e i b d =
      (Some (ok_resp 201 \<lparr>c_id = next_id d, c_poll_id = i, c_user_id = u,
                          c_content = js_trim s, c_created_at = clock e\<rparr>),
       db_insert_comment e i u (js_trim s) d)"
    using assms(1-4) by (cases s) (auto simp: comments_POST_def)
  with assms(5,6) show ?thesis by (simp add: comments_GET_def comments_of_insert)
qed

theorem comments_POST_then_GET_witness:
  "comments_GET \<lparr>session_user = None, auth_error = None, clock = 9, read_error = None,
       write_error = None, fresh_secret = 0\<rparr> 3
     (snd (comments_POST \<lparr>session_user = Some 1, auth_error = None, clock = 5, read_error = None,
       write_error = None, fresh_secret = 0\<rparr> 3 (JsonObject [(''content'', JStr ''  hi '')])
       (empty_db\<lparr>comments := [\<lparr>c_id = 0, c_poll_id = 3, c_user_id = 2, c_content = ''old'',
                                     c_created_at = 4\<rparr>], next_id := 1\<rparr>)))
   = ok_resp 200 [\<lparr>c_id = 1, c_poll_id = 3, c_user_id = 1, c_content = ''hi'', c_created_at = 5\<rparr>,
                  \<lparr>c_id = 0, c_poll_id = 3, c_user_id = 2, c_content = ''old'', c_created_at = 4\<rparr>]"
proof -
  let ?e = "\<lparr>session_user = Some 1, auth_error = None, clock = 5, read_error = None,
       write_error = None, fresh_secret = 0\<rparr>"
  let ?e' = "\<lparr>session_user = None, auth_error = None, clock = 9, read_error = None,
       write_error = None, fresh_secret = 0\<rparr>"
  let ?b = "JsonObject [(''content'', JStr ''  hi '')]"
  let ?d = "empty_db\<lparr>comments := [\<lparr>c_id = 0, c_poll_id = 3, c_user_id = 2, c_content = ''old'',
                                     c_created_at = 4\<rparr>], next_id := 1\<rparr>"
  have tr: "js_trim ''  hi '' = ''hi''" by (simp add: js_trim_def js_is_space_def)
  have c: "comments_POST ?e 3 ?b ?d =
      (Some (ok_resp 201 \<lparr>c_id = next_id ?d, c_poll_id = 3, c_user_id = 1,
                          c_content = js_trim ''  hi '', c_created_at = clock ?e\<rparr>),
       db_insert_comment ?e 3 1 (js_trim ''  hi '') ?d)
    \<and> comments_GET ?e' 3 (snd (comments_POST ?e 3 ?b ?d)) =
      ok_resp 200 (\<lparr>c_id = next_id ?d, c_poll_id = 3, c_user_id = 1,
                    c_content = js_trim ''  hi '', c_created_at = clock ?e\<rparr> # comments_of ?d 3)"
    by (rule comments_POST_then_GET) (simp_all add: tr)
  have co: "comments_of ?d 3 = [\<lparr>c_id = 0, c_poll_id = 3, c_user_id = 2, c_content = ''old'',
                                     c_created_at = 4\<rparr>]"
    by (simp add: comments_of_def)
  from conjunct2 [OF c] show ?thesis by (simp only: co tr) simp
qed

text \<open>A logged-in POST whose content is truthy but not a string (a number, true, an object or array) makes content.trim() throw outside the try block: the handler rejects (a bare 500 page, not the JSON error) and nothing is stored.\<close>

theorem comments_POST_non_string_rejects:
  assumes "session_user e = Some u" "body_field b ''content'' = Some v" "js_truthy v"
    and "\<forall>s. v \<noteq> JStr s"
  shows "comments_POST e i b d = (None, d)"
  using assms by (cases v) (auto simp: comments_POST_def)

theorem comments_POST_non_string_rejects_witness:
  "comments_POST \<lparr>session_user = Some 1, auth_error = None, clock = 5, read_error = None,
       write_error = None, fresh_secret = 0\<rparr> 3 (JsonObject [(''content'', JNum 5)]) empty_db
   = (None, empty_db)"
  by (rule comments_POST_non_string_rejects [where u = 1 and v = "JNum 5"]) simp_all

end
