(* ===== verification/Email.thy ===== *)
theory Email
  imports Store
begin

text \<open>
  \<open>sendPollClosingEmail\<close> (\<open>src/app/lib/utils/email.ts\<close>): it logs the e-mail to the
  console (not modelled: no state) and inserts one row into \<open>email_notifications\<close>
  with \<open>user_id: poll.created_at\<close>, the poll's id, the type \<open>poll_closing\<close> and the
  recipient. The client passed as \<open>supabaseClient\<close> or made by \<open>createClient()\<close> is
  the store of the model either way. The result is \<open>{ success, error? }\<close>.
\<close>

definition sendPollClosingEmail :: "env \<Rightarrow> poll \<Rightarrow> string \<Rightarrow> db \<Rightarrow> (bool \<times> string option) \<times> db" where
  "sendPollClosingEmail e p r d =
     (case write_error e of
        Some m \<Rightarrow> ((False, Some m), d)
      | None \<Rightarrow> ((True, None), db_insert_notification (DTime (p_created_at p)) (p_id p) PollClosing r d))"


subsection \<open>Properties of the notifier\<close>

text \<open>C26: When the insert succeeds, sendPollClosingEmail appends exactly one email_notifications row, whose user_id is the poll's created_at timestamp and never the id of the poll's owner.\<close>

theorem sendPollClosingEmail_user_id_is_created_at:
  assumes "write_error e = None"
  shows "sendPollClosingEmail e p r d =
      ((True, None), d\<lparr>notifications := notifications d @
          [\<lparr>n_id = next_id d, n_user_id = DTime (p_created_at p), n_poll_id = p_id p,
             n_type = PollClosing, n_email = r\<rparr>],
        next_id := Suc (next_id d)\<rparr>)
    \<and> (\<forall>n \<in> set (notifications (snd (sendPollClosingEmail e p r d))) - set (notifications d).
         n_user_id n \<noteq> DUid (p_user_id p))"
  using assms by (auto simp: sendPollClosingEmail_def db_insert_notification_def)

theorem sendPollClosingEmail_user_id_is_created_at_witness:
  "sendPollClosingEmail \<lparr>session_user = None, auth_error = None, clock = 0, read_error = None,
       write_error = None, fresh_secret = 0\<rparr>
     \<lparr>p_id = 4, p_user_id = 7, p_question = ''q'', p_options = [''a'', ''b''],
      p_created_at = 1672531200000, p_updated_at = 0, p_is_active = True, p_expires_at = Some 1672617600000\<rparr>
     ''test@example.com'' empty_db
   = ((True, None), empty_db\<lparr>notifications :=
        [\<lparr>n_id = 0, n_user_id = DTime 1672531200000, n_poll_id = 4, n_type = PollClosing,
          n_email = ''test@example.com''\<rparr>], next_id := 1\<rparr>)"
  using sendPollClosingEmail_user_id_is_created_at
    [of "\<lparr>session_user = None, auth_error = None, clock = 0, read_error = None,
       write_error = None, fresh_secret = 0\<rparr>"
     "\<lparr>p_id = 4, p_user_id = 7, p_question = ''q'', p_options = [''a'', ''b''],
      p_created_at = 1672531200000, p_updated_at = 0, p_is_active = True, p_expires_at = Some 1672617600000\<rparr>"
     "''test@example.com''" empty_db]
  by (simp add: empty_db_def)

end
