(* ===== verification/System.thy ===== *)
theory System
  imports Vote Polls Admin Comments Email
begin

text \<open>
  The server as one state machine. A \<open>request\<close> is a call of one of the handlers that
  write to the store: the API routes under \<open>src/app/api\<close>, the server actions of
  \<open>src/app/lib/actions\<close>, and \<open>sendPollClosingEmail\<close>. The read-only handlers
  (\<open>getPollById\<close>, \<open>getUserPolls\<close>, the GET routes, \<open>getAllUsers\<close>,
  \<open>getAllPolls\<close>, \<open>getPlatformStats\<close>, \<open>isAdmin\<close>) leave the store as it is and
  are not requests here. \<open>handle\<close> dispatches a request to its handler with the
  request's \<open>env\<close>; \<open>run\<close> performs a sequence of requests one after the other.
  \<open>purify\<close> is \<open>DOMPurify.sanitize\<close>, the same function for every request.
\<close>

datatype request =
    VotePOST pid json_body
  | SubmitVote pid rat
  | CreatePoll poll_form
  | PollsPOST "poll_form option"
  | UpdatePoll pid poll_form
  | PollsPUT pid "poll_form option"
  | DeletePoll pid
  | PollsDELETE pid
  | UpdateUserRole uid role
  | AdminDeletePoll pid
  | CommentsPOST pid json_body
  | SendPollClosingEmail poll string

fun handle :: "(string \<Rightarrow> string) \<Rightarrow> env \<Rightarrow> request \<Rightarrow> db \<Rightarrow> db" where
  "handle pf e (VotePOST p b) d = snd (vote_POST e p b d)"
| "handle pf e (SubmitVote p r) d = snd (submitVote e p r d)"
| "handle pf e (CreatePoll f) d = snd (createPoll pf e f d)"
| "handle pf e (PollsPOST body) d = snd (polls_POST pf e body d)"
| "handle pf e (UpdatePoll i f) d = snd (updatePoll e i f d)"
| "handle pf e (PollsPUT i body) d = snd (polls_PUT e i body d)"
| "handle pf e (DeletePoll i) d = snd (deletePoll e i d)"
| "handle pf e (PollsDELETE i) d = snd (polls_DELETE e i d)"
| "handle pf e (UpdateUserRole u r) d = snd (updateUserRole e u r d)"
| "handle pf e (AdminDeletePoll i) d = snd (adminDeletePoll e i d)"
| "handle pf e (CommentsPOST p b) d = snd (comments_POST e p b d)"
| "handle pf e (SendPollClosingEmail p r) d = snd (sendPollClosingEmail e p r d)"

definition run :: "(string \<Rightarrow> string) \<Rightarrow> (env \<times> request) list \<Rightarrow> db \<Rightarrow> db" where
  "run pf rs d = foldl (\<lambda>d (e, r). handle pf e r d) d rs"

fun is_vote_request :: "request \<Rightarrow> bool" where
  "is_vote_request (VotePOST _ _) = True"
| "is_vote_request (SubmitVote _ _) = True"
| "is_vote_request _ = False"

subsection \<open>Invariants of the store\<close>

text \<open>Every poll has at least two options (the data model of spec section 3).\<close>

definition polls_wf :: "db \<Rightarrow> bool" where
  "polls_wf d = (\<forall>p \<in> set (polls d). 2 \<le> length (p_options p))"

definition no_admin :: "db \<Rightarrow> bool" where
  "no_admin d = (\<forall>pr \<in> set (profiles d). u_role pr \<noteq> Admin)"

text \<open>
  What one request may do to the store: nothing, or one write of the store interface
  under the guards its handler checked before the write.
\<close>

inductive write_effect :: "(string \<Rightarrow> string) \<Rightarrow> env \<Rightarrow> request \<Rightarrow> db \<Rightarrow> db \<Rightarrow> bool"
  for pf where
  no_write: "write_effect pf e r d d"
| vote_insert: "is_vote_request r \<Longrightarrow> session_user e = Some u \<Longrightarrow> \<not> rate_limited e d u \<Longrightarrow>
    existing_vote e d p u = None \<Longrightarrow> write_effect pf e r d (db_insert_vote e p u oi d)"
| poll_insert: "session_user e = Some u \<Longrightarrow> create_validate e f = CreateValid \<Longrightarrow>
    write_effect pf e r d (db_insert_poll e u (pf (the (form_question f))) (map pf (form_option_list f)) d)"
| poll_update: "session_user e = Some u \<Longrightarrow> update_input_ok f \<Longrightarrow>
    write_effect pf e r d (db_update_poll i u (the (form_question f)) (form_option_list f) d)"
| poll_delete_owner: "session_user e = Some u \<Longrightarrow> read_error e = None \<Longrightarrow>
    map p_user_id (poll_by_id d i) = [u] \<Longrightarrow> write_effect pf e r d (db_delete_poll i d)"
| poll_delete_admin: "isAdmin e d \<Longrightarrow> write_effect pf e r d (db_delete_poll i d)"
| role_update: "isAdmin e d \<Longrightarrow> write_effect pf e r d (db_update_role u rl d)"
| comment_insert: "session_user e = Some u \<Longrightarrow> write_effect pf e r d (db_insert_comment e p u s d)"
| notification_insert: "write_effect pf e r d (db_insert_notification x p t m d)"

subsection \<open>Lemmas\<close>

lemma run_simps [simp]:
  "run pf [] d = d"
  "run pf ((e, r) # rs) d = run pf rs (handle pf e r d)"
  by (simp_all add: run_def)

lemma run_append: "run pf (rs @ rs') d = run pf rs' (run pf rs d)"
  by (simp add: run_def)


lemma createPoll_write_effect: "write_effect pf e r d (snd (createPoll pf e f d))"
  using createPoll_db_cases [of pf e f d] by (auto intro: write_effect.intros)

lemma updatePoll_write_effect: "write_effect pf e r d (snd (updatePoll e i f d))"
  using updatePoll_writes [of e i f d] by (auto intro: write_effect.intros)

lemma deletePoll_write_effect: "write_effect pf e r d (snd (deletePoll e i d))"
  using deletePoll_db_cases [of e i d]
  by (metis write_effect.no_write write_effect.poll_delete_owner)

lemma handle_write_effect: "write_effect pf e r d (handle pf e r d)"
proof (cases r)
  case (VotePOST p b)
  show ?thesis
  proof (cases "snd (vote_POST e p b d) = d")
    case True
    with VotePOST show ?thesis by (simp add: write_effect.no_write)
  next
    case False
    then obtain u oi where ph: "vote_read_phase e p b d = Proceed u oi"
      and db: "snd (vote_POST e p b d) = db_insert_vote e p u oi d"
      using vote_POST_db_cases [of e p b d] by blast
    with VotePOST vote_read_phase_ProceedD [OF ph] show ?thesis
      by (simp add: write_effect.vote_insert)
  qed
next
  case (SubmitVote p oi)
  show ?thesis
  proof (cases "snd (submitVote e p oi d) = d")
    case True
    with SubmitVote show ?thesis by (simp add: write_effect.no_write)
  next
    case False
    then obtain u where "session_user e = Some u" "\<not> rate_limited e d u"
      "existing_vote e d p u = None" "snd (submitVote e p oi d) = db_insert_vote e p u oi d"
      using submitVote_db_cases [of e p oi d] by blast
    with SubmitVote show ?thesis by (simp add: write_effect.vote_insert)
  qed
next
  case (CreatePoll f)
  then show ?thesis by (simp add: createPoll_write_effect)
next
  case (PollsPOST body)
  then show ?thesis
    by (cases body) (simp_all add: polls_POST_db createPoll_write_effect write_effect.no_write)
next
  case (UpdatePoll i f)
  then show ?thesis by (simp add: updatePoll_write_effect)
next
  case (PollsPUT i body)
  then show ?thesis
    by (cases body) (simp_all add: polls_PUT_db updatePoll_write_effect write_effect.no_write)
next
  case (DeletePoll i)
  then show ?thesis by (simp add: deletePoll_write_effect)
next
  case (PollsDELETE i)
  then show ?thesis by (simp add: polls_DELETE_db deletePoll_write_effect)
next
  case (UpdateUserRole u rl)
  then show ?thesis
    using admin_write_cases(1) [of e u rl d] by (auto intro: write_effect.intros)
next
  case (AdminDeletePoll i)
  then show ?thesis
    using admin_write_cases(2) [of e i d] by (auto intro: write_effect.intros)
next
  case (CommentsPOST p b)
  then show ?thesis
    using comments_POST_db_cases [of e p b d] by (auto intro: write_effect.intros)
next
  case (SendPollClosingEmail p m)
  then show ?thesis
    by (auto simp: sendPollClosingEmail_def intro: write_effect.intros split: option.split)
qed

subsection \<open>Invariants preserved by every write\<close>

lemma write_effect_vote_invs:
  assumes "write_effect pf e r d d'" "unique_votes d" "rate_ok d" "read_error e = None"
  shows "unique_votes d' \<and> rate_ok d'"
  using assms(1)
proof cases
  case (vote_insert u p oi)
  then show ?thesis using assms(2-4) by (simp add: insert_preserves_unique insert_preserves_rate_ok)
next
  case (poll_delete_owner u i)
  then show ?thesis
    using filter_votes_preserves_invs [OF assms(2,3), of d' "\<lambda>v. v_poll_id v \<noteq> i"]
    by (simp add: db_delete_poll_votes)
next
  case (poll_delete_admin i)
  then show ?thesis
    using filter_votes_preserves_invs [OF assms(2,3), of d' "\<lambda>v. v_poll_id v \<noteq> i"]
    by (simp add: db_delete_poll_votes)
qed (use assms(2,3) in \<open>simp_all add: unique_votes_def rate_ok_def user_times_def\<close>)

lemma write_effect_polls_wf:
  assumes "write_effect pf e r d d'" "polls_wf d"
  shows "polls_wf d'"
  using assms(1)
proof cases
  case (poll_insert u f)
  then show ?thesis
    using assms(2) create_validate_CreateValid [of e f] by (auto simp: polls_wf_def db_insert_poll_def)
next
  case (poll_update u f i)
  then show ?thesis
    using assms(2) by (auto simp: polls_wf_def db_update_poll_def update_input_ok_def split: option.splits)
qed (use assms(2) in \<open>auto simp: polls_wf_def db_delete_poll_def db_update_role_def
  db_insert_vote_def db_insert_comment_def db_insert_notification_def\<close>)

lemma no_admin_not_isAdmin:
  assumes "no_admin d"
  shows "\<not> isAdmin e d"
proof
  assume "isAdmin e d"
  then obtain a z where z: "filter (\<lambda>r. u_id r = a) (profiles d) = [z]" "u_role z = Admin"
    by (auto simp: isAdmin_conv role_of_def)
  have "z \<in> set (filter (\<lambda>r. u_id r = a) (profiles d))" using z(1) by simp
  then have "z \<in> set (profiles d)" by simp
  with z(2) assms show False by (auto simp: no_admin_def)
qed

lemma write_effect_no_admin:
  assumes "write_effect pf e r d d'" "no_admin d"
  shows "no_admin d'"
  using assms(1)
proof cases
  case (role_update u rl)
  then show ?thesis using assms(2) no_admin_not_isAdmin by blast
qed (use assms(2) in \<open>simp_all add: no_admin_def\<close>)

lemma write_effect_poll_authority:
  assumes "write_effect pf e r d d'" "p \<in> set (polls d)" "p \<notin> set (polls d')"
  shows "\<exists>u. session_user e = Some u \<and> (p_user_id p = u \<or> isAdmin e d)"
  using assms(1)
proof cases
  case (poll_update u f i)
  have "p_user_id p = u"
  proof (rule ccontr)
    assume "p_user_id p \<noteq> u"
    then have "p \<in> set (filter (\<lambda>p. p_user_id p \<noteq> u) (polls d))"
      using assms(2) by simp
    then have "p \<in> set (filter (\<lambda>p. p_user_id p \<noteq> u) (polls d'))"
      using poll_update(1) filter_not_owner_update [of u i _ _ d] by simp
    with assms(3) show False by simp
  qed
  with poll_update show ?thesis by blast
next
  case (poll_delete_owner u i)
  then have "p_id p = i" using assms(2,3) by (auto simp: db_delete_poll_def)
  then have "p_user_id p \<in> set (map p_user_id (poll_by_id d i))"
    using assms(2) by (simp add: poll_by_id_def)
  with poll_delete_owner show ?thesis by auto
next
  case (poll_delete_admin i)
  then show ?thesis by (auto simp: isAdmin_conv)
qed (use assms(2,3) in \<open>simp_all add: db_insert_poll_def db_insert_vote_def db_update_role_def
  db_insert_comment_def db_insert_notification_def\<close>)

lemma write_effect_vote_lifecycle:
  assumes "write_effect pf e r d d'"
  shows "(\<forall>v \<in> set (votes d'). v \<in> set (votes d) \<or>
            is_vote_request r \<and> v_id v = next_id d \<and> v_created_at v = clock e \<and>
            session_user e = Some (v_user_id v))
       \<and> (\<forall>v \<in> set (votes d). v \<notin> set (votes d') \<longrightarrow> (\<forall>p \<in> set (polls d'). p_id p \<noteq> v_poll_id v))"
  using assms
proof cases
  case (vote_insert u p oi)
  then show ?thesis by auto
next
  case (poll_delete_owner u i)
  then show ?thesis by (auto simp: db_delete_poll_def)
next
  case (poll_delete_admin i)
  then show ?thesis by (auto simp: db_delete_poll_def)
qed simp_all

text \<open>A property kept by every request whose environment satisfies \<open>Q\<close> holds after every run of such requests.\<close>

lemma run_preserves:
  assumes step: "\<And>e r d. P d \<Longrightarrow> Q e \<Longrightarrow> P (handle pf e r d)"
    and rs: "list_all (\<lambda>(e, r). Q e) rs" and d: "P d"
  shows "P (run pf rs d)"
  using rs d
proof (induction rs arbitrary: d)
  case Nil
  then show ?case by simp
next
  case (Cons er rs)
  obtain e r where er: "er = (e, r)" by (cases er)
  from Cons.prems er have "P (handle pf e r d)" by (simp add: step)
  with Cons.IH Cons.prems er show ?case by simp
qed

end
