(* ===== verification/Client.thy ===== *)
theory Client
  imports Polls
begin

text \<open>
  The client components whose logic decides what reaches the server or what the user
  sees: the option list and the submission of \<open>PollCreateForm\<close>
  (\<open>src/app/(dashboard)/create/PollCreateForm.tsx\<close>) and of \<open>EditPollForm\<close>
  (\<open>src/app/(dashboard)/polls/[id]/edit/EditPollForm.tsx\<close>), the expiry test and the
  rounding of \<open>getPercentage\<close> of the poll page
  (\<open>src/app/(dashboard)/polls/[id]/page.tsx\<close>), and \<open>PollChart\<close>
  (\<open>src/components/ui/poll-chart.tsx\<close>): the rows it derives from its props and what it
  hands to the charts, the tooltips and the results table. A submission that the browser blocks (an empty \<open>required\<close> input, a
  disabled submit button) is \<open>None\<close>.
\<close>

subsection \<open>The option list of the poll forms\<close>

text \<open>
  Both forms keep the options as a list of strings and edit it with three handlers:
  \<open>addOption\<close> appends an empty option, \<open>removeOption(idx)\<close> keeps the options whose
  index differs from \<open>idx\<close> when there are more than two, \<open>handleOptionChange(idx, v)\<close>
  replaces the option at \<open>idx\<close>.
\<close>

datatype option_edit = AddOption | RemoveOption nat | ChangeOption nat string

definition create_form_init :: "string list" where
  "create_form_init = [[], []]"

fun option_step :: "string list \<Rightarrow> option_edit \<Rightarrow> string list" where
  "option_step opts AddOption = opts @ [[]]"
| "option_step opts (RemoveOption idx) =
     (if 2 < length opts then map fst (filter (\<lambda>(_, i). i \<noteq> idx) (zip opts [0..<length opts]))
      else opts)"
| "option_step opts (ChangeOption idx v) =
     map (\<lambda>(opt, i). if i = idx then v else opt) (zip opts [0..<length opts])"

subsection \<open>Submitting the forms\<close>

text \<open>
  \<open>PollCreateForm\<close>: the question input is named and \<open>required\<close>, the option inputs are
  \<open>required\<close> but unnamed, and \<open>handleSubmit\<close> appends every option whose trim is
  non-empty, trimmed. No \<open>csrf_token\<close> field is sent.
\<close>

definition create_form_submit :: "string \<Rightarrow> string list \<Rightarrow> poll_form option" where
  "create_form_submit q opts =
     (if q = [] \<or> [] \<in> set opts then None
      else Some \<lparr>form_csrf = None, form_question = Some q,
                 form_options = map js_trim (filter (\<lambda>opt. js_trim opt \<noteq> []) opts)\<rparr>)"

text \<open>
  \<open>EditPollForm\<close>: the submit button is disabled while the token state is empty;
  \<open>handleSubmit\<close> appends the token state as \<open>csrf_token\<close>, sets the question and
  replaces the options by the state's options.
\<close>

definition edit_form_submit :: "string \<Rightarrow> string \<Rightarrow> string list \<Rightarrow> poll_form option" where
  "edit_form_submit tok q opts =
     (if tok = [] \<or> q = [] \<or> [] \<in> set opts then None
      else Some \<lparr>form_csrf = Some (CsrfText tok), form_question = Some q, form_options = opts\<rparr>)"

subsection \<open>The poll page\<close>

definition poll_expired :: "timestamp \<Rightarrow> poll \<Rightarrow> bool" where
  "poll_expired now p = (case p_expires_at p of None \<Rightarrow> False | Some t \<Rightarrow> t < now)"

text \<open>\<open>Math.round(votes / totalVotes * 100)\<close>, \<open>Math.round(x) = floor(x + 1/2)\<close>.\<close>

definition getPercentage :: "rat \<Rightarrow> rat \<Rightarrow> int" where
  "getPercentage tot v = (if tot = 0 then 0 else \<lfloor>v / tot * 100 + 1 / 2\<rfloor>)"

subsection \<open>The chart rows of \<open>PollChart\<close>\<close>

text \<open>
  One row per option: the label cut to 20 characters followed by \<open>...\<close>, the full
  name, \<open>voteCounts[index] || 0\<close>, the percentage as the number that
  \<open>toFixed(1)\<close> prints (the nearest tenth, ties up; counts and totals are small
  integers, for which the double quotient is exact enough to round alike), and whether
  it is the user's vote.
\<close>

record chart_row =
  row_name :: string
  row_full_name :: string
  row_votes :: rat
  row_percentage :: rat
  row_user_choice :: bool

definition chart_label :: "string \<Rightarrow> string" where
  "chart_label opt = (if 20 < length opt then take 20 opt @ ''...'' else opt)"

definition count_at :: "rat list \<Rightarrow> nat \<Rightarrow> rat" where
  "count_at counts i = (if i < length counts then counts ! i else 0)"

definition to_fixed_1 :: "rat \<Rightarrow> rat" where
  "to_fixed_1 x = of_int \<lfloor>x * 10 + 1 / 2\<rfloor> / 10"

definition chart_data :: "string list \<Rightarrow> rat list \<Rightarrow> rat \<Rightarrow> nat option \<Rightarrow> chart_row list" where
  "chart_data opts counts tot uv =
     map (\<lambda>(opt, i). \<lparr>row_name = chart_label opt, row_full_name = opt,
                       row_votes = count_at counts i,
                       row_percentage = (if 0 < tot then to_fixed_1 (count_at counts i / tot * 100) else 0),
                       row_user_choice = (uv = Some i)\<rparr>)
         (zip opts [0..<length opts])"

text \<open>
  What \<open>PollChart\<close> renders: the "No votes yet" card when \<open>totalVotes === 0\<close>,
  otherwise the results card, titled with the total and a plural "s" unless the total
  is 1, the rows, and the pie slices, each row with the fill
  \<open>COLORS[index % COLORS.length]\<close>.
\<close>

datatype chart_view = NoVotesCard | ResultsCard rat bool "chart_row list" "(chart_row \<times> string) list"

definition COLORS :: "string list" where
  "COLORS = [''#0088FE'', ''#00C49F'', ''#FFBB28'', ''#FF8042'', ''#8884D8'', ''#82CA9D'',
             ''#FFC658'', ''#FF7C7C'']"

definition pie_data :: "chart_row list \<Rightarrow> (chart_row \<times> string) list" where
  "pie_data rows = map (\<lambda>(row, i). (row, COLORS ! (i mod length COLORS))) (zip rows [0..<length rows])"

definition PollChart :: "string list \<Rightarrow> rat list \<Rightarrow> rat \<Rightarrow> nat option \<Rightarrow> chart_view" where
  "PollChart opts counts tot uv =
     (if tot = 0 then NoVotesCard
      else ResultsCard tot (tot \<noteq> 1) (chart_data opts counts tot uv)
             (pie_data (chart_data opts counts tot uv)))"

text \<open>
  The tooltips of both charts show, for the first entry of a non-empty payload of an
  active tooltip, the full option name, the votes with the percentage, and whether it is
  the user's choice; a pie slice is labelled \<open>name: percentage%\<close> (the cut label). The
  table "Detailed Results" lists every row with a colour swatch
  \<open>COLORS[index % COLORS.length]\<close>, the full name, the "Your choice" mark, the votes
  and the percentage.
\<close>

definition CustomTooltip :: "bool \<Rightarrow> chart_row list \<Rightarrow> (string \<times> rat \<times> rat \<times> bool) option" where
  "CustomTooltip active entries =
     (if active \<and> entries \<noteq> []
      then Some (row_full_name (hd entries), row_votes (hd entries), row_percentage (hd entries),
                 row_user_choice (hd entries))
      else None)"

definition CustomPieTooltip :: "bool \<Rightarrow> chart_row list \<Rightarrow> (string \<times> rat \<times> rat \<times> bool) option" where
  "CustomPieTooltip active entries = CustomTooltip active entries"

definition pie_label :: "chart_row \<Rightarrow> string \<times> rat" where
  "pie_label row = (row_name row, row_percentage row)"

definition results_table :: "chart_row list \<Rightarrow> (string \<times> string \<times> bool \<times> rat \<times> rat) list" where
  "results_table rows =
     map (\<lambda>(row, i). (COLORS ! (i mod length COLORS), row_full_name row, row_user_choice row,
                      row_votes row, row_percentage row))
         (zip rows [0..<length rows])"

subsection \<open>Lemmas\<close>

lemma length_filter_index_remove:
  "length opts \<le> length (filter (\<lambda>(_, i). i \<noteq> idx) (zip opts [0..<length opts])) + 1"
proof -
  let ?zs = "zip opts [0..<length opts]"
  let ?P = "\<lambda>(_, i). i \<noteq> idx"
  have "length (filter ?P ?zs) + length (filter (\<lambda>x. \<not> ?P x) ?zs) = length ?zs"
    by (rule sum_length_filter_compl)
  moreover have "filter (\<lambda>x. \<not> ?P x) ?zs = filter (\<lambda>x. snd x = idx) ?zs"
    by (rule filter_cong) auto
  moreover have "length (filter (\<lambda>x. snd x = idx) ?zs) \<le> 1"
    by (rule distinct_map_filter_le1) simp
  ultimately show ?thesis by simp
qed

text \<open>An edit never brings a list of two or more options below two, nor shortens a shorter one.\<close>

lemma length_option_step_min: "min 2 (length opts) \<le> min 2 (length (option_step opts c))"
proof (cases c)
  case (RemoveOption idx)
  then show ?thesis
    using length_filter_index_remove [where opts = opts and idx = idx] by auto
qed simp_all

lemma length_foldl_option_step:
  "min 2 (length opts) \<le> min 2 (length (foldl option_step opts edits))"
proof (induction edits rule: rev_induct)
  case (snoc c edits)
  then show ?case
    using length_option_step_min [of "foldl option_step opts edits" c] by simp
qed simp

text \<open>The swatch of each row of the results table has the colour of that row's pie slice.\<close>

lemma results_table_colours_match_pie:
  "map fst (results_table rows) = map snd (pie_data rows)"
  by (simp add: results_table_def pie_data_def comp_def case_prod_beta')

text \<open>Every fill the pie takes is a colour of the palette.\<close>

lemma COLORS_nth_mod [simp]: "COLORS ! (i mod length COLORS) \<in> set COLORS"
  by (rule nth_mem) (simp add: COLORS_def)

subsection \<open>Properties of the client components\<close>

text \<open>C34: Whatever sequence of Add Option, Remove and edits the user performs, the option list of a poll form never drops below two options when it starts with two or more, and never shrinks when it starts with fewer: PollCreateForm, which starts from two empty options, always shows at least two, and so does EditPollForm for a poll with at least two options.\<close>

theorem option_edits_keep_two_options:
  "min 2 (length opts) \<le> length (foldl option_step opts edits) \<and>
   2 \<le> length (foldl option_step create_form_init edits)"
  using length_foldl_option_step [of opts edits] length_foldl_option_step [of create_form_init edits]
  by (simp add: create_form_init_def)

text \<open>For a positive total and counts between 0 and the total, chart_data derives one row per option, every label has at most 23 characters, and every percentage lies between 0 and 100.\<close>

theorem chart_rows_bounded:
  assumes "0 < tot" "\<forall>c \<in> set counts. 0 \<le> c \<and> c \<le> tot"
  shows "length (chart_data opts counts tot uv) = length opts \<and>
    (\<forall>row \<in> set (chart_data opts counts tot uv).
       length (row_name row) \<le> 23 \<and> 0 \<le> row_percentage row \<and> row_percentage row \<le> 100)"
proof -
  have c: "0 \<le> count_at counts i \<and> count_at counts i \<le> tot" for i
    using assms(1,2) by (auto simp: count_at_def)
  have pct: "0 \<le> to_fixed_1 (x / tot * 100) \<and> to_fixed_1 (x / tot * 100) \<le> 100"
    if "0 \<le> x" "x \<le> tot" for x
  proof -
    have "0 \<le> x / tot * 100" "x / tot * 100 \<le> 100"
      using that assms(1) by (simp_all add: pos_divide_le_eq)
    then have "0 \<le> \<lfloor>x / tot * 100 * 10 + 1 / 2\<rfloor>" "\<lfloor>x / tot * 100 * 10 + 1 / 2\<rfloor> \<le> 1000"
      by (simp_all add: floor_le_iff)
    then show ?thesis by (simp add: to_fixed_1_def)
  qed
  show ?thesis
    using c pct assms(1)
    by (auto simp: chart_data_def chart_label_def in_set_zip)
qed

theorem chart_rows_bounded_witness:
  "length (chart_data [''A very long option label here'', ''B''] [3, 1] 4 (Some 0)) = 2"
  using chart_rows_bounded [of 4 "[3, 1]" "[''A very long option label here'', ''B'']" "Some 0"] by simp

text \<open>For a vote count between 0 and the total, the poll page's getPercentage lies between 0 and 100.\<close>

theorem getPercentage_bounds:
  assumes "0 \<le> v" "v \<le> tot"
  shows "0 \<le> getPercentage tot v \<and> getPercentage tot v \<le> 100"
proof (cases "tot = 0")
  case False
  then have "0 < tot" using assms by simp
  then have "0 \<le> v / tot * 100" "v / tot * 100 \<le> 100"
    using assms by (simp_all add: pos_divide_le_eq)
  with False show ?thesis by (simp add: getPercentage_def floor_le_iff)
qed (simp add: getPercentage_def)

theorem getPercentage_bounds_witness:
  "getPercentage 3 2 = 67"
proof -
  have "0 \<le> getPercentage 3 2 \<and> getPercentage 3 2 \<le> 100" by (rule getPercentage_bounds) simp_all
  then show ?thesis by (simp add: getPercentage_def floor_eq_iff)
qed


text \<open>C23: For a vote total that is not negative and vote counts between 0 and the total, PollChart shows the "No votes yet" card exactly when the total is 0; otherwise its card carries the total, one row per option, every label at most 23 characters long, every percentage between 0 and 100, and one pie slice per row whose fill is one of the eight COLORS (the index never runs past the palette).\<close>

theorem PollChart_bounded:
  assumes "0 \<le> tot" "\<forall>c \<in> set counts. 0 \<le> c \<and> c \<le> tot"
  shows "(case PollChart opts counts tot uv of
      NoVotesCard \<Rightarrow> tot = 0
    | ResultsCard t plural rows pie \<Rightarrow> t = tot \<and> 0 < tot \<and> length rows = length opts \<and>
        map fst pie = rows \<and>
        (\<forall>row \<in> set rows. length (row_name row) \<le> 23 \<and> 0 \<le> row_percentage row \<and> row_percentage row \<le> 100) \<and>
        (\<forall>x \<in> set pie. snd x \<in> set COLORS))"
proof (cases "tot = 0")
  case True
  then show ?thesis by (simp add: PollChart_def)
next
  case False
  with assms(1) have pos: "0 < tot" by simp
  have pie: "map fst (pie_data rows) = rows \<and> (\<forall>x \<in> set (pie_data rows). snd x \<in> set COLORS)" for rows
    by (auto simp: pie_data_def comp_def case_prod_beta' in_set_zip)
  show ?thesis
    using False pos chart_rows_bounded [OF pos assms(2), of opts uv] pie [of "chart_data opts counts tot uv"]
    by (simp add: PollChart_def)
qed

theorem PollChart_bounded_witness:
  "PollChart [''A very long option label here'', ''B''] [3, 1] 4 (Some 0) \<noteq> NoVotesCard"
  using PollChart_bounded [of 4 "[3, 1]" "[''A very long option label here'', ''B'']" "Some 0"]
  by (auto split: chart_view.splits)

end
