(* ===== verification/PollPage.thy ===== *)
theory PollPage
  imports Vote Polls Email Client
begin

text \<open>
  The poll page \<open>PollDetailPage\<close> (\<open>src/app/(dashboard)/polls/[id]/page.tsx\<close>) as a
  state machine over its React state, composed with the handlers it calls: mounting
  fetches the poll through \<open>GET /api/polls/[id]\<close> (and records a closing notification
  for an expired poll), a click selects an option, the vote button posts to the vote
  route and fetches again. \<open>detail_view\<close> is what the page renders from its state; the
  invariant \<open>detail_inv\<close> holds over every sequence of events from a fresh page. The
  QR code of the page (\<open>src/components/qr-code-display.tsx\<close>) is at the end.
\<close>

subsection \<open>The poll page\<close>

record detail_ui =
  du_poll :: "poll option"
  du_loading :: bool
  du_error :: "string option"
  du_selected :: "nat option"
  du_voted :: bool
  du_submitting :: bool
  du_rendered :: timestamp

definition detail_ui_init :: detail_ui where
  "detail_ui_init = \<lparr>du_poll = None, du_loading = True, du_error = None, du_selected = None,
     du_voted = False, du_submitting = False, du_rendered = 0\<rparr>"

text \<open>
  What the page renders: the loading and error states, "Poll not found", the options
  with the vote button while the user has not voted and the poll is not expired (by the
  clock at rendering), and the results otherwise.
\<close>

datatype detail_view = LoadingView | ErrorView string | NotFoundView | VotingView poll | ResultsView poll

definition detail_view :: "timestamp \<Rightarrow> detail_ui \<Rightarrow> detail_view" where
  "detail_view now s =
     (if du_loading s then LoadingView
      else (case du_error s of
              Some m \<Rightarrow> ErrorView m
            | None \<Rightarrow> (case du_poll s of
                        None \<Rightarrow> NotFoundView
                      | Some p \<Rightarrow> if \<not> du_voted s \<and> \<not> poll_expired now p then VotingView p
                                  else ResultsView p)))"

text \<open>
  \<open>fetchPoll\<close>: \<open>GET /api/polls/[id]\<close>; on success the poll is stored in the state and,
  when it has expired, \<open>sendPollClosingEmail(data.poll, recipient)\<close> is called (not
  awaited) with \<open>data.poll.profiles?.email || "admin@example.com"\<close>; the route's row
  has no \<open>profiles\<close>, so the recipient is always the placeholder.
\<close>

definition detail_fetch :: "env \<Rightarrow> pid \<Rightarrow> detail_ui \<Rightarrow> db \<Rightarrow> detail_ui \<times> db" where
  "detail_fetch e i s d =
     (let r = polls_GET e i d in
      if \<not> resp_ok r
      then (s\<lparr>du_loading := False, du_error := Some (error_or r ''Failed to fetch poll'')\<rparr>, d)
      else (case payload r of
              Inr (Some p) \<Rightarrow>
                (s\<lparr>du_poll := Some p, du_loading := False, du_error := None\<rparr>,
                 if poll_expired (clock e) p then snd (sendPollClosingEmail e p ''admin@example.com'' d) else d)
            | _ \<Rightarrow> (s\<lparr>du_poll := None, du_loading := False, du_error := None\<rparr>, d)))"

text \<open>
  The user's events: mounting (or re-mounting) the page fetches the poll; a click on
  the \<open>k\<close>-th rendered option selects it; the vote button (enabled when an option is
  selected and no vote is being submitted) posts \<open>{ optionIndex }\<close> to the vote route,
  then marks the user as having voted and fetches the poll again, or shows the error.
  React renders when the state changes, and the expiry test \<open>isPollExpired\<close> is
  evaluated then, with the clock of that moment: \<open>du_rendered\<close> is the time of the
  last render, and a click acts on what that render showed. \<open>handleVote\<close> itself
  checks only \<open>selectedOption === null\<close>, not the expiry.
\<close>

datatype detail_event = DFetch | DSelect nat | DVote

fun detail_step :: "env \<Rightarrow> pid \<Rightarrow> detail_event \<Rightarrow> detail_ui \<times> db \<Rightarrow> detail_ui \<times> db" where
  "detail_step e i DFetch (s, d) =
     (case detail_fetch e i (s\<lparr>du_loading := True, du_error := None\<rparr>) d of
        (s', d') \<Rightarrow> (s'\<lparr>du_rendered := clock e\<rparr>, d'))"
| "detail_step e i (DSelect k) (s, d) =
     (case detail_view (du_rendered s) s of
        VotingView p \<Rightarrow> if k < length (p_options p)
                        then (s\<lparr>du_selected := Some k, du_rendered := clock e\<rparr>, d) else (s, d)
      | _ \<Rightarrow> (s, d))"
| "detail_step e i DVote (s, d) =
     (case (detail_view (du_rendered s) s, du_selected s) of
        (VotingView p, Some k) \<Rightarrow>
          if du_submitting s then (s, d)
          else (case vote_POST e i (JsonObject [(''optionIndex'', JNum (of_nat k))]) d of
                  (r, d1) \<Rightarrow>
                    if resp_ok r
                    then (case detail_fetch e i (s\<lparr>du_voted := True, du_loading := True, du_error := None\<rparr>) d1 of
                            (s2, d2) \<Rightarrow> (s2\<lparr>du_submitting := False, du_rendered := clock e\<rparr>, d2))
                    else (s\<lparr>du_error := Some (error_or r ''Failed to submit vote''),
                            du_submitting := False, du_rendered := clock e\<rparr>, d1))
      | _ \<Rightarrow> (s, d))"

definition detail_run :: "pid \<Rightarrow> (env \<times> detail_event) list \<Rightarrow> detail_ui \<times> db \<Rightarrow> detail_ui \<times> db" where
  "detail_run i evs sd = foldl (\<lambda>sd (e, ev). detail_step e i ev sd) sd evs"

text \<open>
  A vote the page may cast on poll \<open>i\<close> of store \<open>d\<close>: for an option the poll has.
  The invariant of a page session started on store \<open>d0\<close>: the
  polls are those of \<open>d0\<close>, the page shows the poll with id \<open>i\<close>, the selected option
  is one of its options, and every new vote is one the page may cast.
\<close>

definition page_vote_ok :: "pid \<Rightarrow> db \<Rightarrow> vote \<Rightarrow> bool" where
  "page_vote_ok i d v =
     (v_poll_id v = i \<and> (\<exists>p \<in> set (polls d). p_id p = i \<and>
        v_option_index v < of_nat (length (p_options p))))"

definition detail_inv :: "pid \<Rightarrow> db \<Rightarrow> detail_ui \<Rightarrow> db \<Rightarrow> bool" where
  "detail_inv i d0 s d =
     (polls d = polls d0 \<and>
      (\<forall>p. du_poll s = Some p \<longrightarrow> p \<in> set (poll_by_id d0 i)) \<and>
      (\<forall>k. du_selected s = Some k \<longrightarrow> (\<exists>p. du_poll s = Some p \<and> k < length (p_options p))) \<and>
      (\<forall>v \<in> set (votes d). v \<in> set (votes d0) \<or> page_vote_ok i d0 v))"

text \<open>
  The card the page renders for a loaded poll: the question, the notice "This poll has
  expired.", and either the options, the selected one highlighted, with the vote button
  (disabled while nothing is selected or a vote is submitted, labelled "Submitting..."
  meanwhile), or the results block with "Total votes". The page reads
  \<open>poll.total_votes || 0\<close> and \<open>poll.profiles?.email || "Unknown"\<close>; the row the GET
  route returns (\<open>select("*")\<close> on \<open>polls\<close>) has neither field, so they are always
  0 and "Unknown". \<open>PollResultsChart\<close> receives no \<open>data\<close> and draws no bars.
\<close>

datatype detail_body =
    OptionsBody "(string \<times> bool) list" bool string
  | ResultsBody rat

record detail_card =
  dc_question :: string
  dc_expired :: bool
  dc_body :: detail_body
  dc_author :: string

definition poll_total_votes :: "poll \<Rightarrow> rat" where
  "poll_total_votes p = 0"

definition poll_author :: "poll \<Rightarrow> string" where
  "poll_author p = ''Unknown''"

definition detail_card :: "timestamp \<Rightarrow> detail_ui \<Rightarrow> poll \<Rightarrow> detail_card" where
  "detail_card now s p =
     \<lparr>dc_question = p_question p, dc_expired = poll_expired now p,
      dc_body = (if \<not> du_voted s \<and> \<not> poll_expired now p
                 then OptionsBody (map (\<lambda>(opt, k). (opt, du_selected s = Some k))
                                       (zip (p_options p) [0..<length (p_options p)]))
                        (du_selected s = None \<or> du_submitting s)
                        (if du_submitting s then ''Submitting...'' else ''Submit Vote'')
                 else ResultsBody (poll_total_votes p)),
      dc_author = poll_author p\<rparr>"

text \<open>
  \<open>QRCodeDisplay\<close> shows the code for a non-empty \<open>url\<close> and a "No URL" box for an
  empty one; the poll page passes it the template
  \<open>`${process.env.NEXT_PUBLIC_BASE_URL}/polls/${params.id}`\<close>, in which an unset
  variable is the text \<open>undefined\<close>.
\<close>

datatype qr_view = QrCode string nat | NoUrlBox

definition QRCodeDisplay :: "string \<Rightarrow> nat \<Rightarrow> qr_view" where
  "QRCodeDisplay url sz = (if url = [] then NoUrlBox else QrCode url sz)"

definition share_url :: "string option \<Rightarrow> string \<Rightarrow> string" where
  "share_url base pid = (case base of None \<Rightarrow> ''undefined'' | Some b \<Rightarrow> b) @ ''/polls/'' @ pid"

definition detail_qr :: "string option \<Rightarrow> string \<Rightarrow> qr_view" where
  "detail_qr base pid = QRCodeDisplay (share_url base pid) 200"

subsection \<open>Lemmas\<close>

lemma detail_fetch_inv:
  assumes "detail_inv i d0 s d"
  shows "detail_inv i d0 (fst (detail_fetch e i s d)) (snd (detail_fetch e i s d))"
proof (cases "resp_ok (polls_GET e i d)")
  case False
  with assms show ?thesis by (simp add: detail_fetch_def detail_inv_def)
next
  case True
  then obtain p where p: "poll_by_id d i = [p]" "payload (polls_GET e i d) = Inr (Some p)"
    using polls_GET_okD by blast
  have pd: "polls d = polls d0" using assms by (simp add: detail_inv_def)
  then have p0: "poll_by_id d0 i = [p]" using p(1) by (simp add: poll_by_id_def)
  have sel: "\<forall>k. du_selected s = Some k \<longrightarrow> k < length (p_options p)"
    using assms p0 by (auto simp: detail_inv_def)
  have db: "polls (snd (sendPollClosingEmail e p ''admin@example.com'' d)) = polls d \<and>
      votes (snd (sendPollClosingEmail e p ''admin@example.com'' d)) = votes d"
    by (simp add: sendPollClosingEmail_def split: option.split)
  show ?thesis
    using True p p0 sel db assms by (auto simp: detail_fetch_def detail_inv_def Let_def)
qed

text \<open>A fetch never changes the votes (the closing notification writes another table).\<close>

lemma detail_fetch_votes: "votes (snd (detail_fetch e i s d)) = votes d"
  by (simp add: detail_fetch_def Let_def sendPollClosingEmail_def split: option.split sum.split if_split)

lemma detail_view_VotingD:
  "detail_view now s = VotingView p \<Longrightarrow> du_poll s = Some p \<and> \<not> poll_expired now p"
  by (auto simp: detail_view_def split: if_splits option.splits)

lemma vote_POST_detail_inv:
  assumes inv: "detail_inv i d0 s d" and p: "du_poll s = Some p" "k < length (p_options p)"
  shows "detail_inv i d0 s (snd (vote_POST e i (JsonObject [(''optionIndex'', JNum (of_nat k))]) d))"
proof (cases "snd (vote_POST e i (JsonObject [(''optionIndex'', JNum (of_nat k))]) d) = d")
  case True
  with inv show ?thesis by simp
next
  case False
  then obtain u r where ph: "vote_read_phase e i (JsonObject [(''optionIndex'', JNum (of_nat k))]) d = Proceed u r"
    and db: "snd (vote_POST e i (JsonObject [(''optionIndex'', JNum (of_nat k))]) d) = db_insert_vote e i u r d"
    using vote_POST_db_cases by blast
  have r: "r = of_nat k" using vote_read_phase_ProceedD [OF ph] by simp
  have p0: "p \<in> set (poll_by_id d0 i)" using inv p(1) by (simp add: detail_inv_def)
  then have "p \<in> set (polls d0)" "p_id p = i" by (simp_all add: poll_by_id_def)
  with p(2) r have "page_vote_ok i d0 \<lparr>v_id = next_id d, v_poll_id = i, v_user_id = u,
      v_option_index = r, v_created_at = clock e\<rparr>"
    by (auto simp: page_vote_ok_def)
  with inv show ?thesis unfolding db by (auto simp: detail_inv_def)
qed

lemma detail_step_inv:
  assumes "detail_inv i d0 s d"
  shows "detail_inv i d0 (fst (detail_step e i ev (s, d))) (snd (detail_step e i ev (s, d)))"
proof (cases ev)
  case DFetch
  have "detail_inv i d0 (s\<lparr>du_loading := True, du_error := None\<rparr>) d"
    using assms by (simp add: detail_inv_def)
  then have "detail_inv i d0 (fst (detail_fetch e i (s\<lparr>du_loading := True, du_error := None\<rparr>) d))
      (snd (detail_fetch e i (s\<lparr>du_loading := True, du_error := None\<rparr>) d))"
    by (rule detail_fetch_inv)
  with DFetch show ?thesis by (auto simp: detail_inv_def split: prod.split)
next
  case (DSelect k)
  with assms show ?thesis
    by (auto simp: detail_inv_def dest: detail_view_VotingD split: detail_view.split)
next
  case DVote
  show ?thesis
  proof (cases "\<exists>p k. detail_view (du_rendered s) s = VotingView p \<and> du_selected s = Some k \<and> \<not> du_submitting s")
    case False
    with DVote assms show ?thesis by (auto split: detail_view.split option.split)
  next
    case True
    then obtain p k where v: "detail_view (du_rendered s) s = VotingView p" "du_selected s = Some k"
      "\<not> du_submitting s" by blast
    from v(1) have pp: "du_poll s = Some p"
      by (simp add: detail_view_VotingD)
    have "k < length (p_options p)" using assms v(2) pp(1) by (auto simp: detail_inv_def)
    then have i1: "detail_inv i d0 s (snd (vote_POST e i (JsonObject [(''optionIndex'', JNum (of_nat k))]) d))"
      (is "detail_inv i d0 s ?d1") using vote_POST_detail_inv [OF assms pp(1)] by blast
    then have "detail_inv i d0 (s\<lparr>du_voted := True, du_loading := True, du_error := None\<rparr>) ?d1"
      by (simp add: detail_inv_def)
    then have "detail_inv i d0 (fst (detail_fetch e i (s\<lparr>du_voted := True, du_loading := True, du_error := None\<rparr>) ?d1))
        (snd (detail_fetch e i (s\<lparr>du_voted := True, du_loading := True, du_error := None\<rparr>) ?d1))"
      by (rule detail_fetch_inv)
    with i1 DVote v show ?thesis
      by (auto simp: detail_inv_def split: prod.split)
  qed
qed

lemma detail_run_inv:
  "detail_inv i d0 s d \<Longrightarrow> detail_inv i d0 (fst (detail_run i evs (s, d))) (snd (detail_run i evs (s, d)))"
proof (induction evs arbitrary: s d)
  case Nil
  then show ?case by (simp add: detail_run_def)
next
  case (Cons ee evs)
  obtain e ev where ee: "ee = (e, ev)" by (cases ee)
  obtain s' d' where sd: "detail_step e i ev (s, d) = (s', d')" by (cases "detail_step e i ev (s, d)")
  have "detail_inv i d0 s' d'" using detail_step_inv [OF Cons.prems, of e ev] sd by simp
  then have "detail_inv i d0 (fst (detail_run i evs (s', d'))) (snd (detail_run i evs (s', d')))"
    by (rule Cons.IH)
  with ee sd show ?case by (simp add: detail_run_def)
qed

text \<open>Exactly the selected option among the rendered ones is highlighted.\<close>

lemma length_filter_zip_upt_eq:
  "length (filter (\<lambda>(x, j). j = k) (zip xs [m..<m + length xs])) =
     (if m \<le> k \<and> k < m + length xs then 1 else 0)"
proof (induction xs arbitrary: m)
  case Nil
  then show ?case by simp
next
  case (Cons x xs)
  have "[m..<m + length (x # xs)] = m # [Suc m..<Suc m + length xs]"
    by (simp add: upt_rec)
  then show ?case using Cons.IH [of "Suc m"] by auto
qed

lemma detail_card_highlight:
  "length (filter snd (map (\<lambda>(opt, k). (opt, sel = Some k)) (zip (xs :: string list) [0..<length xs]))) =
     (case sel of Some k \<Rightarrow> if k < length xs then 1 else 0 | None \<Rightarrow> 0)"
proof (cases sel)
  case None
  then show ?thesis by (simp add: filter_map comp_def split_def)
next
  case (Some k)
  have "filter snd (map (\<lambda>(opt, j). (opt, Some k = Some j)) ys) =
        map (\<lambda>(opt, j). (opt, True)) (filter (\<lambda>(x, j). j = k) ys)" for ys :: "(string \<times> nat) list"
    by (induction ys) auto
  with Some show ?thesis using length_filter_zip_upt_eq [of k xs 0] by simp
qed

text \<open>
  The poll page always shows a code: the "No URL" box is unreachable from it, and with
  the base URL unset the code encodes the relative text \<open>undefined/polls/<id>\<close>.
\<close>

lemma detail_qr_always_code:
  "detail_qr base pid = QrCode (share_url base pid) 200"
  "detail_qr None pid = QrCode (''undefined/polls/'' @ pid) 200"
  by (simp_all add: detail_qr_def QRCodeDisplay_def share_url_def)

subsection \<open>Properties of the poll page\<close>

text \<open>C37: Every vote the poll page casts, over any sequence of fetches, option clicks and vote clicks from a fresh page, is on the page's poll and for an index among that poll's options: the page offers only the rendered options and re-renders with the fetched poll, unlike the route it calls, which accepts any non-negative index (C32).\<close>

theorem detail_page_votes_valid:
  "\<forall>v \<in> set (votes (snd (detail_run i evs (detail_ui_init, d)))).
     v \<in> set (votes d) \<or> page_vote_ok i d v"
proof -
  have "detail_inv i d detail_ui_init d" by (simp add: detail_inv_def detail_ui_init_def)
  then show ?thesis using detail_run_inv [of i d detail_ui_init d evs] by (simp add: detail_inv_def)
qed

theorem detail_page_votes_valid_witness:
  "page_vote_ok 5
     (empty_db\<lparr>polls := [\<lparr>p_id = 5, p_user_id = 2, p_question = ''q'', p_options = [''A'', ''B''],
        p_created_at = 0, p_updated_at = 0, p_is_active = True, p_expires_at = Some 50000\<rparr>]\<rparr>)
     (hd (votes (snd (detail_run 5
        [(\<lparr>session_user = Some 1, auth_error = None, clock = 1000, read_error = None,
           write_error = None, fresh_secret = 0\<rparr>, DFetch),
         (\<lparr>session_user = Some 1, auth_error = None, clock = 2000, read_error = None,
           write_error = None, fresh_secret = 0\<rparr>, DSelect 1),
         (\<lparr>session_user = Some 1, auth_error = None, clock = 3000, read_error = None,
           write_error = None, fresh_secret = 0\<rparr>, DVote)]
        (detail_ui_init, empty_db\<lparr>polls := [\<lparr>p_id = 5, p_user_id = 2, p_question = ''q'',
          p_options = [''A'', ''B''], p_created_at = 0, p_updated_at = 0, p_is_active = True,
          p_expires_at = Some 50000\<rparr>]\<rparr>)))))"
proof -
  let ?d = "empty_db\<lparr>polls := [\<lparr>p_id = 5, p_user_id = 2, p_question = ''q'', p_options = [''A'', ''B''],
        p_created_at = 0, p_updated_at = 0, p_is_active = True, p_expires_at = Some 50000\<rparr>]\<rparr>"
  let ?evs = "[(\<lparr>session_user = Some 1, auth_error = None, clock = 1000, read_error = None,
           write_error = None, fresh_secret = 0\<rparr>, DFetch),
         (\<lparr>session_user = Some 1, auth_error = None, clock = 2000, read_error = None,
           write_error = None, fresh_secret = 0\<rparr>, DSelect 1),
         (\<lparr>session_user = Some 1, auth_error = None, clock = 3000, read_error = None,
           write_error = None, fresh_secret = 0\<rparr>, DVote)]"
  let ?vs = "votes (snd (detail_run 5 ?evs (detail_ui_init, ?d)))"
  have all: "\<forall>v \<in> set ?vs. v \<in> set (votes ?d) \<or> page_vote_ok 5 ?d v"
    by (rule detail_page_votes_valid)
  have ne: "?vs \<noteq> []"
    by (simp add: detail_run_def detail_ui_init_def detail_fetch_def polls_GET_def sb_single_def
        poll_by_id_def poll_expired_def detail_view_def vote_POST_def rate_limited_def
        recent_vote_times_def user_times_def existing_vote_def db_insert_vote_def empty_db_def)
  then have "hd ?vs \<in> set ?vs" by (rule hd_in_set)
  with all show ?thesis by (auto simp: empty_db_def)
qed

text \<open>C22: On a page reached from a fresh page by any sequence of fetches, clicks and votes, whenever the Submit Vote button is enabled exactly one of the rendered options is highlighted, and the button reads Submit Vote.\<close>

theorem detail_enabled_button_one_highlight:
  assumes "detail_view now (fst (detail_run i evs (detail_ui_init, d))) = VotingView p"
    and "dc_body (detail_card now (fst (detail_run i evs (detail_ui_init, d))) p) = OptionsBody rows False lbl"
  shows "length (filter snd rows) = 1 \<and> lbl = ''Submit Vote''"
proof -
  let ?s = "fst (detail_run i evs (detail_ui_init, d))"
  have inv: "detail_inv i d ?s (snd (detail_run i evs (detail_ui_init, d)))"
    using detail_run_inv [of i d detail_ui_init d evs] by (simp add: detail_inv_def detail_ui_init_def)
  have pp: "du_poll ?s = Some p" "\<not> poll_expired now p" using detail_view_VotingD [OF assms(1)] by simp_all
  obtain k where k: "du_selected ?s = Some k" "\<not> du_submitting ?s" "\<not> du_voted ?s"
    and rows: "rows = map (\<lambda>(opt, j). (opt, du_selected ?s = Some j)) (zip (p_options p) [0..<length (p_options p)])"
    and lbl: "lbl = ''Submit Vote''"
    using assms(2) pp(2) by (cases "du_selected ?s") (auto simp: detail_card_def split: if_splits)
  have "k < length (p_options p)" using inv k(1) pp(1) by (auto simp: detail_inv_def)
  then show ?thesis using rows lbl k(1) detail_card_highlight [of "Some k" "p_options p"] by simp
qed

theorem detail_enabled_button_one_highlight_witness:
  "dc_body (detail_card 2500
     (fst (detail_run 5
        [(\<lparr>session_user = Some 1, auth_error = None, clock = 1000, read_error = None,
           write_error = None, fresh_secret = 0\<rparr>, DFetch),
         (\<lparr>session_user = Some 1, auth_error = None, clock = 2000, read_error = None,
           write_error = None, fresh_secret = 0\<rparr>, DSelect 1)]
        (detail_ui_init, empty_db\<lparr>polls := [\<lparr>p_id = 5, p_user_id = 2, p_question = ''q'',
          p_options = [''A'', ''B''], p_created_at = 0, p_updated_at = 0, p_is_active = True,
          p_expires_at = Some 50000\<rparr>]\<rparr>)))
     \<lparr>p_id = 5, p_user_id = 2, p_question = ''q'', p_options = [''A'', ''B''], p_created_at = 0,
      p_updated_at = 0, p_is_active = True, p_expires_at = Some 50000\<rparr>)
   = OptionsBody [(''A'', False), (''B'', True)] False ''Submit Vote''"
  (is "dc_body (detail_card 2500 ?s ?p) = ?b")
proof -
  have v: "detail_view 2500 ?s = VotingView ?p"
    by (simp add: detail_run_def detail_ui_init_def detail_fetch_def polls_GET_def sb_single_def
        poll_by_id_def poll_expired_def detail_view_def empty_db_def)
  have b: "dc_body (detail_card 2500 ?s ?p) = ?b"
    by (simp add: detail_run_def detail_ui_init_def detail_fetch_def polls_GET_def sb_single_def
        poll_by_id_def poll_expired_def detail_view_def detail_card_def empty_db_def)
  have "length (filter snd [(''A'', False), (''B'', True)]) = 1 \<and> ''Submit Vote'' = ''Submit Vote''"
    using detail_enabled_button_one_highlight [OF v b] by simp
  with b show ?thesis by simp
qed


text \<open>C13: The vote button of the poll page casts the vote at the moment of the click, whatever the clock says about the poll's expiry: handleVote checks only that an option is selected, and the expiry test runs when the page renders, so a page rendered before the poll expired still votes after it (the route does not check expiry either, C32).\<close>

theorem detail_vote_ignores_expiry:
  assumes "detail_view (du_rendered s) s = VotingView p" "du_selected s = Some k" "\<not> du_submitting s"
    and "session_user e = Some u" "read_error e = None" "write_error e = None"
    and "\<not> rate_limited e d u" "existing_vote e d i u = None"
  shows "votes (snd (detail_step e i DVote (s, d))) =
    votes d @ [\<lparr>v_id = next_id d, v_poll_id = i, v_user_id = u, v_option_index = of_nat k,
                v_created_at = clock e\<rparr>]"
proof -
  have r: "vote_POST e i (JsonObject [(''optionIndex'', JNum (of_nat k))]) d =
      (ok_resp 200 (), db_insert_vote e i u (of_nat k) d)"
    using assms(4-8) by (simp add: vote_POST_def)
  let ?s1 = "s\<lparr>du_voted := True, du_loading := True, du_error := None\<rparr>"
  let ?d1 = "db_insert_vote e i u (of_nat k) d"
  obtain s2 d2 where f: "detail_fetch e i ?s1 ?d1 = (s2, d2)" by (cases "detail_fetch e i ?s1 ?d1")
  have "votes d2 = votes ?d1" using detail_fetch_votes [of e i ?s1 ?d1] f by simp
  then show ?thesis
    using assms(1-3) r f by (simp add: resp_ok_def db_insert_vote_def)
qed

theorem detail_vote_ignores_expiry_witness:
  "poll_expired 60000 \<lparr>p_id = 5, p_user_id = 2, p_question = ''q'', p_options = [''A'', ''B''],
      p_created_at = 0, p_updated_at = 0, p_is_active = True, p_expires_at = Some 50000\<rparr> \<and>
   votes (snd (detail_run 5
        [(\<lparr>session_user = Some 1, auth_error = None, clock = 40000, read_error = None,
           write_error = None, fresh_secret = 0\<rparr>, DFetch),
         (\<lparr>session_user = Some 1, auth_error = None, clock = 49000, read_error = None,
           write_error = None, fresh_secret = 0\<rparr>, DSelect 1),
         (\<lparr>session_user = Some 1, auth_error = None, clock = 60000, read_error = None,
           write_error = None, fresh_secret = 0\<rparr>, DVote)]
        (detail_ui_init, empty_db\<lparr>polls := [\<lparr>p_id = 5, p_user_id = 2, p_question = ''q'',
          p_options = [''A'', ''B''], p_created_at = 0, p_updated_at = 0, p_is_active = True,
          p_expires_at = Some 50000\<rparr>]\<rparr>)))
   = [\<lparr>v_id = 0, v_poll_id = 5, v_user_id = 1, v_option_index = 1, v_created_at = 60000\<rparr>]"
proof -
  let ?p = "\<lparr>p_id = 5, p_user_id = 2, p_question = ''q'', p_options = [''A'', ''B''],
      p_created_at = 0, p_updated_at = 0, p_is_active = True, p_expires_at = Some 50000\<rparr>"
  let ?d = "empty_db\<lparr>polls := [?p]\<rparr>"
  let ?e = "\<lparr>session_user = Some 1, auth_error = None, clock = 60000, read_error = None,
           write_error = None, fresh_secret = 0\<rparr>"
  let ?evs = "[(\<lparr>session_user = Some 1, auth_error = None, clock = 40000, read_error = None,
           write_error = None, fresh_secret = 0\<rparr>, DFetch),
         (\<lparr>session_user = Some 1, auth_error = None, clock = 49000, read_error = None,
           write_error = None, fresh_secret = 0\<rparr>, DSelect 1)]"
  let ?sd = "detail_run 5 ?evs (detail_ui_init, ?d)"
  have sd: "snd ?sd = ?d"
    by (simp add: detail_run_def detail_ui_init_def detail_fetch_def polls_GET_def sb_single_def
        poll_by_id_def poll_expired_def detail_view_def empty_db_def)
  have v: "detail_view (du_rendered (fst ?sd)) (fst ?sd) = VotingView ?p"
    and k: "du_selected (fst ?sd) = Some 1" and ns: "\<not> du_submitting (fst ?sd)"
    by (simp_all add: detail_run_def detail_ui_init_def detail_fetch_def polls_GET_def sb_single_def
        poll_by_id_def poll_expired_def detail_view_def empty_db_def)
  have "votes (snd (detail_step ?e 5 DVote (fst ?sd, snd ?sd))) =
    votes (snd ?sd) @ [\<lparr>v_id = next_id (snd ?sd), v_poll_id = 5, v_user_id = 1, v_option_index = of_nat 1,
                v_created_at = clock ?e\<rparr>]"
    by (rule detail_vote_ignores_expiry [OF v k ns])
       (simp_all only: sd, simp_all add: rate_limited_def recent_vote_times_def user_times_def
        existing_vote_def empty_db_def)
  moreover have "detail_run 5 (?evs @ [(?e, DVote)]) (detail_ui_init, ?d) = detail_step ?e 5 DVote (fst ?sd, snd ?sd)"
    by (simp only: detail_run_def foldl_append foldl_Cons foldl_Nil prod.case prod.collapse)
  ultimately have "votes (snd (detail_run 5 (?evs @ [(?e, DVote)]) (detail_ui_init, ?d))) =
      votes ?d @ [\<lparr>v_id = next_id ?d, v_poll_id = 5, v_user_id = 1, v_option_index = of_nat 1,
                v_created_at = clock ?e\<rparr>]"
    by (simp only: sd)
  then show ?thesis by (simp add: poll_expired_def empty_db_def)
qed

end
