(* ===== verification/Forms.thy ===== *)
theory Forms
  imports Polls Client
begin

text \<open>
  The two poll forms composed with the handlers they call: \<open>PollCreateForm\<close>
  (\<open>src/app/(dashboard)/create/PollCreateForm.tsx\<close>) calls the server action
  \<open>createPoll\<close>; \<open>EditPollForm\<close> (\<open>src/app/(dashboard)/polls/[id]/edit/EditPollForm.tsx\<close>)
  fetches a token from \<open>GET /api/csrf\<close> on mount and submits to
  \<open>PUT /api/polls/[id]\<close>; the edit page (\<open>edit/page.tsx\<close>) decides between the form and
  \<open>notFound()\<close>. The option list and the form data the browser sends are those of
  \<open>Client\<close>; this theory adds the submissions, the forms' feedback state and what they
  render.
\<close>

subsection \<open>Submitting the poll forms\<close>

datatype form_outcome = FormBlocked | FormError string | FormSuccess

text \<open>
  \<open>PollCreateForm\<close> calls the server action \<open>createPoll\<close> and shows its error, or
  "Poll created!" and redirects.
\<close>

definition PollCreateForm_submit :: "(string \<Rightarrow> string) \<Rightarrow> env \<Rightarrow> string \<Rightarrow> string list \<Rightarrow> db \<Rightarrow>
    form_outcome \<times> db" where
  "PollCreateForm_submit purify e q opts d =
     (case create_form_submit q opts of
        None \<Rightarrow> (FormBlocked, d)
      | Some f \<Rightarrow> (case createPoll purify e f d of
                    (Some m, d') \<Rightarrow> (FormError m, d')
                  | (None, d') \<Rightarrow> (FormSuccess, d')))"

text \<open>
  \<open>EditPollForm\<close> starts from the poll's question and options and, on mount, stores
  \<open>data.token\<close> of \<open>GET /api/csrf\<close> as its token; \<open>formData.append\<close> turns an object
  into the text "[object Object]". A token the route cannot produce (no field, a
  non-object) leaves the token empty, which keeps the submit button disabled.
\<close>

definition EditPollForm_token :: "jsval response \<Rightarrow> string" where
  "EditPollForm_token r =
     (case payload r of Inr JOther \<Rightarrow> ''[object Object]'' | Inr (JStr t) \<Rightarrow> t | _ \<Rightarrow> [])"

definition EditPollForm_submit :: "env \<Rightarrow> string \<Rightarrow> pid \<Rightarrow> string \<Rightarrow> string list \<Rightarrow> db \<Rightarrow>
    form_outcome \<times> db" where
  "EditPollForm_submit e tok i q opts d =
     (case edit_form_submit tok q opts of
        None \<Rightarrow> (FormBlocked, d)
      | Some f \<Rightarrow> (case polls_PUT e i (Some f) d of
                    (r, d') \<Rightarrow> if resp_ok r then (FormSuccess, d')
                               else (FormError (error_or r ''Failed to update poll''), d')))"

text \<open>
  \<open>EditPollPage\<close> (\<open>src/app/(dashboard)/polls/[id]/edit/page.tsx\<close>) fetches the poll on
  the server and calls \<open>notFound()\<close> (\<open>None\<close>) when the response is not ok, carries an
  error or no poll; otherwise it renders \<open>EditPollForm\<close> with the poll, whose option
  list starts as \<open>poll.options || []\<close>.
\<close>

definition EditPollPage :: "poll option response \<Rightarrow> poll option" where
  "EditPollPage r =
     (if \<not> resp_ok r then None
      else (case payload r of Inr (Some p) \<Rightarrow> Some p | _ \<Rightarrow> None))"

definition edit_form_init :: "poll \<Rightarrow> string \<times> string list" where
  "edit_form_init p = (p_question p, p_options p)"

subsection \<open>The forms' state and what they render\<close>

text \<open>
  Both forms keep \<open>error\<close>, \<open>success\<close> and \<open>isLoading\<close>; a submission clears the
  first two, sets \<open>isLoading\<close>, and its outcome sets the error or the success flag
  (\<open>finally\<close> clears \<open>isLoading\<close>); a submission the browser blocks changes nothing.
  Each form renders its option inputs, each with a Remove button while there are more
  than two options, the error when it is a non-empty text, the success notice, and the
  submit button, disabled while loading and, in the edit form, while the token is
  empty. The question input of \<open>PollCreateForm\<close> is uncontrolled: its text is given
  with the submission. \<open>create_step\<close> and \<open>edit_step\<close> are the forms' handlers.
\<close>

record form_state =
  fs_error :: "string option"
  fs_success :: bool
  fs_loading :: bool

definition form_state_init :: form_state where
  "form_state_init = \<lparr>fs_error = None, fs_success = False, fs_loading = False\<rparr>"

definition form_apply :: "form_outcome \<Rightarrow> form_state \<Rightarrow> form_state" where
  "form_apply out s =
     (case out of
        FormBlocked \<Rightarrow> s
      | FormError m \<Rightarrow> \<lparr>fs_error = Some m, fs_success = False, fs_loading = False\<rparr>
      | FormSuccess \<Rightarrow> \<lparr>fs_error = None, fs_success = True, fs_loading = False\<rparr>)"

record form_view =
  fv_options :: "(string \<times> bool) list"
  fv_error :: "string option"
  fv_notice :: "string option"
  fv_submit_disabled :: bool
  fv_submit_label :: string

definition option_inputs :: "string list \<Rightarrow> (string \<times> bool) list" where
  "option_inputs opts = map (\<lambda>opt. (opt, 2 < length opts)) opts"

definition shown_error :: "string option \<Rightarrow> string option" where
  "shown_error err = (case err of Some m \<Rightarrow> if m = [] then None else Some m | None \<Rightarrow> None)"

definition PollCreateForm_view :: "string list \<Rightarrow> form_state \<Rightarrow> form_view" where
  "PollCreateForm_view opts s =
     \<lparr>fv_options = option_inputs opts, fv_error = shown_error (fs_error s),
      fv_notice = (if fs_success s then Some ''Poll created! Redirecting...'' else None),
      fv_submit_disabled = fs_loading s,
      fv_submit_label = (if fs_loading s then ''Creating...'' else ''Create Poll'')\<rparr>"

record create_form_ui =
  cf_options :: "string list"
  cf_form :: form_state

definition PollCreateForm_init :: create_form_ui where
  "PollCreateForm_init = \<lparr>cf_options = create_form_init, cf_form = form_state_init\<rparr>"

datatype create_event = COption option_edit | CSubmit string

fun create_step :: "(string \<Rightarrow> string) \<Rightarrow> env \<Rightarrow> create_event \<Rightarrow> create_form_ui \<times> db \<Rightarrow>
    create_form_ui \<times> db" where
  "create_step pf e (COption c) (s, d) = (s\<lparr>cf_options := option_step (cf_options s) c\<rparr>, d)"
| "create_step pf e (CSubmit q) (s, d) =
     (case PollCreateForm_submit pf e q (cf_options s) d of
        (out, d') \<Rightarrow> (s\<lparr>cf_form := form_apply out (cf_form s)\<rparr>, d'))"

record edit_form_ui =
  ef_question :: string
  ef_options :: "string list"
  ef_token :: string
  ef_form :: form_state

definition EditPollForm_init :: "poll \<Rightarrow> edit_form_ui" where
  "EditPollForm_init p =
     \<lparr>ef_question = fst (edit_form_init p), ef_options = snd (edit_form_init p), ef_token = [],
      ef_form = form_state_init\<rparr>"

definition EditPollForm_view :: "edit_form_ui \<Rightarrow> form_view" where
  "EditPollForm_view s =
     \<lparr>fv_options = option_inputs (ef_options s), fv_error = shown_error (fs_error (ef_form s)),
      fv_notice = (if fs_success (ef_form s) then Some ''Poll updated! Redirecting...'' else None),
      fv_submit_disabled = (fs_loading (ef_form s) \<or> ef_token s = []),
      fv_submit_label = (if fs_loading (ef_form s) then ''Updating...'' else ''Update Poll'')\<rparr>"

datatype edit_event = EMount | EQuestion string | EOption option_edit | ESubmit

fun edit_step :: "env \<Rightarrow> pid \<Rightarrow> edit_event \<Rightarrow> edit_form_ui \<times> db \<Rightarrow> edit_form_ui \<times> db" where
  "edit_step e i EMount (s, d) = (s\<lparr>ef_token := EditPollForm_token (csrf_GET e)\<rparr>, d)"
| "edit_step e i (EQuestion q) (s, d) = (s\<lparr>ef_question := q\<rparr>, d)"
| "edit_step e i (EOption c) (s, d) = (s\<lparr>ef_options := option_step (ef_options s) c\<rparr>, d)"
| "edit_step e i ESubmit (s, d) =
     (case EditPollForm_submit e (ef_token s) i (ef_question s) (ef_options s) d of
        (out, d') \<Rightarrow> (s\<lparr>ef_form := form_apply out (ef_form s)\<rparr>, d'))"

definition edit_run :: "pid \<Rightarrow> (env \<times> edit_event) list \<Rightarrow> edit_form_ui \<times> db \<Rightarrow> edit_form_ui \<times> db" where
  "edit_run i evs sd = foldl (\<lambda>sd (e, ev). edit_step e i ev sd) sd evs"

subsection \<open>Lemmas\<close>

text \<open>The edit page renders the form exactly for a poll the GET route finds.\<close>

lemma EditPollPage_polls_GET:
  "EditPollPage (polls_GET e i d) = (if read_error e = None then single (poll_by_id d i) else None)"
  by (cases "read_error e"; cases "poll_by_id d i" rule: single.cases)
     (simp_all add: EditPollPage_def polls_GET_def sb_single_def)

lemma map_fst_filter_zip_upt:
  "map fst (filter (\<lambda>(_, j). j \<noteq> k) (zip xs [m..<m + length xs])) =
     (if m \<le> k \<and> k < m + length xs then take (k - m) xs @ drop (Suc (k - m)) xs else xs)"
proof (induction xs arbitrary: m)
  case Nil
  then show ?case by simp
next
  case (Cons x xs)
  have "[m..<m + length (x # xs)] = m # [Suc m..<Suc m + length xs]"
    by (simp add: upt_rec)
  moreover have "m < k \<Longrightarrow> Suc (k - Suc m) = k - m" by simp
  ultimately show ?case using Cons.IH [of "Suc m"]
    by (cases "k = m") (auto simp: take_Cons' drop_Cons' not_less_eq_eq)
qed

text \<open>A Remove button is shown on a row exactly when there are more than two options, and then it removes exactly that row.\<close>

lemma option_inputs_remove:
  assumes "idx < length opts" "snd (option_inputs opts ! idx)"
  shows "option_step opts (RemoveOption idx) = take idx opts @ drop (Suc idx) opts"
  using assms map_fst_filter_zip_upt [of idx opts 0] by (simp add: option_inputs_def)

text \<open>The token the edit form stores on mount is the text of an object, so its submit button is enabled.\<close>

lemma EditPollForm_mount_token:
  "ef_token (fst (edit_step e i EMount (s, d))) = ''[object Object]''"
  by (simp add: csrf_GET_def EditPollForm_token_def)

text \<open>No event of the edit form changes the store: every submission is refused for its token.\<close>

lemma edit_step_db: "snd (edit_step e i ev (s, d)) = d"
proof (cases ev)
  case ESubmit
  then show ?thesis
    by (auto simp: EditPollForm_submit_def edit_form_submit_def polls_PUT_def csrf_verify_def
        split: option.split prod.split if_splits)
qed simp_all

lemma edit_run_db: "snd (edit_run i evs (s, d)) = d"
proof (induction evs arbitrary: s)
  case Nil
  then show ?case by (simp add: edit_run_def)
next
  case (Cons ee evs)
  obtain e ev where ee: "ee = (e, ev)" by (cases ee)
  obtain s' d' where sd: "edit_step e i ev (s, d) = (s', d')" by (cases "edit_step e i ev (s, d)")
  have "d' = d" using edit_step_db [of e i ev s d] sd by simp
  with Cons.IH [of s'] ee sd show ?case by (simp add: edit_run_def)
qed

end
