(* ===== verification/Pages.thy ===== *)
theory Pages
  imports PollPage Forms Comments Admin
begin

text \<open>
  The client pages composed with the handlers they call. A page is a record of its
  React state; each user event (a click, a mount, a submit) is a step that may issue a
  request, which runs the server-side handler on the store, and then updates the state
  from the response as the component's code does. \<open>fetch\<close> answers the response of the
  route (\<open>response.ok\<close> is a status in 200..299, \<open>response.json()\<close> its body); a
  server action is called directly. The pages modelled: \<open>PollActions\<close> and the My Polls
  page (\<open>src/app/(dashboard)/polls\<close>), \<open>CommentsSection\<close>
  (\<open>src/components/comments/comments-section.tsx\<close>) and the handlers of
  \<open>AdminDashboard\<close>. A user event is processed to completion before the next one.
\<close>

subsection \<open>\<open>PollActions\<close> and the My Polls page\<close>

text \<open>
  The Edit and Delete buttons are rendered only when \<open>user.id === poll.user_id\<close>.
  \<open>handleDelete\<close> asks for confirmation, sends \<open>DELETE /api/polls/[id]\<close>, reloads the
  page on success and otherwise shows an alert with the route's message.
\<close>

definition show_owner_controls :: "uid option \<Rightarrow> poll \<Rightarrow> bool" where
  "show_owner_controls user p = (user = Some (p_user_id p))"

datatype delete_outcome = DeleteCancelled | PageReloaded | DeleteAlert string

definition PollActions_delete :: "env \<Rightarrow> bool \<Rightarrow> poll \<Rightarrow> db \<Rightarrow> delete_outcome \<times> db" where
  "PollActions_delete e confirmed p d =
     (if \<not> confirmed then (DeleteCancelled, d)
      else (case polls_DELETE e (p_id p) d of
              (r, d') \<Rightarrow> if resp_ok r then (PageReloaded, d')
                         else (DeleteAlert (''Failed to delete poll: '' @ error_text r), d')))"

text \<open>
  \<open>PollsPage\<close> fetches \<open>/api/polls/user\<close>. No route defines it: the dynamic route
  \<open>/api/polls/[id]\<close> serves it with \<open>id = "user"\<close>, and its GET answers
  \<open>{ poll, error }\<close>. \<open>PollsPage\<close> reads the status and the body of any response:
  a status outside 200..299 throws and becomes "Failed to load polls"; otherwise the
  list is \<open>data.polls || []\<close> (an absent key or a value that is not a list of polls
  gives the empty list) and the error \<open>data.error\<close>.
\<close>

definition PollsPage :: "nat \<Rightarrow> (string \<times> body_val) list \<Rightarrow> poll list \<times> string option" where
  "PollsPage st body =
     (if \<not> (200 \<le> st \<and> st < 300) then ([], Some ''Failed to load polls'')
      else ((case map_of body ''polls'' of Some (BPolls ps) \<Rightarrow> ps | _ \<Rightarrow> []),
            (case map_of body ''error'' of Some (BText m) \<Rightarrow> m | _ \<Rightarrow> None)))"

text \<open>
  The card \<open>PollActions\<close> renders for a poll: the question and the number of options
  inside a link to the poll page, and, for the owner only, the Edit link and the
  Delete button (disabled and relabelled while the delete runs).
\<close>

record poll_card =
  pc_question :: string
  pc_option_count :: nat
  pc_controls :: "(string \<times> bool) option"

definition PollActions_view :: "uid option \<Rightarrow> bool \<Rightarrow> poll \<Rightarrow> poll_card" where
  "PollActions_view user deleting p =
     \<lparr>pc_question = p_question p, pc_option_count = length (p_options p),
      pc_controls = (if show_owner_controls user p
                     then Some (if deleting then ''Deleting...'' else ''Delete'', deleting) else None)\<rparr>"

subsection \<open>\<open>CommentsSection\<close>\<close>

record comments_ui =
  cu_comments :: "comment list"
  cu_new :: string
  cu_loading :: bool
  cu_error :: "string option"

definition comments_ui_init :: comments_ui where
  "comments_ui_init = \<lparr>cu_comments = [], cu_new = [], cu_loading = False, cu_error = None\<rparr>"

text \<open>\<open>fetchComments\<close> on the response of \<open>GET /api/polls/[id]/comments\<close>.\<close>

definition fetchComments :: "comment list response \<Rightarrow> comments_ui \<Rightarrow> comments_ui" where
  "fetchComments r s =
     (if resp_ok r
      then s\<lparr>cu_comments := (case payload r of Inr cs \<Rightarrow> cs | Inl _ \<Rightarrow> cu_comments s),
             cu_loading := False, cu_error := None\<rparr>
      else s\<lparr>cu_loading := False, cu_error := Some (error_or r ''Failed to fetch comments'')\<rparr>)"

text \<open>
  A response of the POST route that is not JSON (the bare 500 page of a handler that
  threw) makes \<open>response.json()\<close> throw; its message is the parser's.
\<close>

definition json_parse_error :: string where
  "json_parse_error = ''Unexpected token < in JSON at position 0''"

definition postComment_result :: "comment response option \<Rightarrow> comments_ui \<Rightarrow> comments_ui" where
  "postComment_result r s =
     (case r of
        None \<Rightarrow> s\<lparr>cu_loading := False, cu_error := Some json_parse_error\<rparr>
      | Some r \<Rightarrow>
          if resp_ok r
          then s\<lparr>cu_comments := (case payload r of Inr c \<Rightarrow> c # cu_comments s | Inl _ \<Rightarrow> cu_comments s),
                 cu_new := [], cu_loading := False\<rparr>
          else s\<lparr>cu_loading := False, cu_error := Some (error_or r ''Failed to post comment'')\<rparr>)"

text \<open>
  \<open>handlePostComment\<close>: nothing when the text is blank; otherwise it posts
  \<open>JSON.stringify({ content: newComment })\<close> (the untrimmed text) and applies the answer.
\<close>

definition handlePostComment :: "env \<Rightarrow> pid \<Rightarrow> comments_ui \<Rightarrow> db \<Rightarrow> comments_ui \<times> db" where
  "handlePostComment e i s d =
     (if js_trim (cu_new s) = [] then (s, d)
      else (case comments_POST e i (JsonObject [(''content'', JStr (cu_new s))]) d of
              (r, d') \<Rightarrow> (postComment_result r (s\<lparr>cu_loading := True, cu_error := None\<rparr>), d')))"

datatype comments_event = FetchComments | TypeComment string | PostComment

fun comments_step :: "env \<Rightarrow> pid \<Rightarrow> comments_event \<Rightarrow> comments_ui \<times> db \<Rightarrow> comments_ui \<times> db" where
  "comments_step e i FetchComments (s, d) =
     (fetchComments (comments_GET e i d) (s\<lparr>cu_loading := True, cu_error := None\<rparr>), d)"
| "comments_step e i (TypeComment t) (s, d) = (s\<lparr>cu_new := t\<rparr>, d)"
| "comments_step e i PostComment (s, d) = handlePostComment e i s d"

text \<open>The section shows what the server would list for the poll.\<close>

definition comments_synced :: "pid \<Rightarrow> comments_ui \<Rightarrow> db \<Rightarrow> bool" where
  "comments_synced i s d = (cu_comments s = comments_of d i)"

text \<open>
  What the section renders: "Error: " and the error when it is a non-empty text,
  "Loading comments..." while loading an empty list, "No comments yet" when the list is
  empty and nothing is loading or failed, otherwise one entry per comment (the
  author's \<open>profiles.username\<close>, or "Anonymous" when the joined profile has none or
  an empty one, the content and the date), and the text area and the button, both
  disabled while loading, the button also while the text is blank. \<open>username\<close> is a
  column of the hosted \<open>profiles\<close> table that the data model of the repository does
  not list; it is the parameter \<open>un\<close>. The avatar is not modelled.
\<close>

datatype comments_list = NoCommentsYet | CommentItems "(string \<times> string \<times> timestamp) list"

record comments_panel =
  cp_error :: "string option"
  cp_loading_note :: bool
  cp_list :: comments_list
  cp_input_disabled :: bool
  cp_button_disabled :: bool
  cp_button_label :: string

definition comment_author :: "(uid \<Rightarrow> string option) \<Rightarrow> comment \<Rightarrow> string" where
  "comment_author un c =
     (case un (c_user_id c) of Some n \<Rightarrow> if n = [] then ''Anonymous'' else n | None \<Rightarrow> ''Anonymous'')"

definition CommentsSection_view :: "(uid \<Rightarrow> string option) \<Rightarrow> comments_ui \<Rightarrow> comments_panel" where
  "CommentsSection_view un s =
     \<lparr>cp_error = map_option (\<lambda>m. ''Error: '' @ m) (shown_error (cu_error s)),
      cp_loading_note = (cu_loading s \<and> cu_comments s = []),
      cp_list = (if cu_comments s = [] \<and> \<not> cu_loading s \<and> shown_error (cu_error s) = None
                 then NoCommentsYet
                 else CommentItems (map (\<lambda>c. (comment_author un c, c_content c, c_created_at c)) (cu_comments s))),
      cp_input_disabled = cu_loading s,
      cp_button_disabled = (cu_loading s \<or> js_trim (cu_new s) = []),
      cp_button_label = (if cu_loading s then ''Posting...'' else ''Post Comment'')\<rparr>"

subsection \<open>\<open>AdminDashboard\<close>\<close>

text \<open>
  \<open>handleRoleUpdate\<close> and \<open>handleDeletePoll\<close> call the admin actions and either alert
  the error or refresh the page (which re-runs \<open>AdminPage\<close>). The role button of a
  user row asks for the other role (\<open>toggle_role\<close>).
\<close>

datatype admin_outcome = AdminCancelled | AdminRefreshed | AdminAlert string

definition handleRoleUpdate :: "env \<Rightarrow> uid \<Rightarrow> role \<Rightarrow> db \<Rightarrow> admin_outcome \<times> db" where
  "handleRoleUpdate e u r d =
     (case updateUserRole e u r d of
        (Some m, d') \<Rightarrow> (AdminAlert (''Error updating role: '' @ m), d')
      | (None, d') \<Rightarrow> (AdminRefreshed, d'))"

definition handleDeletePoll :: "env \<Rightarrow> bool \<Rightarrow> pid \<Rightarrow> db \<Rightarrow> admin_outcome \<times> db" where
  "handleDeletePoll e confirmed i d =
     (if \<not> confirmed then (AdminCancelled, d)
      else (case adminDeletePoll e i d of
              (Some m, d') \<Rightarrow> (AdminAlert (''Error deleting poll: '' @ m), d')
            | (None, d') \<Rightarrow> (AdminRefreshed, d')))"

definition role_button :: "env \<Rightarrow> profile \<Rightarrow> db \<Rightarrow> admin_outcome \<times> db" where
  "role_button e pr d = handleRoleUpdate e (u_id pr) (toggle_role (u_role pr)) d"

text \<open>
  What \<open>AdminDashboard\<close> renders from the three results \<open>AdminPage\<close> passes it: the
  statistics cards when \<open>stats\<close> is set; in each tab the error text when the result
  carries a non-empty error, otherwise one row per user (e-mail, join date, role badge
  and the "Make User"/"Make Admin" button) or per poll (question, owner e-mail or
  "Unknown", date, Delete button, options). \<open>loading\<close> holds the id of the row whose
  action is running; its button is disabled and relabelled. User and poll ids are
  distinct strings in the code, kept apart here by \<open>busy\<close>.
\<close>

datatype busy = BusyUser uid | BusyPoll pid

record user_row =
  ur_email :: string
  ur_joined :: timestamp
  ur_badge :: role
  ur_button :: string
  ur_disabled :: bool

record poll_row =
  pr_question :: string
  pr_author :: string
  pr_created :: timestamp
  pr_button :: string
  pr_disabled :: bool
  pr_options :: "string list"

datatype 'a admin_tab = TabError string | TabRows "'a list"

record admin_view =
  av_stats :: "platform_stats option"
  av_users :: "user_row admin_tab"
  av_polls :: "poll_row admin_tab"

definition role_label :: "role \<Rightarrow> string" where
  "role_label r = (if r = Admin then ''User'' else ''Admin'')"

definition user_row :: "busy option \<Rightarrow> profile \<Rightarrow> user_row" where
  "user_row b pr =
     \<lparr>ur_email = u_email pr, ur_joined = u_created_at pr, ur_badge = u_role pr,
      ur_button = (if b = Some (BusyUser (u_id pr)) then ''Updating...'' else ''Make '' @ role_label (u_role pr)),
      ur_disabled = (b = Some (BusyUser (u_id pr)))\<rparr>"

definition poll_row :: "busy option \<Rightarrow> poll \<times> string option \<Rightarrow> poll_row" where
  "poll_row b pe =
     \<lparr>pr_question = p_question (fst pe),
      pr_author = (case snd pe of Some m \<Rightarrow> if m = [] then ''Unknown'' else m | None \<Rightarrow> ''Unknown''),
      pr_created = p_created_at (fst pe),
      pr_button = (if b = Some (BusyPoll (p_id (fst pe))) then ''Deleting...'' else ''Delete''),
      pr_disabled = (b = Some (BusyPoll (p_id (fst pe)))),
      pr_options = p_options (fst pe)\<rparr>"

definition admin_tab :: "('a \<Rightarrow> 'b) \<Rightarrow> 'a list \<times> string option \<Rightarrow> 'b admin_tab" where
  "admin_tab f r =
     (case snd r of
        Some m \<Rightarrow> if m = [] then TabRows (map f (fst r)) else TabError m
      | None \<Rightarrow> TabRows (map f (fst r)))"

definition AdminDashboard :: "busy option \<Rightarrow> profile list \<times> string option \<Rightarrow>
    (poll \<times> string option) list \<times> string option \<Rightarrow> platform_stats option \<times> string option \<Rightarrow> admin_view" where
  "AdminDashboard b us ps st =
     \<lparr>av_stats = fst st, av_users = admin_tab (user_row b) us, av_polls = admin_tab (poll_row b) ps\<rparr>"

definition admin_page_view :: "env \<Rightarrow> db \<Rightarrow> admin_view option" where
  "admin_page_view e d =
     (case AdminPage e d of
        None \<Rightarrow> None
      | Some (us, ps, st) \<Rightarrow> Some (AdminDashboard None us ps st))"

subsection \<open>Lemmas\<close>

text \<open>The Post Comment button and its handler agree: with a blank text the handler does nothing, and an enabled button posts the text as typed.\<close>

lemma CommentsSection_button_handler:
  "js_trim (cu_new s) = [] \<Longrightarrow> comments_step e i PostComment (s, d) = (s, d)"
  "\<not> cp_button_disabled (CommentsSection_view un s) \<Longrightarrow>
     comments_step e i PostComment (s, d) =
       (case comments_POST e i (JsonObject [(''content'', JStr (cu_new s))]) d of
          (r, d') \<Rightarrow> (postComment_result r (s\<lparr>cu_loading := True, cu_error := None\<rparr>), d'))"
  by (simp_all add: handlePostComment_def CommentsSection_view_def)

text \<open>A post either leaves the list and the store as they were, or adds the new comment to both.\<close>

lemma handlePostComment_cases:
  "snd (handlePostComment e i s d) = d \<and> cu_comments (fst (handlePostComment e i s d)) = cu_comments s \<or>
   (\<exists>u. session_user e = Some u \<and> write_error e = None \<and>
      cu_comments (fst (handlePostComment e i s d)) =
        \<lparr>c_id = next_id d, c_poll_id = i, c_user_id = u,
         c_content = js_trim (cu_new s), c_created_at = clock e\<rparr> # cu_comments s \<and>
      snd (handlePostComment e i s d) = db_insert_comment e i u (js_trim (cu_new s)) d)"
  by (cases "cu_new s")
     (auto simp: handlePostComment_def comments_POST_def postComment_result_def
           split: option.splits)

subsection \<open>Properties of the pages\<close>

text \<open>C35: The My Polls page lists exactly the polls a successful response carries under the key polls, but the route that serves /api/polls/user, GET /api/polls/[id] with id "user", never sends that key: for every store and id the page lists no poll, and it shows an error exactly when that GET fails.\<close>

theorem PollsPage_never_lists:
  "(200 \<le> st \<and> st < 300 \<longrightarrow> fst (PollsPage st ((''polls'', BPolls ps) # body)) = ps) \<and>
   fst (PollsPage (status (polls_GET e i d)) (polls_GET_body (polls_GET e i d))) = [] \<and>
   (snd (PollsPage (status (polls_GET e i d)) (polls_GET_body (polls_GET e i d))) = None \<longleftrightarrow>
      resp_ok (polls_GET e i d))"
proof (intro conjI impI)
  show "fst (PollsPage st ((''polls'', BPolls ps) # body)) = ps" if "200 \<le> st \<and> st < 300"
    using that by (simp add: PollsPage_def)
  have t: "response_typed [200, 404] (polls_GET e i d)"
    by (simp add: polls_GET_def split: option.split prod.split)
  show "fst (PollsPage (status (polls_GET e i d)) (polls_GET_body (polls_GET e i d))) = []"
    by (simp add: PollsPage_def polls_GET_body_def split: sum.split)
  show "snd (PollsPage (status (polls_GET e i d)) (polls_GET_body (polls_GET e i d))) = None \<longleftrightarrow>
      resp_ok (polls_GET e i d)"
    using t by (auto simp: PollsPage_def polls_GET_body_def resp_ok_def response_typed_def split: sum.split)
qed

theorem PollsPage_never_lists_witness:
  "fst (PollsPage 200 [(''polls'', BPolls [\<lparr>p_id = 5, p_user_id = 1, p_question = ''q'',
      p_options = [''a'', ''b''], p_created_at = 0, p_updated_at = 0, p_is_active = True,
      p_expires_at = None\<rparr>])]) \<noteq> []"
proof -
  let ?p = "\<lparr>p_id = 5, p_user_id = 1, p_question = ''q'',
      p_options = [''a'', ''b''], p_created_at = 0, p_updated_at = 0, p_is_active = True,
      p_expires_at = None\<rparr>"
  have "fst (PollsPage 200 [(''polls'', BPolls [?p])]) = [?p]"
    using PollsPage_never_lists [of 200 "[?p]" "[]" "\<lparr>session_user = None, auth_error = None, clock = 0,
      read_error = None, write_error = None, fresh_secret = 0\<rparr>" 5 empty_db] by simp
  then show ?thesis by simp
qed

text \<open>C36: The comment list of CommentsSection refines the server's view comments_of: a fetch with a succeeding read makes the list equal to the poll's comments newest first, and typing or posting keeps it equal (a successful post prepends exactly the comment the server inserted, a failed one changes neither), provided no stored comment is dated after the request.\<close>

theorem comments_ui_refines_server:
  assumes "read_error e = None" "\<forall>c \<in> set (comments d). c_created_at c \<le> clock e"
    and "ev = FetchComments \<or> comments_synced i s d"
  shows "comments_synced i (fst (comments_step e i ev (s, d))) (snd (comments_step e i ev (s, d)))"
proof (cases ev)
  case FetchComments
  with assms(1) show ?thesis
    by (simp add: comments_synced_def fetchComments_def comments_GET_def)
next
  case (TypeComment t)
  with assms(3) show ?thesis by (simp add: comments_synced_def)
next
  case PostComment
  with assms(3) have sync: "cu_comments s = comments_of d i" by (simp add: comments_synced_def)
  from handlePostComment_cases [of e i s d] show ?thesis
  proof (elim disjE exE conjE)
    assume "snd (handlePostComment e i s d) = d"
      "cu_comments (fst (handlePostComment e i s d)) = cu_comments s"
    with PostComment sync show ?thesis by (simp add: comments_synced_def)
  next
    fix u assume "cu_comments (fst (handlePostComment e i s d)) =
        \<lparr>c_id = next_id d, c_poll_id = i, c_user_id = u,
         c_content = js_trim (cu_new s), c_created_at = clock e\<rparr> # cu_comments s"
      "snd (handlePostComment e i s d) = db_insert_comment e i u (js_trim (cu_new s)) d"
    with PostComment sync assms(2) show ?thesis
      by (simp add: comments_synced_def comments_of_insert)
qed
qed

theorem comments_ui_refines_server_witness:
  "cu_comments (fst (comments_step \<lparr>session_user = None, auth_error = None, clock = 9,
       read_error = None, write_error = None, fresh_secret = 0\<rparr> 3 FetchComments
     (comments_ui_init, empty_db\<lparr>comments := [\<lparr>c_id = 0, c_poll_id = 3, c_user_id = 2,
        c_content = ''first'', c_created_at = 4\<rparr>]\<rparr>)))
   = [\<lparr>c_id = 0, c_poll_id = 3, c_user_id = 2, c_content = ''first'', c_created_at = 4\<rparr>]"
proof -
  let ?e = "\<lparr>session_user = None, auth_error = None, clock = 9,
       read_error = None, write_error = None, fresh_secret = 0\<rparr>"
  let ?d = "empty_db\<lparr>comments := [\<lparr>c_id = 0, c_poll_id = 3, c_user_id = 2,
        c_content = ''first'', c_created_at = 4\<rparr>]\<rparr>"
  have "comments_synced 3 (fst (comments_step ?e 3 FetchComments (comments_ui_init, ?d)))
      (snd (comments_step ?e 3 FetchComments (comments_ui_init, ?d)))"
    by (rule comments_ui_refines_server) simp_all
  then show ?thesis by (simp add: comments_synced_def comments_of_def)
qed

text \<open>C40: The Delete button of PollActions does nothing when not confirmed; when confirmed it deletes the poll (with its votes and comments) and reloads the page exactly when the caller owns the poll, which is exactly when the button is shown, and otherwise leaves the store unchanged and alerts the route's message.\<close>

theorem PollActions_delete_owner:
  assumes "auth_error e = None" "read_error e = None" "write_error e = None"
    and "poll_by_id d (p_id p) = [p]"
  shows "PollActions_delete e False p d = (DeleteCancelled, d) \<and>
    PollActions_delete e True p d =
      (if show_owner_controls (session_user e) p then (PageReloaded, db_delete_poll (p_id p) d)
       else if session_user e = None
       then (DeleteAlert ''Failed to delete poll: You must be logged in to delete a poll.'', d)
       else (DeleteAlert ''Failed to delete poll: You don't have permission to delete this poll'', d))"
  using assms
  by (auto simp: PollActions_delete_def polls_DELETE_def show_owner_controls_def error_text_def
      split: option.splits)

theorem PollActions_delete_owner_witness:
  "PollActions_delete \<lparr>session_user = Some 3, auth_error = None, clock = 0, read_error = None,
       write_error = None, fresh_secret = 0\<rparr> True
     \<lparr>p_id = 5, p_user_id = 2, p_question = ''q'', p_options = [''A'', ''B''],
        p_created_at = 0, p_updated_at = 0, p_is_active = True, p_expires_at = None\<rparr>
     (empty_db\<lparr>polls := [\<lparr>p_id = 5, p_user_id = 2, p_question = ''q'', p_options = [''A'', ''B''],
        p_created_at = 0, p_updated_at = 0, p_is_active = True, p_expires_at = None\<rparr>]\<rparr>)
   = (DeleteAlert ''Failed to delete poll: You don't have permission to delete this poll'',
      empty_db\<lparr>polls := [\<lparr>p_id = 5, p_user_id = 2, p_question = ''q'', p_options = [''A'', ''B''],
        p_created_at = 0, p_updated_at = 0, p_is_active = True, p_expires_at = None\<rparr>]\<rparr>)"
proof -
  let ?e = "\<lparr>session_user = Some 3, auth_error = None, clock = 0, read_error = None,
       write_error = None, fresh_secret = 0\<rparr>"
  let ?p = "\<lparr>p_id = 5, p_user_id = 2, p_question = ''q'', p_options = [''A'', ''B''],
        p_created_at = 0, p_updated_at = 0, p_is_active = True, p_expires_at = None\<rparr>"
  let ?d = "empty_db\<lparr>polls := [?p]\<rparr>"
  have "poll_by_id ?d (p_id ?p) = [?p]" by (simp add: poll_by_id_def)
  then show ?thesis
    using PollActions_delete_owner [where e = ?e and d = ?d and p = ?p]
    by (simp add: show_owner_controls_def)
qed

text \<open>C24: The admin page renders, for an admin, the store's exact counts, every profile newest first with a button that names the role the click asks for, and every poll newest first with its owner's e-mail (or Unknown) and its options; every other caller is redirected and sees no data.\<close>

theorem admin_page_shows_store:
  "admin_page_view e d =
     (if isAdmin e d
      then Some \<lparr>av_stats = Some \<lparr>total_users = length (profiles d), total_polls = length (polls d),
                    total_votes = length (votes d),
                    recent_polls = length (filter (\<lambda>p. clock e - seven_days_ms \<le> p_created_at p) (polls d))\<rparr>,
                 av_users = TabRows (map (user_row None) (rev (sort_key u_created_at (profiles d)))),
                 av_polls = TabRows (map (\<lambda>p. poll_row None (p, poll_owner_email d p))
                                        (rev (sort_key p_created_at (polls d))))\<rparr>
      else None) \<and>
   (\<forall>pr. ur_button (user_row None pr) = ''Make '' @ (if toggle_role (u_role pr) = Admin then ''Admin'' else ''User''))"
proof -
  have b: "ur_button (user_row None pr) = ''Make '' @ (if toggle_role (u_role pr) = Admin then ''Admin'' else ''User'')" for pr
    by (cases "u_role pr") (simp_all add: user_row_def role_label_def toggle_role_def)
  show ?thesis
  proof (cases "isAdmin e d")
    case True
    then have "read_error e = None" by (simp add: isAdmin_conv)
    with True b show ?thesis
      by (simp add: admin_page_view_def AdminPage_def AdminDashboard_def admin_tab_def
          admin_action_defs count_or_zero_def)
  next
    case False
    with b show ?thesis by (simp add: admin_page_view_def AdminPage_def)
  qed
qed

end
