(* ===== verification/Spec2Isabelle.thy ===== *)
theory Spec2Isabelle
  imports System Client PollPage Forms Pages
begin

text \<open>
  \<^bold>\<open>A verification library of alx-polly.\<close>
  alx-polly is a Next.js poll application on a hosted Supabase backend. Its server code is
  a set of request handlers, each of which resolves the caller with
  \<open>supabase.auth.getUser()\<close>, checks its input, issues one to three queries and
  answers: the API routes under \<open>src/app/api\<close> and the server actions of
  \<open>src/app/lib/actions\<close>. The client components under \<open>src/app/(dashboard)\<close> and
  \<open>src/components\<close> build the requests and display the answers. The handlers share no
  memory; they interact only through the database, so the development models the
  database as one state and each handler as a function from a request's environment,
  its input and the state to an answer and the new state.

  \<^bold>\<open>Theories.\<close>
  \<^item> \<open>Prelude\<close>: identifiers (\<open>nat\<close>), timestamps (integer milliseconds), the JSON
    values a handler sees after \<open>request.json()\<close> (\<open>jsval\<close>, \<open>json_body\<close>,
    \<open>body_field\<close>, JavaScript truthiness and \<open>trim\<close>), responses
    \<open>NextResponse.json(body, { status })\<close> as a status and an \<open>Inl\<close> error or
    \<open>Inr\<close> payload, Supabase's \<open>.single()\<close> (\<open>single\<close>), and the counting
    lemmas on sorted lists used by the rate limiter.
  \<^item> \<open>Store\<close>: the rows of \<open>src/app/lib/types/index.ts\<close> as records, the database
    \<open>db\<close> (tables as lists, in insertion order, and the next generated id), the
    per-request environment \<open>env\<close> (the session user and auth error of
    \<open>getUser()\<close>, the clock, a read error and a write error the backend may
    answer, the secret drawn by \<open>csrf.secret()\<close>), and the backend operations the
    handlers call (\<open>select_rows\<close>, \<open>sb_single\<close>, the inserts, \<open>db_update_poll\<close>,
    \<open>db_delete_poll\<close> with its cascade, \<open>db_update_role\<close>). The backend client
    \<open>@/lib/supabase/server\<close> is not among the sources; these operations follow the
    PostgREST semantics the handlers rely on.
  \<^item> \<open>Vote\<close>: \<open>POST /api/polls/[id]/vote\<close> (\<open>vote_POST\<close>, with \<open>rate_limited\<close>
    and \<open>existing_vote\<close>) and the action \<open>submitVote\<close>; the invariants
    \<open>unique_votes\<close> and \<open>rate_ok\<close>; the reachable states \<open>vote_reach\<close>; the
    interleaving \<open>vote_conc\<close> of read and write phases of concurrent requests; the
    abstract contract \<open>vote_spec\<close> of spec section 4.1 on multisets of ballots and
    the refinement of it by the route (C1 to C12); the frame lemma that the route never reads
    the polls table (C32); the liveness of voting (C38).
  \<^item> \<open>Polls\<close>: \<open>createPoll\<close>/\<open>POST /api/polls\<close>, \<open>updatePoll\<close>/\<open>PUT\<close>,
    \<open>deletePoll\<close>/\<open>DELETE /api/polls/[id]\<close>, \<open>getPollById\<close>, \<open>GET\<close>,
    \<open>getUserPolls\<close>, the CSRF route and the ideal \<open>csrf.verify\<close> (C14 to C20).
  \<^item> \<open>Admin\<close>: \<open>isAdmin\<close> and the admin actions of \<open>admin-actions.ts\<close>, the admin
    page (C21). \<open>Comments\<close>: \<open>GET/POST /api/polls/[id]/comments\<close> (C25).
    \<open>Email\<close>: \<open>sendPollClosingEmail\<close> (C26).
  \<^item> \<open>System\<close>: the server as one state machine: \<open>request\<close> names every
    state-changing handler, \<open>handle\<close> dispatches it, \<open>run\<close> performs a sequence;
    the inductive \<open>write_effect\<close> lists the writes a request may make with the
    guards its handler checked, and \<open>handle_write_effect\<close> shows every handler stays
    within it. Invariants are proved once per kind of write, by rule inversion.
  \<^item> \<open>Client\<close>: the option list and the form data of \<open>PollCreateForm\<close> and
    \<open>EditPollForm\<close>, the expiry test and \<open>getPercentage\<close> of the poll page, and
    \<open>PollChart\<close>: its rows, its render decision (the no-votes card, the plural title,
    the pie fills \<open>COLORS[index % COLORS.length]\<close>), its tooltips and its results
    table (C23, C34).
  \<^item> The client pages, each a state machine over its React state whose user events
    are steps that call the server handler and update the state from the response, with
    a view function for what it renders. \<open>PollPage\<close>: the poll page (fetch, option
    clicks, vote, the rendered card, with the time of its last render) and its QR code
    (C13, C22, C37). \<open>Forms\<close>: both poll
    forms (\<open>create_step\<close>, \<open>edit_step\<close>, their feedback state and views) and the
    not-found decision of the edit page. \<open>Pages\<close>: \<open>PollActions\<close> and the My Polls
    page, \<open>CommentsSection\<close>, and \<open>AdminDashboard\<close> with the admin page (C24, C35,
    C36, C40).
  \<^item> This theory: the properties that span components (C27 to C31, C33) and the shape of the
    responses of every route (C39).

  \<^bold>\<open>What the lemmas show.\<close>
  Functional lemmas give each handler's answer and new state on every branch, errors
  included, and that every error leaves the store unchanged. Safety lemmas say who may
  change what (owners, admins). Invariants are proved for the vote route alone by rule
  induction on \<open>vote_reach\<close> and for the whole server over every \<open>run\<close>.
  Equivalence lemmas relate each route to the server action with the same logic.
  The refinement lemmas relate \<open>vote_POST\<close> to \<open>vote_spec\<close> and the comment list
  of the client to the server's list (\<open>comments_synced\<close>). The liveness lemma gives
  a time after which a caller's vote is accepted; the type lemma bounds the statuses
  and body shapes of every route; the bounds lemma keeps every chart percentage in
  [0, 100], every label within 23 characters and every pie fill inside the palette. Client invariants (the poll page only casts votes
  for shown options of its poll, and its enabled vote button always comes with one
  highlighted option; the expiry is tested only when the page renders, so a click on a
  page rendered before expiry still votes, C13) are proved by induction over event sequences; view lemmas tie
  what a page renders to what its handlers do (an enabled button issues its request,
  a shown Remove button removes exactly its row). Several theorems state
  behaviour that differs from the spec, from comments or from tests (the duplicate-vote
  race, fail-open reads, the CSRF check that refuses every form, the notification's
  \<open>user_id\<close>); they are listed as findings of the manifest.

  \<^bold>\<open>Modelling choices.\<close>
  JSON numbers are rationals (no NaN or infinities in JSON). Timestamps are integer
  milliseconds and do not overflow. Every handler ends after at most three queries
  and has no loop other than over lists, so no fuel or partial functions are needed;
  all definitions are executable, and all are total (there is no termination
  property to prove beyond the structural recursion \<open>fun\<close> checks). A request's reads either all succeed or all fail
  (\<open>read_error\<close>), which is what the handlers' branches distinguish. Rows with equal
  sort keys are returned in insertion order (the store may choose another order).
  \<open>DOMPurify.sanitize\<close> is a parameter (\<open>purify\<close>, \<open>pf\<close>) of the create path.
  \<open>csrf.verify\<close> is ideal: it accepts exactly the tokens made by \<open>csrf.create\<close> for
  the secret, which nothing in the sources calls.

  \<^bold>\<open>Not modelled.\<close>
  Styling and layout (class names, icons, the avatar of a comment, the placeholder
  texts), the drawing done by recharts and \<open>qrcode.react\<close> (the views stop at the data
  handed to them), \<open>revalidatePath\<close> and \<open>router.refresh\<close> (page cache only),
  \<open>PollResultsChart\<close> (it only passes its \<open>data\<close> prop, which its only caller does not
  pass, to recharts), the share buttons of the poll page (no handlers), the locale
  formatting of dates, and \<open>jest.config.js\<close> (test configuration). Timers
  (\<open>setTimeout\<close> redirects) and the interleaving of a page's events with other
  clients' requests are not modelled: a page's events run one at a time on the store,
  so the loading flags of the pages are never observed set between events.
  Console logging has no state. Schema constraints of the hosted database (foreign
  keys, column types, row-level security) are not in the repository; a write they
  would reject is a \<open>write_error\<close> of the environment.
\<close>

subsection \<open>Properties of the whole server\<close>

text \<open>C27: Every run of the whole server (any interleaving of the vote, poll, admin, comment and notification handlers) whose reads succeed keeps the vote invariants: no caller has two votes on one poll, and no caller has more than five votes in any 60-second window.\<close>

theorem run_one_vote_per_poll_and_rate:
  assumes "list_all (\<lambda>(e, r). read_error e = None) rs" "unique_votes d" "rate_ok d"
  shows "unique_votes (run pf rs d) \<and> rate_ok (run pf rs d)"
  using run_preserves [where P = "\<lambda>d. unique_votes d \<and> rate_ok d" and Q = "\<lambda>e. read_error e = None"]
    assms handle_write_effect write_effect_vote_invs by blast

theorem run_one_vote_per_poll_and_rate_witness:
  "unique_votes (run id
     [(\<lparr>session_user = Some 1, auth_error = None, clock = 1000, read_error = None,
        write_error = None, fresh_secret = 0\<rparr>, VotePOST 5 (JsonObject [(''optionIndex'', JNum 1)])),
      (\<lparr>session_user = Some 1, auth_error = None, clock = 2000, read_error = None,
        write_error = None, fresh_secret = 0\<rparr>, VotePOST 5 (JsonObject [(''optionIndex'', JNum 0)])),
      (\<lparr>session_user = Some 2, auth_error = None, clock = 3000, read_error = None,
        write_error = None, fresh_secret = 0\<rparr>, PollsDELETE 5)] empty_db)"
proof -
  let ?rs = "[(\<lparr>session_user = Some 1, auth_error = None, clock = 1000, read_error = None,
        write_error = None, fresh_secret = 0\<rparr>, VotePOST 5 (JsonObject [(''optionIndex'', JNum 1)])),
      (\<lparr>session_user = Some 1, auth_error = None, clock = 2000, read_error = None,
        write_error = None, fresh_secret = 0\<rparr>, VotePOST 5 (JsonObject [(''optionIndex'', JNum 0)])),
      (\<lparr>session_user = Some 2, auth_error = None, clock = 3000, read_error = None,
        write_error = None, fresh_secret = 0\<rparr>, PollsDELETE 5)]"
  have rs: "list_all (\<lambda>(e, r). read_error e = None) ?rs" by simp
  have d: "unique_votes empty_db" "rate_ok empty_db"
    by (simp_all add: unique_votes_def rate_ok_def empty_db_def)
  show ?thesis using run_one_vote_per_poll_and_rate [OF rs d, of id] by (rule conjunct1)
qed

text \<open>C28: Every run of the whole server keeps every poll at two options or more (spec section 3): creation and update both require two non-empty options, and no other handler writes options.\<close>

theorem run_polls_two_options:
  assumes "polls_wf d"
  shows "polls_wf (run pf rs d)"
proof (rule run_preserves [where Q = "\<lambda>_. True"])
  show "polls_wf (handle pf e r d)" if "polls_wf d" for e r d
    using write_effect_polls_wf [OF handle_write_effect that] .
  show "list_all (\<lambda>(e, r). True) rs" by (simp add: list_all_iff case_prod_beta)
qed (rule assms)

theorem run_polls_two_options_witness:
  "polls_wf (run id
     [(\<lparr>session_user = Some 1, auth_error = None, clock = 1000, read_error = None,
        write_error = None, fresh_secret = 7\<rparr>,
       CreatePoll \<lparr>form_csrf = Some (CsrfToken 7), form_question = Some ''Tea or coffee?'',
                   form_options = [''tea'', [], ''coffee'']\<rparr>)] empty_db)"
  by (rule run_polls_two_options) (simp add: polls_wf_def empty_db_def)

text \<open>C29: No run of the server turns a store without an admin into one with an admin: only updateUserRole writes roles, and only for an admin caller.\<close>

theorem run_no_admin_bootstrap:
  assumes "no_admin d"
  shows "no_admin (run pf rs d)"
proof (rule run_preserves [where Q = "\<lambda>_. True"])
  show "no_admin (handle pf e r d)" if "no_admin d" for e r d
    using write_effect_no_admin [OF handle_write_effect that] .
  show "list_all (\<lambda>(e, r). True) rs" by (simp add: list_all_iff case_prod_beta)
qed (rule assms)

theorem run_no_admin_bootstrap_witness:
  "no_admin (run id
     [(\<lparr>session_user = Some 1, auth_error = None, clock = 1000, read_error = None,
        write_error = None, fresh_secret = 0\<rparr>, UpdateUserRole 1 Admin)]
     (empty_db\<lparr>profiles := [\<lparr>u_id = 1, u_email = ''a@x'', u_role = User, u_created_at = 0\<rparr>]\<rparr>))"
  by (rule run_no_admin_bootstrap) (simp add: no_admin_def)

text \<open>C30: A request that changes or removes a poll row has a resolved caller who owns the poll or is an admin.\<close>

theorem handle_poll_change_authority:
  assumes "p \<in> set (polls d)" "p \<notin> set (polls (handle pf e r d))"
  shows "\<exists>u. session_user e = Some u \<and> (p_user_id p = u \<or> isAdmin e d)"
  using write_effect_poll_authority [OF handle_write_effect assms] .

theorem handle_poll_change_authority_witness:
  "\<exists>u. session_user \<lparr>session_user = Some 2, auth_error = None, clock = 0,
       read_error = None, write_error = None, fresh_secret = 0\<rparr> = Some u \<and> u = 2"
proof -
  let ?p = "\<lparr>p_id = 5, p_user_id = 2, p_question = ''q'', p_options = [''a'', ''b''],
                  p_created_at = 0, p_updated_at = 0, p_is_active = True, p_expires_at = None\<rparr>"
  let ?e = "\<lparr>session_user = Some 2, auth_error = None, clock = 0,
       read_error = None, write_error = None, fresh_secret = 0\<rparr>"
  let ?d = "empty_db\<lparr>polls := [?p]\<rparr>"
  have "?p \<in> set (polls ?d)" by simp
  moreover have "?p \<notin> set (polls (handle id ?e (DeletePoll 5) ?d))"
    by (simp add: deletePoll_def poll_by_id_def sb_single_def db_delete_poll_def)
  ultimately have "\<exists>u. session_user ?e = Some u \<and> (p_user_id ?p = u \<or> isAdmin ?e ?d)"
    by (rule handle_poll_change_authority)
  then show ?thesis by (simp add: isAdmin_def sb_single_def)
qed

text \<open>C31: Votes are only created by the vote requests (with the next id, the request time and the session user) and never updated; a vote disappears only when its poll is deleted (spec section 3, lifecycle).\<close>

theorem handle_vote_lifecycle:
  "(\<forall>v \<in> set (votes (handle pf e r d)). v \<in> set (votes d) \<or>
      is_vote_request r \<and> v_id v = next_id d \<and> v_created_at v = clock e \<and>
      session_user e = Some (v_user_id v))
   \<and> (\<forall>v \<in> set (votes d). v \<notin> set (votes (handle pf e r d)) \<longrightarrow>
      (\<forall>p \<in> set (polls (handle pf e r d)). p_id p \<noteq> v_poll_id v))"
  using write_effect_vote_lifecycle [OF handle_write_effect] .

theorem handle_vote_lifecycle_witness:
  "v_created_at (hd (votes (handle id \<lparr>session_user = Some 1, auth_error = None, clock = 1000,
        read_error = None, write_error = None, fresh_secret = 0\<rparr> (SubmitVote 5 1) empty_db))) = 1000"
proof -
  let ?e = "\<lparr>session_user = Some 1, auth_error = None, clock = 1000,
        read_error = None, write_error = None, fresh_secret = 0\<rparr>"
  let ?vs = "votes (handle id ?e (SubmitVote 5 1) empty_db)"
  have all: "\<forall>v \<in> set ?vs. v \<in> set (votes empty_db) \<or>
      is_vote_request (SubmitVote 5 1) \<and> v_id v = next_id empty_db \<and> v_created_at v = clock ?e \<and>
      session_user ?e = Some (v_user_id v)"
    using handle_vote_lifecycle [of id ?e "SubmitVote 5 1" empty_db] by (rule conjunct1)
  have "?vs \<noteq> []"
    by (simp add: submitVote_def rate_limited_def recent_vote_times_def user_times_def
        existing_vote_def db_insert_vote_def empty_db_def)
  then have "hd ?vs \<in> set ?vs" by (rule hd_in_set)
  with all show ?thesis by (auto simp: empty_db_def)
qed

text \<open>C33: Every submission that PollCreateForm can make is refused by createPoll with Invalid CSRF token, and every submission of EditPollForm is refused by PUT /api/polls/[id] with 403, whatever the question, options and token text: creating and editing polls through the UI never succeeds.\<close>

theorem poll_forms_always_refused:
  "(create_form_submit q opts = Some f \<longrightarrow> createPoll pf e f d = (Some ''Invalid CSRF token'', d))
   \<and> (edit_form_submit tok q' opts' = Some f' \<longrightarrow>
        polls_PUT e i (Some f') d = (err_resp 403 ''Invalid CSRF token'', d))"
  by (auto simp: create_form_submit_def edit_form_submit_def createPoll_def create_validate_def
      polls_PUT_def csrf_verify_def split: if_splits)

theorem poll_forms_always_refused_witness:
  "createPoll id \<lparr>session_user = Some 1, auth_error = None, clock = 0, read_error = None,
       write_error = None, fresh_secret = 3\<rparr>
     \<lparr>form_csrf = None, form_question = Some ''Tea or coffee?'', form_options = [''tea'', ''coffee'']\<rparr>
     empty_db = (Some ''Invalid CSRF token'', empty_db)
   \<and> polls_PUT \<lparr>session_user = Some 1, auth_error = None, clock = 0, read_error = None,
       write_error = None, fresh_secret = 3\<rparr> 5
     (Some \<lparr>form_csrf = Some (CsrfText ''[object Object]''), form_question = Some ''Tea?'',
            form_options = [''yes'', ''no'']\<rparr>)
     empty_db = (err_resp 403 ''Invalid CSRF token'', empty_db)"
proof -
  have c: "create_form_submit ''Tea or coffee?'' [''tea'', '' coffee'']
    = Some \<lparr>form_csrf = None, form_question = Some ''Tea or coffee?'', form_options = [''tea'', ''coffee'']\<rparr>"
    by (simp add: create_form_submit_def js_trim_def js_is_space_def)
  have u: "edit_form_submit ''[object Object]'' ''Tea?'' [''yes'', ''no'']
    = Some \<lparr>form_csrf = Some (CsrfText ''[object Object]''), form_question = Some ''Tea?'',
            form_options = [''yes'', ''no'']\<rparr>"
    by (simp add: edit_form_submit_def)
  show ?thesis
    using poll_forms_always_refused [of "''Tea or coffee?''" "[''tea'', '' coffee'']" _ id
      "\<lparr>session_user = Some 1, auth_error = None, clock = 0, read_error = None,
       write_error = None, fresh_secret = 3\<rparr>" empty_db "''[object Object]''" "''Tea?''" "[''yes'', ''no'']"]
      c u by simp
qed

subsection \<open>The shape of the responses\<close>

text \<open>C39: Every response of the API routes has the shape its route documents: a status among the route's codes (for the vote route exactly those of spec section 6: 200, 400, 401, 409, 429, 500) and an error body exactly when the status is not a success; a comment POST that does not throw answers likewise.\<close>

theorem routes_response_typed:
  "response_typed [200, 400, 401, 409, 429, 500] (fst (vote_POST e p b d)) \<and>
   response_typed [200, 400, 401, 403, 500] (fst (polls_POST pf e body d)) \<and>
   response_typed [200, 400, 401, 403, 500] (fst (polls_PUT e i body d)) \<and>
   response_typed [200, 401, 403, 404, 500] (fst (polls_DELETE e i d)) \<and>
   response_typed [200, 404] (polls_GET e i d) \<and>
   response_typed [200, 500] (comments_GET e i d) \<and>
   pred_option (response_typed [201, 400, 401, 500]) (fst (comments_POST e i b d)) \<and>
   response_typed [200] (csrf_GET e)"
proof (intro conjI)
  show "response_typed [200, 400, 401, 409, 429, 500] (fst (vote_POST e p b d))"
    by (simp add: vote_POST_def split: option.split jsval.split)
  show "response_typed [200, 400, 401, 403, 500] (fst (polls_POST pf e body d))"
    by (simp add: polls_POST_def split: option.split create_check.split)
  show "response_typed [200, 400, 401, 403, 500] (fst (polls_PUT e i body d))"
    by (simp add: polls_PUT_def split: option.split)
  show "response_typed [200, 401, 403, 404, 500] (fst (polls_DELETE e i d))"
    by (simp add: polls_DELETE_def split: option.split prod.split)
  show "response_typed [200, 404] (polls_GET e i d)"
    by (simp add: polls_GET_def split: option.split prod.split)
  show "response_typed [200, 500] (comments_GET e i d)"
    by (simp add: comments_GET_def split: option.split)
  show "pred_option (response_typed [201, 400, 401, 500]) (fst (comments_POST e i b d))"
    by (simp add: comments_POST_def split: option.split jsval.split)
  show "response_typed [200] (csrf_GET e)"
    by (simp add: csrf_GET_def)
qed

end
